theory Spec2Isabelle
  imports Main "HOL-Library.Word"
begin

unbundle bit_operations_syntax

section \<open>The registry system calls of ntoskrnl/cm/ntfunc.c\<close>

text \<open>
  A shallow embedding of the Nt* registry entry points and of the callback registry of
  \<^verbatim>\<open>ntoskrnl/cm/ntfunc.c\<close>. Every entry point is a function from the registry state
  to a status, its outputs and the new state. A result \<open>None\<close> stands for an access
  through a dangling pointer or cell index; no such access happens on a key object that
  passes \<^verbatim>\<open>VERIFY_KEY_OBJECT\<close>. \<open>CmUnRegisterCallback\<close>, the one routine that waits for
  another thread, returns or is blocked, and a blocked call is run on from a later state.
\<close>

subsection \<open>Machine types and status codes\<close>

type_synonym NTSTATUS = "32 word"
type_synonym ULONG = "32 word"
type_synonym USHORT = "16 word"
type_synonym UCHAR = "8 word"
type_synonym WCHAR = "16 word"
type_synonym LARGE_INTEGER = "64 word"
type_synonym ACCESS_MASK = "32 word"
type_synonym HCELL_INDEX = "32 word"
type_synonym HANDLE = "32 word"
type_synonym PVOID = nat

text \<open>\<^verbatim>\<open>NT_SUCCESS(Status)\<close> is \<^verbatim>\<open>((NTSTATUS)(Status)) >= 0\<close> on a signed 32-bit value.\<close>

definition NT_SUCCESS :: "NTSTATUS \<Rightarrow> bool" where
  "NT_SUCCESS Status = (0 \<le> sint Status)"

text \<open>The status codes and masks come from the NT headers, which the file includes.\<close>

abbreviation (input) STATUS_SUCCESS :: NTSTATUS where "STATUS_SUCCESS \<equiv> 0"
abbreviation (input) STATUS_BUFFER_OVERFLOW :: NTSTATUS where "STATUS_BUFFER_OVERFLOW \<equiv> 0x80000005"
abbreviation (input) STATUS_NO_MORE_ENTRIES :: NTSTATUS where "STATUS_NO_MORE_ENTRIES \<equiv> 0x8000001A"
abbreviation (input) STATUS_UNSUCCESSFUL :: NTSTATUS where "STATUS_UNSUCCESSFUL \<equiv> 0xC0000001"
abbreviation (input) STATUS_NOT_IMPLEMENTED :: NTSTATUS where "STATUS_NOT_IMPLEMENTED \<equiv> 0xC0000002"
abbreviation (input) STATUS_INVALID_INFO_CLASS :: NTSTATUS where "STATUS_INVALID_INFO_CLASS \<equiv> 0xC0000003"
abbreviation (input) STATUS_INFO_LENGTH_MISMATCH :: NTSTATUS where "STATUS_INFO_LENGTH_MISMATCH \<equiv> 0xC0000004"
abbreviation (input) STATUS_INVALID_HANDLE :: NTSTATUS where "STATUS_INVALID_HANDLE \<equiv> 0xC0000008"
abbreviation (input) STATUS_INVALID_PARAMETER :: NTSTATUS where "STATUS_INVALID_PARAMETER \<equiv> 0xC000000D"
abbreviation (input) STATUS_ACCESS_DENIED :: NTSTATUS where "STATUS_ACCESS_DENIED \<equiv> 0xC0000022"
abbreviation (input) STATUS_BUFFER_TOO_SMALL :: NTSTATUS where "STATUS_BUFFER_TOO_SMALL \<equiv> 0xC0000023"
abbreviation (input) STATUS_OBJECT_NAME_NOT_FOUND :: NTSTATUS where "STATUS_OBJECT_NAME_NOT_FOUND \<equiv> 0xC0000034"
abbreviation (input) STATUS_INSUFFICIENT_RESOURCES :: NTSTATUS where "STATUS_INSUFFICIENT_RESOURCES \<equiv> 0xC000009A"
abbreviation (input) STATUS_CANNOT_DELETE :: NTSTATUS where "STATUS_CANNOT_DELETE \<equiv> 0xC0000121"

abbreviation (input) HCELL_NULL :: HCELL_INDEX where "HCELL_NULL \<equiv> 0xFFFFFFFF"
abbreviation (input) KO_MARKED_FOR_DELETE :: ULONG where "KO_MARKED_FOR_DELETE \<equiv> 0x00000001"
abbreviation (input) HIVE_NO_FILE :: ULONG where "HIVE_NO_FILE \<equiv> 0x00000002"
abbreviation (input) REG_KEY_VOLATILE_CELL :: USHORT where "REG_KEY_VOLATILE_CELL \<equiv> 0x0001"
abbreviation (input) REG_KEY_LINK_CELL :: USHORT where "REG_KEY_LINK_CELL \<equiv> 0x0010"
abbreviation (input) REG_KEY_NAME_PACKED :: USHORT where "REG_KEY_NAME_PACKED \<equiv> 0x0020"
abbreviation (input) REG_DATA_SIZE_MASK :: ULONG where "REG_DATA_SIZE_MASK \<equiv> 0x7FFFFFFF"
abbreviation (input) REG_DATA_IN_OFFSET :: ULONG where "REG_DATA_IN_OFFSET \<equiv> 0x80000000"
abbreviation (input) REG_VALUE_NAME_PACKED :: USHORT where "REG_VALUE_NAME_PACKED \<equiv> 0x0001"
abbreviation (input) REG_LINK :: ULONG where "REG_LINK \<equiv> 6"

abbreviation (input) DELETE :: ACCESS_MASK where "DELETE \<equiv> 0x00010000"
abbreviation (input) KEY_QUERY_VALUE :: ACCESS_MASK where "KEY_QUERY_VALUE \<equiv> 0x0001"
abbreviation (input) KEY_SET_VALUE :: ACCESS_MASK where "KEY_SET_VALUE \<equiv> 0x0002"
abbreviation (input) KEY_ENUMERATE_SUB_KEYS :: ACCESS_MASK where "KEY_ENUMERATE_SUB_KEYS \<equiv> 0x0008"
abbreviation (input) MAXIMUM_ALLOWED :: ACCESS_MASK where "MAXIMUM_ALLOWED \<equiv> 0x02000000"
abbreviation (input) GENERIC_ALL :: ACCESS_MASK where "GENERIC_ALL \<equiv> 0x10000000"
abbreviation (input) GENERIC_ACCESS :: ACCESS_MASK where "GENERIC_ACCESS \<equiv> 0xF0000000"
abbreviation (input) OBJ_INHERIT :: ULONG where "OBJ_INHERIT \<equiv> 0x00000002"
abbreviation (input) OBJ_KERNEL_HANDLE :: ULONG where "OBJ_KERNEL_HANDLE \<equiv> 0x00000200"
abbreviation (input) EX_HANDLE_ENTRY_INHERITABLE :: ULONG where "EX_HANDLE_ENTRY_INHERITABLE \<equiv> 0x00000002"
abbreviation (input) REG_CREATED_NEW_KEY :: ULONG where "REG_CREATED_NEW_KEY \<equiv> 1"
abbreviation (input) REG_OPENED_EXISTING_KEY :: ULONG where "REG_OPENED_EXISTING_KEY \<equiv> 2"
abbreviation (input) BACKSLASH :: WCHAR where "BACKSLASH \<equiv> 0x5C"

subsection \<open>Hives and cells\<close>

datatype HV_STORAGE_TYPE = HvStable | HvVolatile

text \<open>
  \<^verbatim>\<open>CM_KEY_NODE\<close> and \<^verbatim>\<open>CM_KEY_VALUE\<close> with the fields the entry points read and write.
  The two-element arrays \<^verbatim>\<open>SubKeyCounts\<close> and \<^verbatim>\<open>SubKeyLists\<close> are functions of the
  storage type.
\<close>

record CM_KEY_NODE =
  NodeFlags :: USHORT
  LastWriteTime :: LARGE_INTEGER
  Parent :: HCELL_INDEX
  SubKeyCounts :: "HV_STORAGE_TYPE \<Rightarrow> ULONG"
  SubKeyLists :: "HV_STORAGE_TYPE \<Rightarrow> HCELL_INDEX"
  ValueListCount :: ULONG
  ValueListOffset :: HCELL_INDEX
  SecurityKeyOffset :: HCELL_INDEX
  ClassNameOffset :: HCELL_INDEX
  NameSize :: USHORT
  ClassSize :: USHORT
  NodeName :: "UCHAR list"

text \<open>
  The four bytes of \<^verbatim>\<open>DataOffset\<close> hold a cell index or, with \<^verbatim>\<open>REG_DATA_IN_OFFSET\<close>,
  the data itself; they are kept as bytes, \<open>word_of_bytes\<close> reads them as an index.
\<close>

record CM_KEY_VALUE =
  ValueNameSize :: USHORT
  DataSize :: ULONG
  DataOffset :: "UCHAR list"
  DataType :: ULONG
  ValueFlags :: USHORT
  ValueName :: "UCHAR list"

datatype cell_data =
    KeyNode CM_KEY_NODE
  | KeyValue CM_KEY_VALUE
  | HashTable "(ULONG \<times> HCELL_INDEX) list"
  | ValueList "HCELL_INDEX list"
  | RawData "UCHAR list"

text \<open>A cell: its byte length, its storage class and its contents.\<close>

record HCELL =
  CellLength :: ULONG
  CellStorage :: HV_STORAGE_TYPE
  CellData :: cell_data

text \<open>
  A hive: its flags, the allocated cells by index, the cells marked dirty, and the
  indices the allocator still has to give out, in the order it gives them out.
\<close>

record EREGISTRY_HIVE =
  HiveFlags :: ULONG
  Cells :: "HCELL_INDEX \<rightharpoonup> HCELL"
  DirtyCells :: "HCELL_INDEX list"
  FreeCells :: "HCELL_INDEX list"

text \<open>
  Modelled from the spec: the cell store of cmlib, which is not in this file.
  \<open>alloc(size, class)\<close> gives a cell index or NULL on exhaustion, \<open>free(offset)\<close>,
  \<open>get(offset)\<close>, \<open>size(offset)\<close>, \<open>mark_dirty(offset)\<close>; the sentinel
  \<^verbatim>\<open>HCELL_NULL\<close> means "none". \<^verbatim>\<open>HvGetCellSize\<close> returns the size field of the cell
  header, which is the negated length for an allocated cell.
\<close>

definition HvGetCell :: "EREGISTRY_HIVE \<Rightarrow> HCELL_INDEX \<Rightarrow> HCELL option" where
  "HvGetCell Hive CellIndex = (if CellIndex = HCELL_NULL then None else Cells Hive CellIndex)"

definition HvGetCellSize :: "HCELL \<Rightarrow> ULONG" where
  "HvGetCellSize Cell = - CellLength Cell"

definition HvFreeCell :: "EREGISTRY_HIVE \<Rightarrow> HCELL_INDEX \<Rightarrow> EREGISTRY_HIVE" where
  "HvFreeCell Hive CellIndex =
     Hive\<lparr>Cells := (Cells Hive)(CellIndex := None),
          FreeCells := FreeCells Hive @ [CellIndex]\<rparr>"

definition HvAllocateCell ::
  "EREGISTRY_HIVE \<Rightarrow> ULONG \<Rightarrow> HV_STORAGE_TYPE \<Rightarrow> HCELL_INDEX \<times> EREGISTRY_HIVE" where
  "HvAllocateCell Hive Size Storage =
     (case FreeCells Hive of
        [] \<Rightarrow> (HCELL_NULL, Hive)
      | CellIndex # rest \<Rightarrow>
          (CellIndex,
           Hive\<lparr>Cells := (Cells Hive)(CellIndex \<mapsto>
                   \<lparr>CellLength = Size, CellStorage = Storage,
                    CellData = RawData (replicate (unat Size) 0)\<rparr>),
                FreeCells := rest\<rparr>))"

definition HvMarkCellDirty :: "EREGISTRY_HIVE \<Rightarrow> HCELL_INDEX \<Rightarrow> EREGISTRY_HIVE" where
  "HvMarkCellDirty Hive CellIndex = Hive\<lparr>DirtyCells := CellIndex # DirtyCells Hive\<rparr>"

text \<open>A write through a pointer that \<^verbatim>\<open>HvGetCell\<close> gave: the cell gets new contents.\<close>

definition WriteCell :: "EREGISTRY_HIVE \<Rightarrow> HCELL_INDEX \<Rightarrow> cell_data \<Rightarrow> EREGISTRY_HIVE" where
  "WriteCell Hive CellIndex Contents =
     Hive\<lparr>Cells := (Cells Hive)(CellIndex :=
             map_option (\<lambda>Cell. Cell\<lparr>CellData := Contents\<rparr>) (Cells Hive CellIndex))\<rparr>"

text \<open>Modelled from the spec: \<^verbatim>\<open>IsNoFileHive\<close>, a macro of cm.h, tests the no-file bit.\<close>

definition IsNoFileHive :: "EREGISTRY_HIVE \<Rightarrow> bool" where
  "IsNoFileHive Hive = (HiveFlags Hive AND HIVE_NO_FILE \<noteq> 0)"

subsection \<open>Key objects, handles and the object manager\<close>

type_synonym object_ref = nat
type_synonym hive_ref = nat

text \<open>
  A key object with the reference and handle counts of its object header.
  \<^verbatim>\<open>KeyCell\<close>, the cached pointer to the key cell, is the cell at \<^verbatim>\<open>KeyCellOffset\<close>
  of the object's hive.
\<close>

record KEY_OBJECT =
  PointerCount :: int
  HandleCount :: int
  RegistryHive :: hive_ref
  Flags :: ULONG
  KeyCellOffset :: HCELL_INDEX
  ParentKey :: object_ref
  Name :: "WCHAR list"

record HANDLE_TABLE_ENTRY =
  Object :: object_ref
  GrantedAccess :: ACCESS_MASK
  ObAttributes :: ULONG

subsection \<open>Registry callbacks\<close>

datatype REG_NOTIFY_CLASS =
    RegNtPreDeleteKey | RegNtPostDeleteKey
  | RegNtPreSetValueKey | RegNtPostSetValueKey
  | RegNtPreSetInformationKey | RegNtPostSetInformationKey
  | RegNtPreEnumerateKey | RegNtPostEnumerateKey
  | RegNtPreQueryKey | RegNtPostQueryKey
  | RegNtPreCreateKey | RegNtPostCreateKey
  | RegNtPreOpenKey | RegNtPostOpenKey
  | RegNtPreEnumerateValueKey | RegNtPostEnumerateValueKey
  | RegNtPreQueryValueKey | RegNtPostQueryValueKey
  | RegNtPreDeleteValueKey | RegNtPostDeleteValueKey
  | RegNtPreQueryMultipleValueKey | RegNtPostQueryMultipleValueKey

datatype KEY_INFORMATION_CLASS =
    KeyBasicInformation | KeyNodeInformation | KeyFullInformation
  | KeyNameInformation | KeyCachedInformation | KeyFlagsInformation
  | KeyInformationClassOther

datatype KEY_SET_INFORMATION_CLASS = KeyWriteTimeInformation | KeySetInformationClassOther

datatype KEY_VALUE_INFORMATION_CLASS =
    KeyValueBasicInformation | KeyValueFullInformation | KeyValuePartialInformation
  | KeyValueInformationClassOther

text \<open>
  \<^verbatim>\<open>KEY_VALUE_ENTRY\<close>, an element of the array that \<^verbatim>\<open>NtQueryMultipleValueKey\<close> reads and
  fills; the name is the string its \<^verbatim>\<open>ValueName\<close> points to.
\<close>

record KEY_VALUE_ENTRY =
  EntryValueName :: "WCHAR list"
  EntryDataLength :: ULONG
  EntryDataOffset :: ULONG
  EntryType :: ULONG

text \<open>The structure behind \<^verbatim>\<open>Argument2\<close> of a callback, one constructor per structure.\<close>

datatype REG_INFORMATION =
    REG_POST_OPERATION_INFORMATION object_ref NTSTATUS
  | REG_PRE_CREATE_KEY_INFORMATION "WCHAR list option"
  | REG_POST_CREATE_KEY_INFORMATION "WCHAR list option" "object_ref option" NTSTATUS
  | REG_DELETE_KEY_INFORMATION object_ref
  | REG_ENUMERATE_KEY_INFORMATION object_ref ULONG KEY_INFORMATION_CLASS ULONG
  | REG_QUERY_KEY_INFORMATION object_ref KEY_INFORMATION_CLASS ULONG
  | REG_SET_VALUE_KEY_INFORMATION object_ref "WCHAR list" ULONG ULONG "UCHAR list" ULONG
  | REG_SET_INFORMATION_KEY_INFORMATION object_ref KEY_SET_INFORMATION_CLASS LARGE_INTEGER ULONG
  | REG_ENUMERATE_VALUE_KEY_INFORMATION object_ref ULONG KEY_VALUE_INFORMATION_CLASS ULONG
  | REG_QUERY_VALUE_KEY_INFORMATION object_ref "WCHAR list" KEY_VALUE_INFORMATION_CLASS ULONG
  | REG_DELETE_VALUE_KEY_INFORMATION object_ref "WCHAR list"
  | REG_QUERY_MULTIPLE_VALUE_KEY_INFORMATION object_ref "KEY_VALUE_ENTRY list" ULONG ULONG

text \<open>One call of a callback function: the cookie of the callback and its two arguments.\<close>

type_synonym callback_call = "LARGE_INTEGER \<times> REG_NOTIFY_CLASS \<times> REG_INFORMATION"

text \<open>
  Modelled from the spec: rundown protection (ex/rundown.c is not in this file).
  Acquirers succeed until the rundown begins, after which they all fail; the waiter is
  released when the outstanding acquirers reach zero.
  \<^verbatim>\<open>ExWaitForRundownProtectionRelease\<close> begins the rundown; the truth value it gives here
  tells whether the waiter is released, that is whether no acquirer is outstanding.
\<close>

record EX_RUNDOWN_REF =
  Count :: nat
  Active :: bool

definition ExInitializeRundownProtection :: EX_RUNDOWN_REF where
  "ExInitializeRundownProtection = \<lparr>Count = 0, Active = False\<rparr>"

definition ExAcquireRundownProtection :: "EX_RUNDOWN_REF \<Rightarrow> EX_RUNDOWN_REF option" where
  "ExAcquireRundownProtection RunRef =
     (if Active RunRef then None else Some (RunRef\<lparr>Count := Count RunRef + 1\<rparr>))"

definition ExReleaseRundownProtection :: "EX_RUNDOWN_REF \<Rightarrow> EX_RUNDOWN_REF" where
  "ExReleaseRundownProtection RunRef = RunRef\<lparr>Count := Count RunRef - 1\<rparr>"

definition ExWaitForRundownProtectionRelease :: "EX_RUNDOWN_REF \<Rightarrow> EX_RUNDOWN_REF \<times> bool" where
  "ExWaitForRundownProtectionRelease RunRef = (RunRef\<lparr>Active := True\<rparr>, Count RunRef = 0)"

text \<open>
  A registered callback. Its function returns a status and does not call back into the
  registry; it may depend on the calls made so far, which stand for whatever state the
  callback keeps.
\<close>

record REGISTRY_CALLBACK =
  Cookie :: LARGE_INTEGER
  Function :: "callback_call list \<Rightarrow> PVOID \<Rightarrow> REG_NOTIFY_CLASS \<Rightarrow> REG_INFORMATION \<Rightarrow> NTSTATUS"
  Context :: PVOID
  RundownRef :: EX_RUNDOWN_REF
  PendingDelete :: bool

subsection \<open>The registry state\<close>

record cm_state =
  CmiCallbackHead :: "REGISTRY_CALLBACK list"
  CallbackPool :: "LARGE_INTEGER list"
  CallbackLog :: "callback_call list"
  Hives :: "hive_ref \<rightharpoonup> EREGISTRY_HIVE"
  Objects :: "object_ref \<rightharpoonup> KEY_OBJECT"
  HandleTable :: "HANDLE \<rightharpoonup> HANDLE_TABLE_ENTRY"
  FreeHandles :: "HANDLE list"
  CmiKeyObjectListHead :: "object_ref list"
  SystemTime :: LARGE_INTEGER
  SyncRequests :: nat

text \<open>
  Modelled from the spec: the object manager, of which the file uses
  \<^verbatim>\<open>ObReferenceObjectByHandle\<close> and \<^verbatim>\<open>ObDereferenceObject\<close>. A handle is valid when the
  handle table maps it to a live object with the access asked for; referencing adds one to
  the pointer count and dereferencing takes one away. The finalizer that the object manager
  runs once the last reference is gone (\<^verbatim>\<open>CmiObjectDelete\<close> of regobj.c) is not part of
  these entry points.
\<close>

definition ObReferenceObjectByHandle ::
  "HANDLE \<Rightarrow> ACCESS_MASK \<Rightarrow> cm_state \<Rightarrow> NTSTATUS + (object_ref \<times> cm_state)" where
  "ObReferenceObjectByHandle Handle DesiredAccess st =
     (case HandleTable st Handle of
        None \<Rightarrow> Inl STATUS_INVALID_HANDLE
      | Some Entry \<Rightarrow>
          (case Objects st (Object Entry) of
             None \<Rightarrow> Inl STATUS_INVALID_HANDLE
           | Some KeyObject \<Rightarrow>
               if DesiredAccess AND NOT (GrantedAccess Entry) \<noteq> 0 then Inl STATUS_ACCESS_DENIED
               else Inr (Object Entry,
                         st\<lparr>Objects := (Objects st)(Object Entry \<mapsto>
                              KeyObject\<lparr>PointerCount := PointerCount KeyObject + 1\<rparr>)\<rparr>)))"

definition ObDereferenceObject :: "object_ref \<Rightarrow> cm_state \<Rightarrow> cm_state" where
  "ObDereferenceObject Obj st =
     (case Objects st Obj of
        None \<Rightarrow> st
      | Some KeyObject \<Rightarrow>
          st\<lparr>Objects := (Objects st)(Obj \<mapsto> KeyObject\<lparr>PointerCount := PointerCount KeyObject - 1\<rparr>)\<rparr>)"

text \<open>\<^verbatim>\<open>KeyObject->KeyCell\<close>: the key cell of a key object, read through its hive.\<close>

definition KeyCell :: "cm_state \<Rightarrow> KEY_OBJECT \<Rightarrow> CM_KEY_NODE option" where
  "KeyCell st KeyObject =
     (case Hives st (RegistryHive KeyObject) of
        None \<Rightarrow> None
      | Some Hive \<Rightarrow>
          (case HvGetCell Hive (KeyCellOffset KeyObject) of
             Some Cell \<Rightarrow> (case CellData Cell of KeyNode Node \<Rightarrow> Some Node | _ \<Rightarrow> None)
           | None \<Rightarrow> None))"

text \<open>Reading a cell through a typed pointer.\<close>

definition GetKeyNode :: "EREGISTRY_HIVE \<Rightarrow> HCELL_INDEX \<Rightarrow> CM_KEY_NODE option" where
  "GetKeyNode Hive CellIndex =
     (case HvGetCell Hive CellIndex of
        Some Cell \<Rightarrow> (case CellData Cell of KeyNode Node \<Rightarrow> Some Node | _ \<Rightarrow> None)
      | None \<Rightarrow> None)"

definition GetValueCell :: "EREGISTRY_HIVE \<Rightarrow> HCELL_INDEX \<Rightarrow> CM_KEY_VALUE option" where
  "GetValueCell Hive CellIndex =
     (case HvGetCell Hive CellIndex of
        Some Cell \<Rightarrow> (case CellData Cell of KeyValue Val \<Rightarrow> Some Val | _ \<Rightarrow> None)
      | None \<Rightarrow> None)"

definition GetHashTable :: "EREGISTRY_HIVE \<Rightarrow> HCELL_INDEX \<Rightarrow> (ULONG \<times> HCELL_INDEX) list option" where
  "GetHashTable Hive CellIndex =
     (case HvGetCell Hive CellIndex of
        Some Cell \<Rightarrow> (case CellData Cell of HashTable Entries \<Rightarrow> Some Entries | _ \<Rightarrow> None)
      | None \<Rightarrow> None)"

definition GetRawData :: "EREGISTRY_HIVE \<Rightarrow> HCELL_INDEX \<Rightarrow> UCHAR list option" where
  "GetRawData Hive CellIndex =
     (case HvGetCell Hive CellIndex of
        Some Cell \<Rightarrow> (case CellData Cell of RawData Bytes \<Rightarrow> Some Bytes | _ \<Rightarrow> None)
      | None \<Rightarrow> None)"

text \<open>Little-endian bytes of a cell index and of a string of wide characters.\<close>

fun le_word :: "UCHAR list \<Rightarrow> ULONG" where
  "le_word [] = 0"
| "le_word (b # bs) = ucast b OR push_bit 8 (le_word bs)"

definition le_bytes :: "ULONG \<Rightarrow> UCHAR list" where
  "le_bytes w = [ucast w, ucast (drop_bit 8 w), ucast (drop_bit 16 w), ucast (drop_bit 24 w)]"

definition wchar_bytes :: "WCHAR list \<Rightarrow> UCHAR list" where
  "wchar_bytes Buffer = concat (map (\<lambda>w. [ucast w, ucast (drop_bit 8 w)]) Buffer)"

text \<open>The \<^verbatim>\<open>Length\<close> field of a \<^verbatim>\<open>UNICODE_STRING\<close>: the bytes of its characters.\<close>

definition UNICODE_STRING_Length :: "WCHAR list \<Rightarrow> USHORT" where
  "UNICODE_STRING_Length Buffer = word_of_nat (2 * length Buffer)"

text \<open>
  \<^verbatim>\<open>RtlCopyMemory\<close> of the first \<open>n\<close> bytes of a source over a destination. The callers
  check that the source has \<open>n\<close> bytes; a shorter one is a read of unmapped memory.
\<close>

definition RtlCopyMemory :: "UCHAR list \<Rightarrow> UCHAR list \<Rightarrow> nat \<Rightarrow> UCHAR list" where
  "RtlCopyMemory Destination Source n = take n Source @ drop n Destination"

datatype KPROCESSOR_MODE = KernelMode | UserMode

text \<open>
  The routines that live in other files of the kernel (regfile.c, registry.c, regobj.c, the
  object manager, the run-time library) and walk names, read and write files or touch user
  memory: the entry points take them as parameters. A routine that changes the registry
  returns the new hive or the new state. \<^verbatim>\<open>ProbeForWrite\<close> is the status of a write to a
  user address under the exception handler; \<^verbatim>\<open>UninitializedObAttributes\<close> and
  \<^verbatim>\<open>UninitializedHandle\<close> are what two locals hold before they are assigned;
  \<^verbatim>\<open>ExGetPreviousMode_is_KernelMode\<close> is the test \<^verbatim>\<open>ExGetPreviousMode == KernelMode\<close> of
  \<^verbatim>\<open>CmpCreateHandle\<close>, which compares the routine and not its result. A routine that
  hands back a pointer to a value cell (\<^verbatim>\<open>CmiScanKeyForValue\<close>,
  \<^verbatim>\<open>CmiGetValueFromKeyByIndex\<close>) gives the cell index of that cell, \<^verbatim>\<open>HCELL_NULL\<close> for the
  null pointer. \<^verbatim>\<open>CmiDeleteValueFromKey\<close> is given the pointer to the name that
  \<^verbatim>\<open>NtDeleteValueKey\<close> was called with, as in line 2201.
\<close>

record cm_externals =
  ExGetPreviousMode :: KPROCESSOR_MODE
  ProbeForWrite :: "PVOID \<Rightarrow> NTSTATUS"
  ProbeAndCaptureUnicodeString :: "PVOID \<Rightarrow> NTSTATUS \<times> WCHAR list"
  ObpCaptureObjectAttributes :: "PVOID \<Rightarrow> NTSTATUS \<times> ULONG \<times> WCHAR list option"
  CmFindObject ::
    "cm_state \<Rightarrow> WCHAR list option \<Rightarrow> NTSTATUS \<times> object_ref option \<times> WCHAR list \<times> cm_state"
  RtlMapGenericMask :: "ACCESS_MASK \<Rightarrow> ACCESS_MASK"
  UninitializedObAttributes :: ULONG
  UninitializedHandle :: HANDLE
  ExGetPreviousMode_is_KernelMode :: bool
  ObCreateObject :: "cm_state \<Rightarrow> NTSTATUS \<times> object_ref \<times> cm_state"
  ObInsertObject :: "cm_state \<Rightarrow> object_ref \<Rightarrow> ACCESS_MASK \<Rightarrow> NTSTATUS \<times> HANDLE \<times> cm_state"
  CmiAddSubKey ::
    "cm_state \<Rightarrow> object_ref \<Rightarrow> WCHAR list \<Rightarrow> ULONG \<Rightarrow> WCHAR list \<Rightarrow> ULONG \<Rightarrow> NTSTATUS \<times> cm_state"
  CmiAddKeyToList :: "cm_state \<Rightarrow> object_ref \<Rightarrow> object_ref \<Rightarrow> cm_state"
  CmiFlushRegistryHive :: "EREGISTRY_HIVE \<Rightarrow> NTSTATUS \<times> EREGISTRY_HIVE"
  CmiScanKeyForValue :: "EREGISTRY_HIVE \<Rightarrow> CM_KEY_NODE \<Rightarrow> WCHAR list \<Rightarrow> NTSTATUS \<times> HCELL_INDEX"
  CmiAddValueToKey ::
    "EREGISTRY_HIVE \<Rightarrow> CM_KEY_NODE \<Rightarrow> HCELL_INDEX \<Rightarrow> WCHAR list \<Rightarrow>
     NTSTATUS \<times> HCELL_INDEX \<times> EREGISTRY_HIVE"
  wcsicmp :: "WCHAR list \<Rightarrow> WCHAR list \<Rightarrow> int"
  CmiCreateTempHive :: "(hive_ref \<rightharpoonup> EREGISTRY_HIVE) \<Rightarrow> NTSTATUS \<times> hive_ref \<times> EREGISTRY_HIVE"
  CmiCopyKey :: "EREGISTRY_HIVE \<Rightarrow> EREGISTRY_HIVE \<Rightarrow> CM_KEY_NODE \<Rightarrow> NTSTATUS \<times> EREGISTRY_HIVE"
  CmiSaveTempHive :: "EREGISTRY_HIVE \<Rightarrow> HANDLE \<Rightarrow> NTSTATUS"
  CmiGetNumberOfSubKeys :: "cm_state \<Rightarrow> object_ref \<Rightarrow> ULONG"
  CmiGetMaxNameLength :: "cm_state \<Rightarrow> object_ref \<Rightarrow> ULONG"
  CmiGetMaxClassLength :: "cm_state \<Rightarrow> object_ref \<Rightarrow> ULONG"
  CmiGetMaxValueNameLength :: "EREGISTRY_HIVE \<Rightarrow> CM_KEY_NODE \<Rightarrow> ULONG"
  CmiGetMaxValueDataLength :: "EREGISTRY_HIVE \<Rightarrow> CM_KEY_NODE \<Rightarrow> ULONG"
  CmiGetValueFromKeyByIndex :: "EREGISTRY_HIVE \<Rightarrow> CM_KEY_NODE \<Rightarrow> ULONG \<Rightarrow> NTSTATUS \<times> HCELL_INDEX"
  CmiDeleteValueFromKey ::
    "EREGISTRY_HIVE \<Rightarrow> CM_KEY_NODE \<Rightarrow> HCELL_INDEX \<Rightarrow> PVOID \<Rightarrow> NTSTATUS \<times> EREGISTRY_HIVE"

text \<open>
  Modelled from the spec: \<^verbatim>\<open>CmiRemoveRegistryHive\<close> of registry.c destroys a hive.
\<close>

definition CmiRemoveRegistryHive :: "hive_ref \<Rightarrow> cm_state \<Rightarrow> cm_state" where
  "CmiRemoveRegistryHive RegistryHive' st = st\<lparr>Hives := (Hives st)(RegistryHive' := None)\<rparr>"

subsection \<open>The callback registry\<close>

text \<open>
  \<^verbatim>\<open>CmRegisterCallback\<close>. The result of \<^verbatim>\<open>ExAllocatePoolWithTag\<close> is a parameter: the
  address of the new block, or \<open>None\<close> when the pool is exhausted. The cookie is that
  address.
\<close>

definition CmRegisterCallback ::
  "LARGE_INTEGER option \<Rightarrow>
   (callback_call list \<Rightarrow> PVOID \<Rightarrow> REG_NOTIFY_CLASS \<Rightarrow> REG_INFORMATION \<Rightarrow> NTSTATUS) \<Rightarrow>
   PVOID \<Rightarrow> cm_state \<Rightarrow> NTSTATUS \<times> LARGE_INTEGER option \<times> cm_state" where
  "CmRegisterCallback Allocation Function' Context' st =
     (case Allocation of
        Some Callback \<Rightarrow>
          let cb = \<lparr>Cookie = Callback, Function = Function', Context = Context',
                    RundownRef = ExInitializeRundownProtection, PendingDelete = False\<rparr>
          in (STATUS_SUCCESS, Some (Cookie cb),
              st\<lparr>CmiCallbackHead := CmiCallbackHead st @ [cb],
                 CallbackPool := Callback # CallbackPool st\<rparr>)
      | None \<Rightarrow> (STATUS_INSUFFICIENT_RESOURCES, None, st))"

text \<open>The position of the first list entry with the given cookie.\<close>

fun find_cookie :: "LARGE_INTEGER \<Rightarrow> REGISTRY_CALLBACK list \<Rightarrow> nat option" where
  "find_cookie c [] = None"
| "find_cookie c (cb # rest) =
     (if Cookie cb = c then Some 0 else map_option Suc (find_cookie c rest))"

definition RemoveEntryList :: "nat \<Rightarrow> 'a list \<Rightarrow> 'a list" where
  "RemoveEntryList i Entries = take i Entries @ drop (Suc i) Entries"

definition ExFreePool :: "LARGE_INTEGER \<Rightarrow> cm_state \<Rightarrow> cm_state" where
  "ExFreePool Block st = st\<lparr>CallbackPool := removeAll Block (CallbackPool st)\<rparr>"

text \<open>
  \<^verbatim>\<open>CmUnRegisterCallback\<close> returns a status, or it is blocked in
  \<^verbatim>\<open>ExWaitForRundownProtectionRelease\<close> (line 208) on the entry whose address it holds in
  \<^verbatim>\<open>CurrentCallback\<close>. That address is the cookie of the entry (line 166).
\<close>

datatype unregister_progress = Returned NTSTATUS | Waiting LARGE_INTEGER

text \<open>
  Lines 208 to 218, for the entry at position \<open>i\<close> of the list: the wait, and once the
  waiter is released the unlinking, the freeing of the block and the return.
\<close>

definition CmUnRegisterCallback_wait :: "nat \<Rightarrow> cm_state \<Rightarrow> unregister_progress \<times> cm_state" where
  "CmUnRegisterCallback_wait i st =
     (let CurrentCallback = CmiCallbackHead st ! i;
          (RunRef, Released) = ExWaitForRundownProtectionRelease (RundownRef CurrentCallback);
          st1 = st\<lparr>CmiCallbackHead :=
                  (CmiCallbackHead st)[i := CurrentCallback\<lparr>RundownRef := RunRef\<rparr>]\<rparr>
      in if Released then
           let st2 = st1\<lparr>CmiCallbackHead := RemoveEntryList i (CmiCallbackHead st1)\<rparr>
           in (Returned STATUS_SUCCESS, ExFreePool (Cookie CurrentCallback) st2)
         else (Waiting (Cookie CurrentCallback), st1))"

text \<open>
  \<^verbatim>\<open>CmUnRegisterCallback\<close>. The loop stops at the first entry with the cookie. With
  \<^verbatim>\<open>PendingDelete\<close> clear it sets the flag, releases the lock and waits.
\<close>

definition CmUnRegisterCallback :: "LARGE_INTEGER \<Rightarrow> cm_state \<Rightarrow> unregister_progress \<times> cm_state" where
  "CmUnRegisterCallback Cookie' st =
     (case find_cookie Cookie' (CmiCallbackHead st) of
        Some i \<Rightarrow>
          let CurrentCallback = CmiCallbackHead st ! i in
          if \<not> PendingDelete CurrentCallback then
            let st1 = st\<lparr>CmiCallbackHead :=
                        (CmiCallbackHead st)[i := CurrentCallback\<lparr>PendingDelete := True\<rparr>]\<rparr>
            in CmUnRegisterCallback_wait i st1
          else (Returned STATUS_UNSUCCESSFUL, st)
      | None \<Rightarrow> (Returned STATUS_UNSUCCESSFUL, st))"

text \<open>
  A blocked call goes on from the wait in the state that the other threads have made since;
  it finds its entry by the address it holds. \<open>None\<close> is the access through a pointer to
  an entry that is no longer there.
\<close>

definition CmUnRegisterCallback_resume ::
  "LARGE_INTEGER \<Rightarrow> cm_state \<Rightarrow> (unregister_progress \<times> cm_state) option" where
  "CmUnRegisterCallback_resume CurrentCallback st =
     (case find_cookie CurrentCallback (CmiCallbackHead st) of
        Some i \<Rightarrow> Some (CmUnRegisterCallback_wait i st)
      | None \<Rightarrow> None)"

text \<open>
  \<^verbatim>\<open>CmiCallRegisteredCallbacks\<close>: the loop over the list, from the entry it has reached.
  It returns the status, the entries as the loop leaves them and the calls made.
\<close>

fun CmiCallLoop ::
  "REG_NOTIFY_CLASS \<Rightarrow> REG_INFORMATION \<Rightarrow> REGISTRY_CALLBACK list \<Rightarrow> NTSTATUS \<Rightarrow>
   callback_call list \<Rightarrow> NTSTATUS \<times> REGISTRY_CALLBACK list \<times> callback_call list" where
  "CmiCallLoop Argument1 Argument2 [] Status Log = (Status, [], Log)"
| "CmiCallLoop Argument1 Argument2 (CurrentCallback # rest) Status Log =
     (case (if \<not> PendingDelete CurrentCallback
            then ExAcquireRundownProtection (RundownRef CurrentCallback) else None) of
        Some RunRef \<Rightarrow>
          let Status' = Function CurrentCallback Log (Context CurrentCallback) Argument1 Argument2;
              Log' = Log @ [(Cookie CurrentCallback, Argument1, Argument2)];
              CurrentCallback' =
                CurrentCallback\<lparr>RundownRef := ExReleaseRundownProtection RunRef\<rparr>
          in if \<not> NT_SUCCESS Status' then (Status', CurrentCallback' # rest, Log')
             else (case CmiCallLoop Argument1 Argument2 rest Status' Log' of
                     (Status'', rest', Log'') \<Rightarrow> (Status'', CurrentCallback' # rest', Log''))
      | None \<Rightarrow>
          (case CmiCallLoop Argument1 Argument2 rest Status Log of
             (Status'', rest', Log'') \<Rightarrow> (Status'', CurrentCallback # rest', Log'')))"

definition CmiCallRegisteredCallbacks ::
  "REG_NOTIFY_CLASS \<Rightarrow> REG_INFORMATION \<Rightarrow> cm_state \<Rightarrow> NTSTATUS \<times> cm_state" where
  "CmiCallRegisteredCallbacks Argument1 Argument2 st =
     (case CmiCallLoop Argument1 Argument2 (CmiCallbackHead st) STATUS_SUCCESS (CallbackLog st) of
        (Status, Entries, Log) \<Rightarrow> (Status, st\<lparr>CmiCallbackHead := Entries, CallbackLog := Log\<rparr>))"

text \<open>
  A thread whose callback function is running (line 259) holds the rundown protection of the
  entry; it stands behind a count that is not zero. When the function returns the thread
  takes the lock and releases the protection (lines 263 to 267). This is that step, made by
  a thread other than the one whose calls are followed here, on the entry with the given
  address.
\<close>

definition CmiCallRegisteredCallbacks_release :: "LARGE_INTEGER \<Rightarrow> cm_state \<Rightarrow> cm_state" where
  "CmiCallRegisteredCallbacks_release CurrentCallback st =
     (case find_cookie CurrentCallback (CmiCallbackHead st) of
        Some i \<Rightarrow>
          st\<lparr>CmiCallbackHead := (CmiCallbackHead st)
               [i := (CmiCallbackHead st ! i)
                  \<lparr>RundownRef := ExReleaseRundownProtection (RundownRef (CmiCallbackHead st ! i))\<rparr>]\<rparr>
      | None \<Rightarrow> st)"

text \<open>Modelled from the spec: \<^verbatim>\<open>CmiSyncHives\<close> of registry.c asks for a lazy flush.\<close>

definition CmiSyncHives :: "cm_state \<Rightarrow> cm_state" where
  "CmiSyncHives st = st\<lparr>SyncRequests := SyncRequests st + 1\<rparr>"

subsection \<open>NtDeleteKey\<close>

definition NtDeleteKey :: "HANDLE \<Rightarrow> cm_state \<Rightarrow> (NTSTATUS \<times> cm_state) option" where
  "NtDeleteKey KeyHandle st =
     (case ObReferenceObjectByHandle KeyHandle DELETE st of
        Inl Status \<Rightarrow> Some (Status, st)
      | Inr (KeyObject, st1) \<Rightarrow>
          (case CmiCallRegisteredCallbacks RegNtPreDeleteKey
                  (REG_DELETE_KEY_INFORMATION KeyObject) st1 of
             (Status, st2) \<Rightarrow>
               if \<not> NT_SUCCESS Status then
                 (case CmiCallRegisteredCallbacks RegNtPostDeleteKey
                         (REG_POST_OPERATION_INFORMATION KeyObject Status) st2 of
                    (_, st3) \<Rightarrow> Some (Status, ObDereferenceObject KeyObject st3))
               else
                 (case Objects st2 KeyObject of
                    None \<Rightarrow> None
                  | Some ko \<Rightarrow>
                      (case KeyCell st2 ko of
                         None \<Rightarrow> None
                       | Some kc \<Rightarrow>
                           (case (if SubKeyCounts kc HvStable \<noteq> 0 \<or> SubKeyCounts kc HvVolatile \<noteq> 0
                                  then (STATUS_CANNOT_DELETE, st2)
                                  else (STATUS_SUCCESS,
                                        st2\<lparr>Objects := (Objects st2)(KeyObject \<mapsto>
                                              ko\<lparr>Flags := Flags ko OR KO_MARKED_FOR_DELETE\<rparr>)\<rparr>)) of
                              (Status, st3) \<Rightarrow>
                                let st4 = ObDereferenceObject KeyObject st3 in
                                (case Objects st4 (ParentKey ko) of
                                   None \<Rightarrow> None
                                 | Some parent \<Rightarrow>
                                     let st5 = (if RegistryHive ko \<noteq> RegistryHive parent
                                                then ObDereferenceObject KeyObject st4 else st4)
                                     in (case CmiCallRegisteredCallbacks RegNtPostDeleteKey
                                                (REG_POST_OPERATION_INFORMATION KeyObject Status) st5 of
                                           (_, st6) \<Rightarrow>
                                             Some (Status, ObDereferenceObject KeyObject st6))))))))"

subsection \<open>NtSetInformationKey\<close>

text \<open>
  \<^verbatim>\<open>KeyInformation\<close> is read as a \<^verbatim>\<open>KEY_WRITE_TIME_INFORMATION\<close>, whose size is 8 bytes.
\<close>

definition sizeof_KEY_WRITE_TIME_INFORMATION :: ULONG where
  "sizeof_KEY_WRITE_TIME_INFORMATION = 8"

definition NtSetInformationKey ::
  "HANDLE \<Rightarrow> KEY_SET_INFORMATION_CLASS \<Rightarrow> LARGE_INTEGER \<Rightarrow> ULONG \<Rightarrow> cm_state \<Rightarrow>
   (NTSTATUS \<times> cm_state) option" where
  "NtSetInformationKey KeyHandle KeyInformationClass KeyInformation KeyInformationLength st =
     (case ObReferenceObjectByHandle KeyHandle KEY_SET_VALUE st of
        Inl Status \<Rightarrow> Some (Status, st)
      | Inr (KeyObject, st1) \<Rightarrow>
          (case CmiCallRegisteredCallbacks RegNtPreSetInformationKey
                  (REG_SET_INFORMATION_KEY_INFORMATION KeyObject KeyInformationClass
                     KeyInformation KeyInformationLength) st1 of
             (Status, st2) \<Rightarrow>
               if \<not> NT_SUCCESS Status then
                 (case CmiCallRegisteredCallbacks RegNtPostSetInformationKey
                         (REG_POST_OPERATION_INFORMATION KeyObject Status) st2 of
                    (_, st3) \<Rightarrow> Some (Status, ObDereferenceObject KeyObject st3))
               else
                 (case (if KeyInformationClass \<noteq> KeyWriteTimeInformation
                        then Some (STATUS_INVALID_INFO_CLASS, st2)
                        else if KeyInformationLength \<noteq> sizeof_KEY_WRITE_TIME_INFORMATION
                        then Some (STATUS_INFO_LENGTH_MISMATCH, st2)
                        else
                          (case Objects st2 KeyObject of
                             None \<Rightarrow> None
                           | Some ko \<Rightarrow>
                               (case Hives st2 (RegistryHive ko) of
                                  None \<Rightarrow> None
                                | Some Hive \<Rightarrow>
                                    (case KeyCell st2 ko of
                                       None \<Rightarrow> None
                                     | Some kc \<Rightarrow>
                                         let Hive1 = WriteCell Hive (KeyCellOffset ko)
                                                       (KeyNode (kc\<lparr>LastWriteTime := KeyInformation\<rparr>));
                                             Hive2 = HvMarkCellDirty Hive1 (KeyCellOffset ko)
                                         in Some (Status,
                                                  st2\<lparr>Hives := (Hives st2)(RegistryHive ko \<mapsto> Hive2)\<rparr>))))) of
                    None \<Rightarrow> None
                  | Some (Status, st3) \<Rightarrow>
                      (case CmiCallRegisteredCallbacks RegNtPostSetInformationKey
                              (REG_POST_OPERATION_INFORMATION KeyObject Status) st3 of
                         (_, st4) \<Rightarrow>
                           let st5 = ObDereferenceObject KeyObject st4;
                               st6 = (if NT_SUCCESS Status then CmiSyncHives st5 else st5)
                           in Some (STATUS_SUCCESS, st6)))))"

subsection \<open>NtFlushKey\<close>

definition NtFlushKey :: "cm_externals \<Rightarrow> HANDLE \<Rightarrow> cm_state \<Rightarrow> (NTSTATUS \<times> cm_state) option" where
  "NtFlushKey X KeyHandle st =
     (case ObReferenceObjectByHandle KeyHandle 0 st of
        Inl Status \<Rightarrow> Some (Status, st)
      | Inr (KeyObject, st1) \<Rightarrow>
          (case Objects st1 KeyObject of
             None \<Rightarrow> None
           | Some ko \<Rightarrow>
               (case Hives st1 (RegistryHive ko) of
                  None \<Rightarrow> None
                | Some RegistryHive' \<Rightarrow>
                    let (Status, Hive') =
                          (if IsNoFileHive RegistryHive' then (STATUS_SUCCESS, RegistryHive')
                           else CmiFlushRegistryHive X RegistryHive');
                        st2 = st1\<lparr>Hives := (Hives st1)(RegistryHive ko \<mapsto> Hive')\<rparr>
                    in Some (STATUS_SUCCESS, ObDereferenceObject KeyObject st2))))"

subsection \<open>NtSaveKey\<close>

definition NtSaveKey :: "cm_externals \<Rightarrow> HANDLE \<Rightarrow> HANDLE \<Rightarrow> cm_state \<Rightarrow> (NTSTATUS \<times> cm_state) option" where
  "NtSaveKey X KeyHandle FileHandle st =
     (case ObReferenceObjectByHandle KeyHandle 0 st of
        Inl Status \<Rightarrow> Some (Status, st)
      | Inr (KeyObject, st1) \<Rightarrow>
          (case Objects st1 KeyObject of
             None \<Rightarrow> None
           | Some ko \<Rightarrow>
               (case Hives st1 (RegistryHive ko) of
                  None \<Rightarrow> None
                | Some SourceHive \<Rightarrow>
                    (case KeyCell st1 ko of
                       None \<Rightarrow> None
                     | Some kc \<Rightarrow>
                         if NodeFlags kc AND REG_KEY_VOLATILE_CELL \<noteq> 0 then
                           Some (STATUS_ACCESS_DENIED, ObDereferenceObject KeyObject st1)
                         else
                           (case CmiCreateTempHive X (Hives st1) of
                              (Status, TempHive, NewHive) \<Rightarrow>
                                if \<not> NT_SUCCESS Status then
                                  Some (Status, ObDereferenceObject KeyObject st1)
                                else
                                  let st2 = st1\<lparr>Hives := (Hives st1)(TempHive \<mapsto> NewHive)\<rparr> in
                                  (case CmiCopyKey X NewHive SourceHive kc of
                                     (Status, CopiedHive) \<Rightarrow>
                                       let st3 = st2\<lparr>Hives := (Hives st2)(TempHive \<mapsto> CopiedHive)\<rparr> in
                                       if \<not> NT_SUCCESS Status then
                                         Some (Status,
                                               ObDereferenceObject KeyObject
                                                 (CmiRemoveRegistryHive TempHive st3))
                                       else
                                         let Status = CmiSaveTempHive X CopiedHive FileHandle;
                                             st4 = CmiRemoveRegistryHive TempHive st3
                                         in Some (STATUS_SUCCESS,
                                                  ObDereferenceObject KeyObject st4)))))))"

subsection \<open>NtSetValueKey\<close>

definition SymbolicLinkValue :: "WCHAR list" where
  "SymbolicLinkValue = map (\<lambda>c. of_nat (of_char c)) ''SymbolicLinkValue''"

definition sizeof_HCELL_INDEX :: ULONG where
  "sizeof_HCELL_INDEX = 4"

text \<open>
  The part of \<^verbatim>\<open>NtSetValueKey\<close> that stores the data, from the look at the current data
  cell to the two branches on \<^verbatim>\<open>DataSize\<close>. \<open>Inl\<close> is the early return after a failed
  allocation, with the hive as it is then; \<open>Inr\<close> is the hive with the data stored.
\<close>

definition NtSetValueKey_store ::
  "EREGISTRY_HIVE \<Rightarrow> HCELL_INDEX \<Rightarrow> CM_KEY_VALUE \<Rightarrow> ULONG \<Rightarrow> UCHAR list \<Rightarrow> ULONG \<Rightarrow>
   (EREGISTRY_HIVE + EREGISTRY_HIVE) option" where
  "NtSetValueKey_store Hive ValueCellOffset ValueCell Type Data DataSize' =
     (case (if DataSize ValueCell AND REG_DATA_IN_OFFSET = 0
               \<and> DataSize ValueCell AND REG_DATA_SIZE_MASK \<noteq> 0
            then (case HvGetCell Hive (le_word (DataOffset ValueCell)) of
                    None \<Rightarrow> None
                  | Some Cell \<Rightarrow> Some (True, - HvGetCellSize Cell))
            else Some (False, 0)) of
        None \<Rightarrow> None
      | Some (DataCell, DataCellSize) \<Rightarrow>
          if DataSize' \<le> sizeof_HCELL_INDEX then
            if length Data < unat DataSize' then None else
            let Hive1 = (if DataCell then HvFreeCell Hive (le_word (DataOffset ValueCell)) else Hive);
                ValueCell' = ValueCell
                  \<lparr>DataOffset := RtlCopyMemory (DataOffset ValueCell) Data (unat DataSize'),
                   DataSize := DataSize' OR REG_DATA_IN_OFFSET,
                   DataType := Type\<rparr>;
                Hive2 = WriteCell Hive1 ValueCellOffset (KeyValue ValueCell')
            in Some (Inr (HvMarkCellDirty Hive2 ValueCellOffset))
          else
            (case (if DataSize' > DataCellSize
                   then (case HvAllocateCell Hive DataSize' HvStable of
                           (NewOffset, Hive1) \<Rightarrow>
                             if NewOffset = HCELL_NULL then Inl Hive1
                             else
                               let Hive2 = (if DataCell
                                            then HvFreeCell Hive1 (le_word (DataOffset ValueCell))
                                            else Hive1)
                               in Inr (ValueCell\<lparr>DataOffset := le_bytes NewOffset\<rparr>, Hive2))
                   else Inr (ValueCell, Hive)) of
               Inl Hive1 \<Rightarrow> Some (Inl Hive1)
             | Inr (ValueCell1, Hive2) \<Rightarrow>
                 (case GetRawData Hive2 (le_word (DataOffset ValueCell1)) of
                    None \<Rightarrow> None
                  | Some Old \<Rightarrow>
                      if length Data < unat DataSize' then None else
                      let Hive3 = WriteCell Hive2 (le_word (DataOffset ValueCell1))
                                    (RawData (RtlCopyMemory Old Data (unat DataSize')));
                          ValueCell' = ValueCell1
                            \<lparr>DataSize := DataSize' AND REG_DATA_SIZE_MASK, DataType := Type\<rparr>;
                          Hive4 = WriteCell Hive3 ValueCellOffset (KeyValue ValueCell');
                          Hive5 = HvMarkCellDirty Hive4 (le_word (DataOffset ValueCell'))
                      in Some (Inr (HvMarkCellDirty Hive5 ValueCellOffset)))))"

definition NtSetValueKey ::
  "cm_externals \<Rightarrow> HANDLE \<Rightarrow> WCHAR list \<Rightarrow> ULONG \<Rightarrow> ULONG \<Rightarrow> UCHAR list \<Rightarrow> ULONG \<Rightarrow> cm_state \<Rightarrow>
   (NTSTATUS \<times> cm_state) option" where
  "NtSetValueKey X KeyHandle ValueName' TitleIndex Type Data DataSize' st =
     (case ObReferenceObjectByHandle KeyHandle KEY_SET_VALUE st of
        Inl Status \<Rightarrow> Some (Status, st)
      | Inr (KeyObject, st1) \<Rightarrow>
          (case CmiCallRegisteredCallbacks RegNtPreSetValueKey
                  (REG_SET_VALUE_KEY_INFORMATION KeyObject ValueName' TitleIndex Type Data DataSize')
                  st1 of
             (Status, st2) \<Rightarrow>
               if \<not> NT_SUCCESS Status then
                 (case CmiCallRegisteredCallbacks RegNtPostSetValueKey
                         (REG_POST_OPERATION_INFORMATION KeyObject Status) st2 of
                    (_, st3) \<Rightarrow> Some (Status, ObDereferenceObject KeyObject st3))
               else
                 (case Objects st2 KeyObject of
                    None \<Rightarrow> None
                  | Some ko \<Rightarrow>
                 (case Hives st2 (RegistryHive ko) of
                    None \<Rightarrow> None
                  | Some Hive \<Rightarrow>
                 (case KeyCell st2 ko of
                    None \<Rightarrow> None
                  | Some kc \<Rightarrow>
                 (case (case CmiScanKeyForValue X Hive kc ValueName' of
                          (Status, ValueCellOffset) \<Rightarrow>
                            if Status = STATUS_OBJECT_NAME_NOT_FOUND
                            then CmiAddValueToKey X Hive kc (KeyCellOffset ko) ValueName'
                            else (Status, ValueCellOffset, Hive)) of
                    (Status, ValueCellOffset, Hive1) \<Rightarrow>
                      let leave = (\<lambda>Status Hive'.
                            (case CmiCallRegisteredCallbacks RegNtPostSetValueKey
                                    (REG_POST_OPERATION_INFORMATION KeyObject Status)
                                    (st2\<lparr>Hives := (Hives st2)(RegistryHive ko \<mapsto> Hive')\<rparr>) of
                               (_, st3) \<Rightarrow> ObDereferenceObject KeyObject st3))
                      in
                      if \<not> NT_SUCCESS Status then Some (Status, leave Status Hive1)
                      else
                        (case GetValueCell Hive1 ValueCellOffset of
                           None \<Rightarrow> None
                         | Some ValueCell \<Rightarrow>
                        (case NtSetValueKey_store Hive1 ValueCellOffset ValueCell Type Data DataSize' of
                           None \<Rightarrow> None
                         | Some (Inl Hive2) \<Rightarrow> Some (Status, leave Status Hive2)
                         | Some (Inr Hive2) \<Rightarrow>
                             (case GetKeyNode Hive2 (KeyCellOffset ko) of
                                None \<Rightarrow> None
                              | Some kc2 \<Rightarrow>
                                  let kc3 = (if Type = REG_LINK
                                                \<and> wcsicmp X ValueName' SymbolicLinkValue = 0
                                             then kc2\<lparr>NodeFlags := NodeFlags kc2 OR REG_KEY_LINK_CELL\<rparr>
                                             else kc2);
                                      kc4 = kc3\<lparr>LastWriteTime := SystemTime st2\<rparr>;
                                      Hive3 = WriteCell Hive2 (KeyCellOffset ko) (KeyNode kc4);
                                      Hive4 = HvMarkCellDirty Hive3 (KeyCellOffset ko)
                                  in Some (Status, CmiSyncHives (leave Status Hive4)))))))))))"

subsection \<open>NtQueryKey and NtEnumerateKey\<close>

text \<open>
  What the entry points write to \<^verbatim>\<open>KeyInformation\<close>: the fixed fields in the order of the
  structure, then the bytes copied to \<^verbatim>\<open>Name\<close> or \<^verbatim>\<open>Class\<close>. For
  \<^verbatim>\<open>KEY_NODE_INFORMATION\<close> the class bytes come with the byte offset from \<^verbatim>\<open>Name\<close> at
  which they are written.
\<close>

datatype KEY_INFORMATION =
    KEY_BASIC_INFORMATION LARGE_INTEGER ULONG ULONG "UCHAR list"
  | KEY_NODE_INFORMATION LARGE_INTEGER ULONG ULONG ULONG ULONG "UCHAR list" "nat \<times> UCHAR list"
  | KEY_FULL_INFORMATION LARGE_INTEGER ULONG ULONG ULONG ULONG ULONG ULONG ULONG ULONG ULONG
      "UCHAR list"

text \<open>The offsets and sizes of the three structures, from their declarations in the NT headers.\<close>

definition FIELD_OFFSET_KEY_BASIC_INFORMATION_Name :: ULONG where
  "FIELD_OFFSET_KEY_BASIC_INFORMATION_Name = 16"

definition FIELD_OFFSET_KEY_NODE_INFORMATION_Name :: ULONG where
  "FIELD_OFFSET_KEY_NODE_INFORMATION_Name = 24"

definition sizeof_KEY_NODE_INFORMATION :: ULONG where
  "sizeof_KEY_NODE_INFORMATION = 32"

definition FIELD_OFFSET_KEY_FULL_INFORMATION_Class :: ULONG where
  "FIELD_OFFSET_KEY_FULL_INFORMATION_Class = 44"

definition sizeof_KEY_FULL_INFORMATION :: ULONG where
  "sizeof_KEY_FULL_INFORMATION = 48"

definition sizeof_WCHAR :: ULONG where
  "sizeof_WCHAR = 2"

text \<open>
  The copy of \<open>n\<close> bytes out of the class cell, made only when \<open>n\<close> is not zero.
\<close>

definition CopyClass :: "EREGISTRY_HIVE \<Rightarrow> HCELL_INDEX \<Rightarrow> ULONG \<Rightarrow> UCHAR list option" where
  "CopyClass Hive ClassNameOffset' ClassSize' =
     (if ClassSize' \<noteq> 0 then
        (case GetRawData Hive ClassNameOffset' of
           None \<Rightarrow> None
         | Some ClassCell \<Rightarrow>
             if length ClassCell < unat ClassSize' then None
             else Some (take (unat ClassSize') ClassCell))
      else Some [])"

text \<open>
  Modelled from the spec: \<^verbatim>\<open>CmiCopyPackedName\<close> of regfile.c expands a packed name, one
  byte per character, to UTF-16.
\<close>

definition CmiCopyPackedName :: "UCHAR list \<Rightarrow> nat \<Rightarrow> UCHAR list" where
  "CmiCopyPackedName PackedName n = concat (map (\<lambda>c. [c, 0]) (take n PackedName))"

text \<open>The three cases of the switch of \<^verbatim>\<open>NtQueryKey\<close> that fill the buffer.\<close>

definition NtQueryKey_Basic ::
  "KEY_OBJECT \<Rightarrow> CM_KEY_NODE \<Rightarrow> ULONG \<Rightarrow> NTSTATUS \<times> ULONG \<times> KEY_INFORMATION option" where
  "NtQueryKey_Basic KeyObject KeyCell' Length =
     (let NameSize' = (ucast (UNICODE_STRING_Length (Name KeyObject)) :: ULONG);
          ResultLength = FIELD_OFFSET_KEY_BASIC_INFORMATION_Name
      in if Length < FIELD_OFFSET_KEY_BASIC_INFORMATION_Name
         then (STATUS_BUFFER_TOO_SMALL, ResultLength, None)
         else
           let (NameSize'', Status) =
                 (if Length - FIELD_OFFSET_KEY_BASIC_INFORMATION_Name < NameSize'
                  then (Length - FIELD_OFFSET_KEY_BASIC_INFORMATION_Name, STATUS_BUFFER_OVERFLOW)
                  else (NameSize', STATUS_SUCCESS))
           in (Status, ResultLength,
               Some (KEY_BASIC_INFORMATION (LastWriteTime KeyCell') 0
                       (ucast (UNICODE_STRING_Length (Name KeyObject)))
                       (take (unat NameSize'') (wchar_bytes (Name KeyObject))))))"

definition NtQueryKey_Node ::
  "EREGISTRY_HIVE \<Rightarrow> KEY_OBJECT \<Rightarrow> CM_KEY_NODE \<Rightarrow> ULONG \<Rightarrow>
   (NTSTATUS \<times> ULONG \<times> KEY_INFORMATION option) option" where
  "NtQueryKey_Node Hive KeyObject KeyCell' Length =
     (let NameSize' = (ucast (UNICODE_STRING_Length (Name KeyObject)) :: ULONG);
          ClassSize' = (ucast (ClassSize KeyCell') :: ULONG);
          ResultLength = FIELD_OFFSET_KEY_NODE_INFORMATION_Name + NameSize' + ClassSize'
      in if Length < ResultLength
         then Some (STATUS_BUFFER_TOO_SMALL, ResultLength, None)
         else
           let (NameSize'', ClassSize'', Status) =
                 (if Length - FIELD_OFFSET_KEY_NODE_INFORMATION_Name < NameSize'
                  then (Length - FIELD_OFFSET_KEY_NODE_INFORMATION_Name, 0, STATUS_BUFFER_OVERFLOW)
                  else if Length - FIELD_OFFSET_KEY_NODE_INFORMATION_Name - NameSize' < ClassSize'
                  then (NameSize', Length - FIELD_OFFSET_KEY_NODE_INFORMATION_Name - NameSize',
                        STATUS_BUFFER_OVERFLOW)
                  else (NameSize', ClassSize', STATUS_SUCCESS))
           in (case CopyClass Hive (ClassNameOffset KeyCell') ClassSize'' of
                 None \<Rightarrow> None
               | Some ClassBytes \<Rightarrow>
                   Some (Status, ResultLength,
                     Some (KEY_NODE_INFORMATION (LastWriteTime KeyCell') 0
                             (sizeof_KEY_NODE_INFORMATION
                                + ucast (UNICODE_STRING_Length (Name KeyObject)))
                             (ucast (ClassSize KeyCell'))
                             (ucast (UNICODE_STRING_Length (Name KeyObject)))
                             (take (unat NameSize'') (wchar_bytes (Name KeyObject)))
                             (unat sizeof_WCHAR * unat (UNICODE_STRING_Length (Name KeyObject)),
                              ClassBytes)))))"

definition NtQueryKey_Full ::
  "cm_externals \<Rightarrow> cm_state \<Rightarrow> object_ref \<Rightarrow> EREGISTRY_HIVE \<Rightarrow> CM_KEY_NODE \<Rightarrow> ULONG \<Rightarrow>
   (NTSTATUS \<times> ULONG \<times> KEY_INFORMATION option) option" where
  "NtQueryKey_Full X st KeyObject Hive KeyCell' Length =
     (let ClassSize' = (ucast (ClassSize KeyCell') :: ULONG);
          ResultLength = FIELD_OFFSET_KEY_FULL_INFORMATION_Class + ClassSize'
      in if Length < FIELD_OFFSET_KEY_FULL_INFORMATION_Class
         then Some (STATUS_BUFFER_TOO_SMALL, ResultLength, None)
         else
           let (ClassSize'', Status) =
                 (if Length - FIELD_OFFSET_KEY_FULL_INFORMATION_Class < ClassSize'
                  then (Length - FIELD_OFFSET_KEY_FULL_INFORMATION_Class, STATUS_BUFFER_OVERFLOW)
                  else (ClassSize', STATUS_SUCCESS))
           in (case CopyClass Hive (ClassNameOffset KeyCell') ClassSize'' of
                 None \<Rightarrow> None
               | Some ClassBytes \<Rightarrow>
                   Some (Status, ResultLength,
                     Some (KEY_FULL_INFORMATION (LastWriteTime KeyCell') 0
                             (sizeof_KEY_FULL_INFORMATION - sizeof_WCHAR)
                             (ucast (ClassSize KeyCell'))
                             (CmiGetNumberOfSubKeys X st KeyObject)
                             (CmiGetMaxNameLength X st KeyObject)
                             (CmiGetMaxClassLength X st KeyObject)
                             (ValueListCount KeyCell')
                             (CmiGetMaxValueNameLength X Hive KeyCell')
                             (CmiGetMaxValueDataLength X Hive KeyCell')
                             ClassBytes))))"

text \<open>
  \<^verbatim>\<open>NtQueryKey\<close> returns the status, what it wrote to \<^verbatim>\<open>KeyInformation\<close> and to
  \<^verbatim>\<open>*ResultLength\<close> (\<open>None\<close> where it wrote nothing) and the new state.
\<close>

definition NtQueryKey ::
  "cm_externals \<Rightarrow> HANDLE \<Rightarrow> KEY_INFORMATION_CLASS \<Rightarrow> ULONG \<Rightarrow> cm_state \<Rightarrow>
   (NTSTATUS \<times> KEY_INFORMATION option \<times> ULONG option \<times> cm_state) option" where
  "NtQueryKey X KeyHandle KeyInformationClass Length st =
     (case ObReferenceObjectByHandle KeyHandle
             (if KeyInformationClass \<noteq> KeyNameInformation then KEY_QUERY_VALUE else 0) st of
        Inl Status \<Rightarrow> Some (Status, None, None, st)
      | Inr (KeyObject, st1) \<Rightarrow>
          (case CmiCallRegisteredCallbacks RegNtPreQueryKey
                  (REG_QUERY_KEY_INFORMATION KeyObject KeyInformationClass Length) st1 of
             (Status, st2) \<Rightarrow>
               if \<not> NT_SUCCESS Status then
                 (case CmiCallRegisteredCallbacks RegNtPostQueryKey
                         (REG_POST_OPERATION_INFORMATION KeyObject Status) st2 of
                    (_, st3) \<Rightarrow> Some (Status, None, None, ObDereferenceObject KeyObject st3))
               else
                 (case Objects st2 KeyObject of
                    None \<Rightarrow> None
                  | Some ko \<Rightarrow>
                 (case Hives st2 (RegistryHive ko) of
                    None \<Rightarrow> None
                  | Some Hive \<Rightarrow>
                 (case KeyCell st2 ko of
                    None \<Rightarrow> None
                  | Some kc \<Rightarrow>
                 (case (case KeyInformationClass of
                          KeyBasicInformation \<Rightarrow>
                            (case NtQueryKey_Basic ko kc Length of
                               (Status, ResultLength, Info) \<Rightarrow> Some (Status, Info, Some ResultLength))
                        | KeyNodeInformation \<Rightarrow>
                            (case NtQueryKey_Node Hive ko kc Length of
                               None \<Rightarrow> None
                             | Some (Status, ResultLength, Info) \<Rightarrow>
                                 Some (Status, Info, Some ResultLength))
                        | KeyFullInformation \<Rightarrow>
                            (case NtQueryKey_Full X st2 KeyObject Hive kc Length of
                               None \<Rightarrow> None
                             | Some (Status, ResultLength, Info) \<Rightarrow>
                                 Some (Status, Info, Some ResultLength))
                        | KeyNameInformation \<Rightarrow> Some (STATUS_NOT_IMPLEMENTED, None, None)
                        | KeyCachedInformation \<Rightarrow> Some (STATUS_NOT_IMPLEMENTED, None, None)
                        | KeyFlagsInformation \<Rightarrow> Some (STATUS_NOT_IMPLEMENTED, None, None)
                        | KeyInformationClassOther \<Rightarrow> Some (STATUS_INVALID_INFO_CLASS, None, None)) of
                    None \<Rightarrow> None
                  | Some (Status, Info, ResultLength) \<Rightarrow>
                      (case CmiCallRegisteredCallbacks RegNtPostQueryKey
                              (REG_POST_OPERATION_INFORMATION KeyObject Status) st2 of
                         (_, st3) \<Rightarrow>
                           Some (Status, Info, ResultLength,
                                 ObDereferenceObject KeyObject st3))))))))"

text \<open>
  Modelled from the spec: \<^verbatim>\<open>CmiGetKeyFromHashByIndex\<close> of regfile.c returns the \<open>i\<close>-th
  subkey cell of a hash table, in list order. The result is the pointer to the key cell:
  its cell index and its contents.
\<close>

definition CmiGetKeyFromHashByIndex ::
  "EREGISTRY_HIVE \<Rightarrow> (ULONG \<times> HCELL_INDEX) list \<Rightarrow> ULONG \<Rightarrow> (HCELL_INDEX \<times> CM_KEY_NODE) option" where
  "CmiGetKeyFromHashByIndex Hive HashBlock Index =
     (if unat Index < length HashBlock then
        (case GetKeyNode Hive (snd (HashBlock ! unat Index)) of
           None \<Rightarrow> None
         | Some Node \<Rightarrow> Some (snd (HashBlock ! unat Index), Node))
      else None)"

text \<open>
  The start of \<^verbatim>\<open>NtEnumerateKey\<close> under the lock: the check of the index, the choice of
  the storage and of the base index, and the look-up of the subkey. \<open>Inl\<close> is the status
  of an early return.
\<close>

definition NtEnumerateKey_SubKeyCell ::
  "EREGISTRY_HIVE \<Rightarrow> CM_KEY_NODE \<Rightarrow> ULONG \<Rightarrow> (NTSTATUS + HCELL_INDEX \<times> CM_KEY_NODE) option" where
  "NtEnumerateKey_SubKeyCell Hive KeyCell' Index =
     (if Index \<ge> SubKeyCounts KeyCell' HvStable + SubKeyCounts KeyCell' HvVolatile
      then Some (Inl STATUS_NO_MORE_ENTRIES)
      else
        let (Storage, BaseIndex) =
              (if Index \<ge> SubKeyCounts KeyCell' HvStable
               then (HvVolatile, Index - SubKeyCounts KeyCell' HvStable)
               else (HvStable, Index))
        in if SubKeyLists KeyCell' Storage = HCELL_NULL
           then Some (Inl STATUS_NO_MORE_ENTRIES)
           else
             (case GetHashTable Hive (SubKeyLists KeyCell' Storage) of
                None \<Rightarrow> None
              | Some HashTableBlock \<Rightarrow>
                  (case CmiGetKeyFromHashByIndex Hive HashTableBlock BaseIndex of
                     None \<Rightarrow> None
                   | Some SubKeyCell \<Rightarrow> Some (Inr SubKeyCell))))"

text \<open>The name of a subkey cell as the cases of the switch size and copy it.\<close>

definition SubKeyNameSize :: "CM_KEY_NODE \<Rightarrow> ULONG" where
  "SubKeyNameSize SubKeyCell =
     (if NodeFlags SubKeyCell AND REG_KEY_NAME_PACKED \<noteq> 0
      then ucast (NameSize SubKeyCell) * sizeof_WCHAR
      else ucast (NameSize SubKeyCell))"

definition CopySubKeyName :: "CM_KEY_NODE \<Rightarrow> ULONG \<Rightarrow> UCHAR list" where
  "CopySubKeyName SubKeyCell NameSize' =
     (if NodeFlags SubKeyCell AND REG_KEY_NAME_PACKED \<noteq> 0
      then CmiCopyPackedName (NodeName SubKeyCell) (unat (NameSize' div sizeof_WCHAR))
      else take (unat NameSize') (NodeName SubKeyCell))"

definition NtEnumerateKey_Basic ::
  "CM_KEY_NODE \<Rightarrow> ULONG \<Rightarrow> ULONG \<Rightarrow> NTSTATUS \<times> ULONG \<times> KEY_INFORMATION option" where
  "NtEnumerateKey_Basic SubKeyCell Index Length =
     (let NameSize' = SubKeyNameSize SubKeyCell;
          ResultLength = FIELD_OFFSET_KEY_BASIC_INFORMATION_Name + NameSize'
      in if Length < FIELD_OFFSET_KEY_BASIC_INFORMATION_Name
         then (STATUS_BUFFER_TOO_SMALL, ResultLength, None)
         else
           let (NameSize'', Status) =
                 (if Length - FIELD_OFFSET_KEY_BASIC_INFORMATION_Name < NameSize'
                  then (Length - FIELD_OFFSET_KEY_BASIC_INFORMATION_Name, STATUS_BUFFER_OVERFLOW)
                  else (NameSize', STATUS_SUCCESS))
           in (Status, ResultLength,
               Some (KEY_BASIC_INFORMATION (LastWriteTime SubKeyCell) Index NameSize'
                       (CopySubKeyName SubKeyCell NameSize''))))"

definition NtEnumerateKey_Node ::
  "EREGISTRY_HIVE \<Rightarrow> CM_KEY_NODE \<Rightarrow> ULONG \<Rightarrow> ULONG \<Rightarrow>
   (NTSTATUS \<times> ULONG \<times> KEY_INFORMATION option) option" where
  "NtEnumerateKey_Node Hive SubKeyCell Index Length =
     (let NameSize' = SubKeyNameSize SubKeyCell;
          ClassSize' = (ucast (ClassSize SubKeyCell) :: ULONG);
          ResultLength = FIELD_OFFSET_KEY_NODE_INFORMATION_Name + NameSize' + ClassSize'
      in if Length < FIELD_OFFSET_KEY_NODE_INFORMATION_Name
         then Some (STATUS_BUFFER_TOO_SMALL, ResultLength, None)
         else
           let (NameSize'', ClassSize'', Status) =
                 (if Length - FIELD_OFFSET_KEY_NODE_INFORMATION_Name < NameSize'
                  then (Length - FIELD_OFFSET_KEY_NODE_INFORMATION_Name, 0, STATUS_BUFFER_OVERFLOW)
                  else if Length - FIELD_OFFSET_KEY_NODE_INFORMATION_Name - NameSize' < ClassSize'
                  then (NameSize', Length - FIELD_OFFSET_KEY_NODE_INFORMATION_Name - NameSize',
                        STATUS_BUFFER_OVERFLOW)
                  else (NameSize', ClassSize', STATUS_SUCCESS))
           in (case CopyClass Hive (ClassNameOffset SubKeyCell) ClassSize'' of
                 None \<Rightarrow> None
               | Some ClassBytes \<Rightarrow>
                   Some (Status, ResultLength,
                     Some (KEY_NODE_INFORMATION (LastWriteTime SubKeyCell) Index
                             (sizeof_KEY_NODE_INFORMATION + NameSize')
                             (ucast (ClassSize SubKeyCell))
                             NameSize'
                             (CopySubKeyName SubKeyCell NameSize'')
                             (unat sizeof_WCHAR * unat (NameSize SubKeyCell), ClassBytes)))))"

definition NtEnumerateKey_Full ::
  "cm_externals \<Rightarrow> cm_state \<Rightarrow> object_ref \<Rightarrow> EREGISTRY_HIVE \<Rightarrow> CM_KEY_NODE \<Rightarrow> ULONG \<Rightarrow> ULONG \<Rightarrow>
   (NTSTATUS \<times> ULONG \<times> KEY_INFORMATION option) option" where
  "NtEnumerateKey_Full X st KeyObject Hive SubKeyCell Index Length =
     (let ClassSize' = (ucast (ClassSize SubKeyCell) :: ULONG);
          ResultLength = FIELD_OFFSET_KEY_FULL_INFORMATION_Class + ClassSize'
      in if Length < FIELD_OFFSET_KEY_FULL_INFORMATION_Class
         then Some (STATUS_BUFFER_TOO_SMALL, ResultLength, None)
         else
           let (ClassSize'', Status) =
                 (if Length - FIELD_OFFSET_KEY_FULL_INFORMATION_Class < ClassSize'
                  then (Length - FIELD_OFFSET_KEY_FULL_INFORMATION_Class, STATUS_BUFFER_OVERFLOW)
                  else (ClassSize', STATUS_SUCCESS))
           in (case CopyClass Hive (ClassNameOffset SubKeyCell) ClassSize'' of
                 None \<Rightarrow> None
               | Some ClassBytes \<Rightarrow>
                   Some (Status, ResultLength,
                     Some (KEY_FULL_INFORMATION (LastWriteTime SubKeyCell) Index
                             (sizeof_KEY_FULL_INFORMATION - sizeof_WCHAR)
                             (ucast (ClassSize SubKeyCell))
                             (CmiGetNumberOfSubKeys X st KeyObject)
                             (CmiGetMaxNameLength X st KeyObject)
                             (CmiGetMaxClassLength X st KeyObject)
                             (ValueListCount SubKeyCell)
                             (CmiGetMaxValueNameLength X Hive SubKeyCell)
                             (CmiGetMaxValueDataLength X Hive SubKeyCell)
                             ClassBytes))))"

definition NtEnumerateKey ::
  "cm_externals \<Rightarrow> HANDLE \<Rightarrow> ULONG \<Rightarrow> KEY_INFORMATION_CLASS \<Rightarrow> ULONG \<Rightarrow> cm_state \<Rightarrow>
   (NTSTATUS \<times> KEY_INFORMATION option \<times> ULONG option \<times> cm_state) option" where
  "NtEnumerateKey X KeyHandle Index KeyInformationClass Length st =
     (case ObReferenceObjectByHandle KeyHandle KEY_ENUMERATE_SUB_KEYS st of
        Inl Status \<Rightarrow> Some (Status, None, None, st)
      | Inr (KeyObject, st1) \<Rightarrow>
          (case CmiCallRegisteredCallbacks RegNtPreEnumerateKey
                  (REG_ENUMERATE_KEY_INFORMATION KeyObject Index KeyInformationClass Length) st1 of
             (Status, st2) \<Rightarrow>
               let leave = (\<lambda>Status Info ResultLength.
                     (case CmiCallRegisteredCallbacks RegNtPostEnumerateKey
                             (REG_POST_OPERATION_INFORMATION KeyObject Status) st2 of
                        (_, st3) \<Rightarrow>
                          Some (Status, Info, ResultLength, ObDereferenceObject KeyObject st3)))
               in
               if \<not> NT_SUCCESS Status then leave Status None None
               else
                 (case Objects st2 KeyObject of
                    None \<Rightarrow> None
                  | Some ko \<Rightarrow>
                 (case Hives st2 (RegistryHive ko) of
                    None \<Rightarrow> None
                  | Some Hive \<Rightarrow>
                 (case KeyCell st2 ko of
                    None \<Rightarrow> None
                  | Some kc \<Rightarrow>
                 (case NtEnumerateKey_SubKeyCell Hive kc Index of
                    None \<Rightarrow> None
                  | Some (Inl Status) \<Rightarrow> leave Status None None
                  | Some (Inr (SubKeyOffset, SubKeyCell)) \<Rightarrow>
                      (case (case KeyInformationClass of
                               KeyBasicInformation \<Rightarrow>
                                 (case NtEnumerateKey_Basic SubKeyCell Index Length of
                                    (Status, ResultLength, Info) \<Rightarrow>
                                      Some (Status, Info, Some ResultLength))
                             | KeyNodeInformation \<Rightarrow>
                                 (case NtEnumerateKey_Node Hive SubKeyCell Index Length of
                                    None \<Rightarrow> None
                                  | Some (Status, ResultLength, Info) \<Rightarrow>
                                      Some (Status, Info, Some ResultLength))
                             | KeyFullInformation \<Rightarrow>
                                 (case NtEnumerateKey_Full X st2 KeyObject Hive SubKeyCell
                                         Index Length of
                                    None \<Rightarrow> None
                                  | Some (Status, ResultLength, Info) \<Rightarrow>
                                      Some (Status, Info, Some ResultLength))
                             | _ \<Rightarrow> Some (STATUS_SUCCESS, None, None)) of
                         None \<Rightarrow> None
                       | Some (Status, Info, ResultLength) \<Rightarrow>
                           leave Status Info ResultLength)))))))"

subsection \<open>NtEnumerateValueKey, NtQueryValueKey, NtDeleteValueKey, NtQueryMultipleValueKey\<close>

text \<open>
  What the two queries write to \<^verbatim>\<open>KeyValueInformation\<close>: the fixed fields in the order of
  the structure, then the bytes copied to \<^verbatim>\<open>Name\<close> and, for
  \<^verbatim>\<open>KEY_VALUE_FULL_INFORMATION\<close>, the bytes copied to the address \<^verbatim>\<open>DataOffset\<close> bytes
  into the structure.
\<close>

datatype KEY_VALUE_INFORMATION =
    KEY_VALUE_BASIC_INFORMATION ULONG ULONG ULONG "UCHAR list"
  | KEY_VALUE_PARTIAL_INFORMATION ULONG ULONG ULONG "UCHAR list"
  | KEY_VALUE_FULL_INFORMATION ULONG ULONG ULONG ULONG ULONG "UCHAR list" "UCHAR list"

text \<open>
  The offsets of the three structures and the size of a pointer on the 32-bit target, from
  the NT headers, and the macro \<^verbatim>\<open>ROUND_UP(N, S)\<close> of the kernel headers,
  \<^verbatim>\<open>((((N) + (S) - 1) / (S)) * (S))\<close>, in 32-bit arithmetic.
\<close>

definition FIELD_OFFSET_KEY_VALUE_BASIC_INFORMATION_Name :: ULONG where
  "FIELD_OFFSET_KEY_VALUE_BASIC_INFORMATION_Name = 12"

definition FIELD_OFFSET_KEY_VALUE_PARTIAL_INFORMATION_Data :: ULONG where
  "FIELD_OFFSET_KEY_VALUE_PARTIAL_INFORMATION_Data = 12"

definition FIELD_OFFSET_KEY_VALUE_FULL_INFORMATION_Name :: ULONG where
  "FIELD_OFFSET_KEY_VALUE_FULL_INFORMATION_Name = 20"

definition sizeof_PVOID :: ULONG where
  "sizeof_PVOID = 4"

definition ROUND_UP :: "ULONG \<Rightarrow> ULONG \<Rightarrow> ULONG" where
  "ROUND_UP N S = ((N + S - 1) div S) * S"

text \<open>The name of a value cell as the cases of the two switches size and copy it.\<close>

definition ValueCellNameSize :: "CM_KEY_VALUE \<Rightarrow> ULONG" where
  "ValueCellNameSize ValueCell =
     (if ValueFlags ValueCell AND REG_VALUE_NAME_PACKED \<noteq> 0
      then ucast (ValueNameSize ValueCell) * sizeof_WCHAR
      else ucast (ValueNameSize ValueCell))"

definition CopyValueName :: "CM_KEY_VALUE \<Rightarrow> ULONG \<Rightarrow> UCHAR list" where
  "CopyValueName ValueCell NameSize' =
     (if ValueFlags ValueCell AND REG_VALUE_NAME_PACKED \<noteq> 0
      then CmiCopyPackedName (ValueName ValueCell) (unat (NameSize' div sizeof_WCHAR))
      else take (unat NameSize') (ValueName ValueCell))"

text \<open>
  The copy of \<open>n\<close> bytes of the data of a value: out of its data cell, which
  \<^verbatim>\<open>HvGetCell\<close> looks up whatever \<open>n\<close> is, or with \<^verbatim>\<open>REG_DATA_IN_OFFSET\<close> out of the four
  bytes of \<^verbatim>\<open>DataOffset\<close>. \<open>None\<close> is a look-up that finds no data cell, or a copy of more
  bytes than the cell or the field holds.
\<close>

definition CopyValueData :: "EREGISTRY_HIVE \<Rightarrow> CM_KEY_VALUE \<Rightarrow> ULONG \<Rightarrow> UCHAR list option" where
  "CopyValueData Hive ValueCell DataSize' =
     (if DataSize ValueCell AND REG_DATA_IN_OFFSET = 0 then
        (case GetRawData Hive (le_word (DataOffset ValueCell)) of
           None \<Rightarrow> None
         | Some DataCell \<Rightarrow>
             if length DataCell < unat DataSize' then None
             else Some (take (unat DataSize') DataCell))
      else if length (DataOffset ValueCell) < unat DataSize' then None
      else Some (take (unat DataSize') (DataOffset ValueCell)))"

text \<open>
  The cases \<^verbatim>\<open>KeyValueBasicInformation\<close> and \<^verbatim>\<open>KeyValuePartialInformation\<close>, which are the
  same text in \<^verbatim>\<open>NtEnumerateValueKey\<close> (lines 1074 to 1158) and in \<^verbatim>\<open>NtQueryValueKey\<close>
  (lines 1772 to 1857). \<open>Status\<close> is the status on entry to the switch.
\<close>

definition KeyValueBasicInformation_case ::
  "NTSTATUS \<Rightarrow> CM_KEY_VALUE \<Rightarrow> ULONG \<Rightarrow> NTSTATUS \<times> ULONG \<times> KEY_VALUE_INFORMATION option" where
  "KeyValueBasicInformation_case Status ValueCell Length =
     (let NameSize' = ValueCellNameSize ValueCell;
          ResultLength = FIELD_OFFSET_KEY_VALUE_BASIC_INFORMATION_Name + NameSize'
      in if Length < FIELD_OFFSET_KEY_VALUE_BASIC_INFORMATION_Name
         then (STATUS_BUFFER_TOO_SMALL, ResultLength, None)
         else
           let (NameSize'', Status') =
                 (if Length - FIELD_OFFSET_KEY_VALUE_BASIC_INFORMATION_Name < NameSize'
                  then (Length - FIELD_OFFSET_KEY_VALUE_BASIC_INFORMATION_Name,
                        STATUS_BUFFER_OVERFLOW)
                  else (NameSize', Status))
           in (Status', ResultLength,
               Some (KEY_VALUE_BASIC_INFORMATION 0 (DataType ValueCell) NameSize'
                       (CopyValueName ValueCell NameSize''))))"

definition KeyValuePartialInformation_case ::
  "NTSTATUS \<Rightarrow> EREGISTRY_HIVE \<Rightarrow> CM_KEY_VALUE \<Rightarrow> ULONG \<Rightarrow>
   (NTSTATUS \<times> ULONG \<times> KEY_VALUE_INFORMATION option) option" where
  "KeyValuePartialInformation_case Status Hive ValueCell Length =
     (let DataSize' = DataSize ValueCell AND REG_DATA_SIZE_MASK;
          ResultLength = FIELD_OFFSET_KEY_VALUE_PARTIAL_INFORMATION_Data + DataSize'
      in if Length < FIELD_OFFSET_KEY_VALUE_PARTIAL_INFORMATION_Data
         then Some (STATUS_BUFFER_TOO_SMALL, ResultLength, None)
         else
           let (DataSize'', Status') =
                 (if Length - FIELD_OFFSET_KEY_VALUE_PARTIAL_INFORMATION_Data < DataSize'
                  then (Length - FIELD_OFFSET_KEY_VALUE_PARTIAL_INFORMATION_Data,
                        STATUS_BUFFER_OVERFLOW)
                  else (DataSize', Status))
           in (case CopyValueData Hive ValueCell DataSize'' of
                 None \<Rightarrow> None
               | Some Data \<Rightarrow>
                   Some (Status', ResultLength,
                     Some (KEY_VALUE_PARTIAL_INFORMATION 0 (DataType ValueCell)
                             (DataSize ValueCell AND REG_DATA_SIZE_MASK) Data))))"

text \<open>
  The case \<^verbatim>\<open>KeyValueFullInformation\<close> of \<^verbatim>\<open>NtEnumerateValueKey\<close> (lines 1160 to 1231),
  which tests the length against the rounded data offset.
\<close>

definition NtEnumerateValueKey_Full ::
  "NTSTATUS \<Rightarrow> EREGISTRY_HIVE \<Rightarrow> CM_KEY_VALUE \<Rightarrow> ULONG \<Rightarrow>
   (NTSTATUS \<times> ULONG \<times> KEY_VALUE_INFORMATION option) option" where
  "NtEnumerateValueKey_Full Status Hive ValueCell Length =
     (let NameSize' = ValueCellNameSize ValueCell;
          DataSize' = DataSize ValueCell AND REG_DATA_SIZE_MASK;
          ResultLength =
            ROUND_UP (FIELD_OFFSET_KEY_VALUE_FULL_INFORMATION_Name + NameSize') sizeof_PVOID
              + DataSize'
      in if Length < FIELD_OFFSET_KEY_VALUE_FULL_INFORMATION_Name
         then Some (STATUS_BUFFER_TOO_SMALL, ResultLength, None)
         else
           let DataOffset' =
                 ROUND_UP (FIELD_OFFSET_KEY_VALUE_FULL_INFORMATION_Name + NameSize') sizeof_PVOID;
               (NameSize'', DataSize'', Status') =
                 (if Length < DataOffset'
                  then (Length - FIELD_OFFSET_KEY_VALUE_FULL_INFORMATION_Name, 0,
                        STATUS_BUFFER_OVERFLOW)
                  else if Length - DataOffset' < DataSize'
                  then (NameSize', Length - DataOffset', STATUS_BUFFER_OVERFLOW)
                  else (NameSize', DataSize', Status))
           in (case CopyValueData Hive ValueCell DataSize'' of
                 None \<Rightarrow> None
               | Some Data \<Rightarrow>
                   Some (Status', ResultLength,
                     Some (KEY_VALUE_FULL_INFORMATION 0 (DataType ValueCell) DataOffset'
                             (DataSize ValueCell AND REG_DATA_SIZE_MASK) NameSize'
                             (CopyValueName ValueCell NameSize'') Data))))"

text \<open>
  The case \<^verbatim>\<open>KeyValueFullInformation\<close> of \<^verbatim>\<open>NtQueryValueKey\<close> (lines 1859 to 1934), which
  tests the length against the name and then the rounded rest against the data.
\<close>

definition NtQueryValueKey_Full ::
  "EREGISTRY_HIVE \<Rightarrow> CM_KEY_VALUE \<Rightarrow> ULONG \<Rightarrow>
   (NTSTATUS \<times> ULONG \<times> KEY_VALUE_INFORMATION option) option" where
  "NtQueryValueKey_Full Hive ValueCell Length =
     (let NameSize' = ValueCellNameSize ValueCell;
          DataSize' = DataSize ValueCell AND REG_DATA_SIZE_MASK;
          ResultLength =
            ROUND_UP (FIELD_OFFSET_KEY_VALUE_FULL_INFORMATION_Name + NameSize') sizeof_PVOID
              + DataSize'
      in if Length < FIELD_OFFSET_KEY_VALUE_FULL_INFORMATION_Name
         then Some (STATUS_BUFFER_TOO_SMALL, ResultLength, None)
         else
           let DataOffset' =
                 ROUND_UP (FIELD_OFFSET_KEY_VALUE_FULL_INFORMATION_Name + NameSize') sizeof_PVOID;
               (NameSize'', DataSize'', Status') =
                 (if Length - FIELD_OFFSET_KEY_VALUE_FULL_INFORMATION_Name < NameSize'
                  then (Length - FIELD_OFFSET_KEY_VALUE_FULL_INFORMATION_Name, 0,
                        STATUS_BUFFER_OVERFLOW)
                  else if ROUND_UP (Length - FIELD_OFFSET_KEY_VALUE_FULL_INFORMATION_Name
                                      - NameSize') sizeof_PVOID < DataSize'
                  then (NameSize',
                        ROUND_UP (Length - FIELD_OFFSET_KEY_VALUE_FULL_INFORMATION_Name
                                    - NameSize') sizeof_PVOID,
                        STATUS_BUFFER_OVERFLOW)
                  else (NameSize', DataSize', STATUS_SUCCESS))
           in (case CopyValueData Hive ValueCell DataSize'' of
                 None \<Rightarrow> None
               | Some Data \<Rightarrow>
                   Some (Status', ResultLength,
                     Some (KEY_VALUE_FULL_INFORMATION 0 (DataType ValueCell) DataOffset'
                             (DataSize ValueCell AND REG_DATA_SIZE_MASK) NameSize'
                             (CopyValueName ValueCell NameSize'') Data))))"

text \<open>
  \<^verbatim>\<open>NtEnumerateValueKey\<close> returns the status, what it wrote to \<^verbatim>\<open>KeyValueInformation\<close>
  and to \<^verbatim>\<open>*ResultLength\<close> (\<open>None\<close> where it wrote nothing) and the new state. After the
  pre-callback it releases the key object before it calls the post-callbacks.
\<close>

definition NtEnumerateValueKey ::
  "cm_externals \<Rightarrow> HANDLE \<Rightarrow> ULONG \<Rightarrow> KEY_VALUE_INFORMATION_CLASS \<Rightarrow> ULONG \<Rightarrow> cm_state \<Rightarrow>
   (NTSTATUS \<times> KEY_VALUE_INFORMATION option \<times> ULONG option \<times> cm_state) option" where
  "NtEnumerateValueKey X KeyHandle Index KeyValueInformationClass Length st =
     (case ObReferenceObjectByHandle KeyHandle KEY_QUERY_VALUE st of
        Inl Status \<Rightarrow> Some (Status, None, None, st)
      | Inr (KeyObject, st1) \<Rightarrow>
          (case CmiCallRegisteredCallbacks RegNtPreEnumerateValueKey
                  (REG_ENUMERATE_VALUE_KEY_INFORMATION KeyObject Index KeyValueInformationClass
                     Length) st1 of
             (Status, st2) \<Rightarrow>
               if \<not> NT_SUCCESS Status then
                 (case CmiCallRegisteredCallbacks RegNtPostEnumerateValueKey
                         (REG_POST_OPERATION_INFORMATION KeyObject Status) st2 of
                    (_, st3) \<Rightarrow> Some (Status, None, None, ObDereferenceObject KeyObject st3))
               else
                 (case Objects st2 KeyObject of
                    None \<Rightarrow> None
                  | Some ko \<Rightarrow>
                 (case Hives st2 (RegistryHive ko) of
                    None \<Rightarrow> None
                  | Some Hive \<Rightarrow>
                 (case KeyCell st2 ko of
                    None \<Rightarrow> None
                  | Some kc \<Rightarrow>
                      let leave = (\<lambda>Status Info ResultLength.
                            (case CmiCallRegisteredCallbacks RegNtPostEnumerateValueKey
                                    (REG_POST_OPERATION_INFORMATION KeyObject Status)
                                    (ObDereferenceObject KeyObject st2) of
                               (_, st3) \<Rightarrow> Some (Status, Info, ResultLength, st3)))
                      in
                      (case CmiGetValueFromKeyByIndex X Hive kc Index of
                         (Status, ValueCellOffset) \<Rightarrow>
                           if \<not> NT_SUCCESS Status then leave Status None None
                           else if ValueCellOffset = HCELL_NULL
                           then leave STATUS_UNSUCCESSFUL None None
                           else
                             (case (case KeyValueInformationClass of
                                      KeyValueInformationClassOther \<Rightarrow> Some (Status, None, None)
                                    | _ \<Rightarrow>
                                      (case GetValueCell Hive ValueCellOffset of
                                         None \<Rightarrow> None
                                       | Some ValueCell \<Rightarrow>
                                           (case KeyValueInformationClass of
                                              KeyValueBasicInformation \<Rightarrow>
                                                (case KeyValueBasicInformation_case Status
                                                        ValueCell Length of
                                                   (Status, ResultLength, Info) \<Rightarrow>
                                                     Some (Status, Info, Some ResultLength))
                                            | KeyValuePartialInformation \<Rightarrow>
                                                (case KeyValuePartialInformation_case Status Hive
                                                        ValueCell Length of
                                                   None \<Rightarrow> None
                                                 | Some (Status, ResultLength, Info) \<Rightarrow>
                                                     Some (Status, Info, Some ResultLength))
                                            | KeyValueFullInformation \<Rightarrow>
                                                (case NtEnumerateValueKey_Full Status Hive
                                                        ValueCell Length of
                                                   None \<Rightarrow> None
                                                 | Some (Status, ResultLength, Info) \<Rightarrow>
                                                     Some (Status, Info, Some ResultLength))
                                            | KeyValueInformationClassOther \<Rightarrow>
                                                Some (Status, None, None)))) of
                                None \<Rightarrow> None
                              | Some (Status, Info, ResultLength) \<Rightarrow>
                                  leave Status Info ResultLength)))))))"

text \<open>
  \<^verbatim>\<open>NtQueryValueKey\<close>, with the same results. The cases of the switch read through the
  pointer that \<^verbatim>\<open>CmiScanKeyForValue\<close> gave without a test for the null pointer.
\<close>

definition NtQueryValueKey ::
  "cm_externals \<Rightarrow> HANDLE \<Rightarrow> WCHAR list \<Rightarrow> KEY_VALUE_INFORMATION_CLASS \<Rightarrow> ULONG \<Rightarrow> cm_state \<Rightarrow>
   (NTSTATUS \<times> KEY_VALUE_INFORMATION option \<times> ULONG option \<times> cm_state) option" where
  "NtQueryValueKey X KeyHandle ValueName' KeyValueInformationClass Length st =
     (case ObReferenceObjectByHandle KeyHandle KEY_QUERY_VALUE st of
        Inl Status \<Rightarrow> Some (Status, None, None, st)
      | Inr (KeyObject, st1) \<Rightarrow>
          (case CmiCallRegisteredCallbacks RegNtPreQueryValueKey
                  (REG_QUERY_VALUE_KEY_INFORMATION KeyObject ValueName' KeyValueInformationClass
                     Length) st1 of
             (Status, st2) \<Rightarrow>
               let leave = (\<lambda>Status Info ResultLength.
                     (case CmiCallRegisteredCallbacks RegNtPostQueryValueKey
                             (REG_POST_OPERATION_INFORMATION KeyObject Status) st2 of
                        (_, st3) \<Rightarrow>
                          Some (Status, Info, ResultLength, ObDereferenceObject KeyObject st3)))
               in
               if \<not> NT_SUCCESS Status then leave Status None None
               else
                 (case Objects st2 KeyObject of
                    None \<Rightarrow> None
                  | Some ko \<Rightarrow>
                 (case Hives st2 (RegistryHive ko) of
                    None \<Rightarrow> None
                  | Some Hive \<Rightarrow>
                 (case KeyCell st2 ko of
                    None \<Rightarrow> None
                  | Some kc \<Rightarrow>
                      (case CmiScanKeyForValue X Hive kc ValueName' of
                         (Status, ValueCellOffset) \<Rightarrow>
                           if \<not> NT_SUCCESS Status then leave Status None None
                           else
                             (case (case KeyValueInformationClass of
                                      KeyValueInformationClassOther \<Rightarrow>
                                        Some (STATUS_INVALID_INFO_CLASS, None, None)
                                    | _ \<Rightarrow>
                                      (case GetValueCell Hive ValueCellOffset of
                                         None \<Rightarrow> None
                                       | Some ValueCell \<Rightarrow>
                                           (case KeyValueInformationClass of
                                              KeyValueBasicInformation \<Rightarrow>
                                                (case KeyValueBasicInformation_case STATUS_SUCCESS
                                                        ValueCell Length of
                                                   (Status, ResultLength, Info) \<Rightarrow>
                                                     Some (Status, Info, Some ResultLength))
                                            | KeyValuePartialInformation \<Rightarrow>
                                                (case KeyValuePartialInformation_case
                                                        STATUS_SUCCESS Hive ValueCell Length of
                                                   None \<Rightarrow> None
                                                 | Some (Status, ResultLength, Info) \<Rightarrow>
                                                     Some (Status, Info, Some ResultLength))
                                            | KeyValueFullInformation \<Rightarrow>
                                                (case NtQueryValueKey_Full Hive ValueCell
                                                        Length of
                                                   None \<Rightarrow> None
                                                 | Some (Status, ResultLength, Info) \<Rightarrow>
                                                     Some (Status, Info, Some ResultLength))
                                            | KeyValueInformationClassOther \<Rightarrow>
                                                Some (STATUS_INVALID_INFO_CLASS, None, None)))) of
                                None \<Rightarrow> None
                              | Some (Status, Info, ResultLength) \<Rightarrow>
                                  leave Status Info ResultLength)))))))"

text \<open>
  \<^verbatim>\<open>NtDeleteValueKey\<close>. \<open>ValueName\<close> is the pointer of the caller; the callbacks are given
  the captured string. The last write time is written through \<^verbatim>\<open>KeyObject->KeyCell\<close> after
  \<^verbatim>\<open>CmiDeleteValueFromKey\<close> has changed the hive.
\<close>

definition NtDeleteValueKey ::
  "cm_externals \<Rightarrow> HANDLE \<Rightarrow> PVOID \<Rightarrow> cm_state \<Rightarrow> (NTSTATUS \<times> cm_state) option" where
  "NtDeleteValueKey X KeyHandle ValueName' st =
     (case ObReferenceObjectByHandle KeyHandle KEY_SET_VALUE st of
        Inl Status \<Rightarrow> Some (Status, st)
      | Inr (KeyObject, st1) \<Rightarrow>
          (case ProbeAndCaptureUnicodeString X ValueName' of
             (Status, CapturedValueName) \<Rightarrow>
               if \<not> NT_SUCCESS Status then Some (Status, ObDereferenceObject KeyObject st1)
               else
          (case CmiCallRegisteredCallbacks RegNtPreDeleteValueKey
                  (REG_DELETE_VALUE_KEY_INFORMATION KeyObject CapturedValueName) st1 of
             (Status, st2) \<Rightarrow>
               if \<not> NT_SUCCESS Status then
                 (case CmiCallRegisteredCallbacks RegNtPostDeleteValueKey
                         (REG_POST_OPERATION_INFORMATION KeyObject Status) st2 of
                    (_, st3) \<Rightarrow> Some (Status, ObDereferenceObject KeyObject st3))
               else
                 (case Objects st2 KeyObject of
                    None \<Rightarrow> None
                  | Some ko \<Rightarrow>
                 (case Hives st2 (RegistryHive ko) of
                    None \<Rightarrow> None
                  | Some Hive \<Rightarrow>
                 (case KeyCell st2 ko of
                    None \<Rightarrow> None
                  | Some kc \<Rightarrow>
                 (case CmiDeleteValueFromKey X Hive kc (KeyCellOffset ko) ValueName' of
                    (Status, Hive1) \<Rightarrow>
                      (case GetKeyNode Hive1 (KeyCellOffset ko) of
                         None \<Rightarrow> None
                       | Some kc1 \<Rightarrow>
                           let Hive2 = WriteCell Hive1 (KeyCellOffset ko)
                                         (KeyNode (kc1\<lparr>LastWriteTime := SystemTime st2\<rparr>));
                               Hive3 = HvMarkCellDirty Hive2 (KeyCellOffset ko);
                               st3 = st2\<lparr>Hives := (Hives st2)(RegistryHive ko \<mapsto> Hive3)\<rparr>
                           in (case CmiCallRegisteredCallbacks RegNtPostDeleteValueKey
                                       (REG_POST_OPERATION_INFORMATION KeyObject Status) st3 of
                                 (_, st4) \<Rightarrow>
                                   Some (Status,
                                         CmiSyncHives (ObDereferenceObject KeyObject st4)))))))))))"

text \<open>
  The loop of \<^verbatim>\<open>NtQueryMultipleValueKey\<close> (lines 2473 to 2527), with the number of passes
  left and the index \<open>i\<close>. It carries the status, \<^verbatim>\<open>BufferLength\<close>, the address
  \<^verbatim>\<open>DataPtr\<close>, the array \<^verbatim>\<open>ValueList\<close> and the writes to the buffer, each an address with
  the bytes written there. \<open>None\<close> is a read of the array past its end, or a failed copy.
\<close>

fun NtQueryMultipleValueKey_loop ::
  "cm_externals \<Rightarrow> EREGISTRY_HIVE \<Rightarrow> CM_KEY_NODE \<Rightarrow> ULONG \<Rightarrow> ULONG \<Rightarrow> nat \<Rightarrow> nat \<Rightarrow>
   NTSTATUS \<times> ULONG \<times> ULONG \<times> KEY_VALUE_ENTRY list \<times> (ULONG \<times> UCHAR list) list \<Rightarrow>
   (NTSTATUS \<times> ULONG \<times> ULONG \<times> KEY_VALUE_ENTRY list \<times> (ULONG \<times> UCHAR list) list) option" where
  "NtQueryMultipleValueKey_loop X Hive KeyCell' Buffer Length 0 i acc = Some acc"
| "NtQueryMultipleValueKey_loop X Hive KeyCell' Buffer Length (Suc n) i
       (Status, BufferLength, DataPtr, ValueList', Writes) =
     (if length ValueList' \<le> i then None
      else
        (case CmiScanKeyForValue X Hive KeyCell' (EntryValueName (ValueList' ! i)) of
           (Status', ValueCellOffset) \<Rightarrow>
             if \<not> NT_SUCCESS Status'
             then Some (Status', BufferLength, DataPtr, ValueList', Writes)
             else if ValueCellOffset = HCELL_NULL
             then Some (STATUS_OBJECT_NAME_NOT_FOUND, BufferLength, DataPtr, ValueList', Writes)
             else
               (case GetValueCell Hive ValueCellOffset of
                  None \<Rightarrow> None
                | Some ValueCell \<Rightarrow>
                    let BufferLength1 = ROUND_UP BufferLength sizeof_PVOID;
                        Size = DataSize ValueCell AND REG_DATA_SIZE_MASK
                    in if BufferLength1 + Size \<le> Length then
                         let DataPtr1 = ROUND_UP DataPtr sizeof_PVOID in
                         (case CopyValueData Hive ValueCell Size of
                            None \<Rightarrow> None
                          | Some Data \<Rightarrow>
                              NtQueryMultipleValueKey_loop X Hive KeyCell' Buffer Length n (Suc i)
                                (Status', BufferLength1 + Size, DataPtr1 + Size,
                                 ValueList'[i := (ValueList' ! i)
                                    \<lparr>EntryDataLength := Size,
                                     EntryDataOffset := DataPtr1 - Buffer,
                                     EntryType := DataType ValueCell\<rparr>],
                                 Writes @ [(DataPtr1, Data)]))
                       else
                         NtQueryMultipleValueKey_loop X Hive KeyCell' Buffer Length n (Suc i)
                           (STATUS_BUFFER_TOO_SMALL, BufferLength1 + Size, DataPtr,
                            ValueList', Writes))))"

text \<open>
  \<^verbatim>\<open>NtQueryMultipleValueKey\<close> returns the status, the array, the writes to the buffer, what
  it wrote to \<^verbatim>\<open>*Length\<close> and to \<^verbatim>\<open>*ReturnLength\<close> (\<open>None\<close> where it wrote nothing) and
  the new state. \<open>Buffer\<close> is the address of the buffer and \<open>Length\<close> the value of
  \<^verbatim>\<open>*Length\<close> on entry.
\<close>

definition NtQueryMultipleValueKey ::
  "cm_externals \<Rightarrow> HANDLE \<Rightarrow> KEY_VALUE_ENTRY list \<Rightarrow> ULONG \<Rightarrow> ULONG \<Rightarrow> ULONG \<Rightarrow> cm_state \<Rightarrow>
   (NTSTATUS \<times> KEY_VALUE_ENTRY list \<times> (ULONG \<times> UCHAR list) list \<times> ULONG option \<times> ULONG option
      \<times> cm_state) option" where
  "NtQueryMultipleValueKey X KeyHandle ValueList' NumberOfValues Buffer Length st =
     (case ObReferenceObjectByHandle KeyHandle KEY_QUERY_VALUE st of
        Inl Status \<Rightarrow> Some (Status, ValueList', [], None, None, st)
      | Inr (KeyObject, st1) \<Rightarrow>
          (case CmiCallRegisteredCallbacks RegNtPreQueryMultipleValueKey
                  (REG_QUERY_MULTIPLE_VALUE_KEY_INFORMATION KeyObject ValueList' NumberOfValues
                     Length) st1 of
             (Status, st2) \<Rightarrow>
               if \<not> NT_SUCCESS Status then
                 (case CmiCallRegisteredCallbacks RegNtPostQueryMultipleValueKey
                         (REG_POST_OPERATION_INFORMATION KeyObject Status) st2 of
                    (_, st3) \<Rightarrow>
                      Some (Status, ValueList', [], None, None, ObDereferenceObject KeyObject st3))
               else
                 (case Objects st2 KeyObject of
                    None \<Rightarrow> None
                  | Some ko \<Rightarrow>
                 (case Hives st2 (RegistryHive ko) of
                    None \<Rightarrow> None
                  | Some Hive \<Rightarrow>
                 (case KeyCell st2 ko of
                    None \<Rightarrow> None
                  | Some kc \<Rightarrow>
                 (case NtQueryMultipleValueKey_loop X Hive kc Buffer Length (unat NumberOfValues) 0
                         (Status, 0, Buffer, ValueList', []) of
                    None \<Rightarrow> None
                  | Some (Status, BufferLength, DataPtr, ValueList1, Writes) \<Rightarrow>
                      (case CmiCallRegisteredCallbacks RegNtPostQueryMultipleValueKey
                              (REG_POST_OPERATION_INFORMATION KeyObject Status) st2 of
                         (_, st3) \<Rightarrow>
                           Some (Status, ValueList1, Writes,
                                 if NT_SUCCESS Status then Some BufferLength else None,
                                 Some BufferLength,
                                 ObDereferenceObject KeyObject st3))))))))"

subsection \<open>CmpCreateHandle, NtOpenKey and NtCreateKey\<close>

definition ObMarkHandleAsKernelHandle :: "HANDLE \<Rightarrow> HANDLE" where
  "ObMarkHandleAsKernelHandle Handle = Handle OR 0x80000000"

text \<open>
  \<^verbatim>\<open>CmpCreateHandle\<close>. \<^verbatim>\<open>ExCreateHandle\<close> gives the next free handle of the table, or NULL
  when there is none. The handle table of the model is the one table of the process the
  handle is created in.
\<close>

definition CmpCreateHandle ::
  "cm_externals \<Rightarrow> object_ref \<Rightarrow> ACCESS_MASK \<Rightarrow> ULONG \<Rightarrow> cm_state \<Rightarrow>
   (NTSTATUS \<times> HANDLE option \<times> cm_state) option" where
  "CmpCreateHandle X ObjectBody GrantedAccess' HandleAttributes st =
     (let GrantedAccess1 =
            (if GrantedAccess' AND MAXIMUM_ALLOWED \<noteq> 0
             then (GrantedAccess' AND NOT MAXIMUM_ALLOWED) OR GENERIC_ALL else GrantedAccess');
          GrantedAccess2 =
            (if GrantedAccess1 AND GENERIC_ACCESS \<noteq> 0
             then RtlMapGenericMask X GrantedAccess1 else GrantedAccess1);
          NewEntry = \<lparr>Object = ObjectBody, GrantedAccess = GrantedAccess2,
                      ObAttributes =
                        (if HandleAttributes AND OBJ_INHERIT \<noteq> 0
                         then UninitializedObAttributes X OR EX_HANDLE_ENTRY_INHERITABLE
                         else UninitializedObAttributes X AND NOT EX_HANDLE_ENTRY_INHERITABLE)\<rparr>;
          HandleAttributes1 =
            (if HandleAttributes AND OBJ_KERNEL_HANDLE \<noteq> 0 \<and> ExGetPreviousMode_is_KernelMode X
             then HandleAttributes else HandleAttributes AND NOT OBJ_KERNEL_HANDLE)
      in case FreeHandles st of
           [] \<Rightarrow> Some (STATUS_UNSUCCESSFUL, None, st)
         | Handle # rest \<Rightarrow>
             (case Objects st ObjectBody of
                None \<Rightarrow> None
              | Some ko \<Rightarrow>
                  let Handle1 = (if HandleAttributes1 AND OBJ_KERNEL_HANDLE \<noteq> 0
                                 then ObMarkHandleAsKernelHandle Handle else Handle);
                      ko1 = ko\<lparr>HandleCount := HandleCount ko + 1\<rparr>;
                      ko2 = (if HandleCount ko1 = 1
                             then ko1\<lparr>PointerCount := PointerCount ko1 + 1\<rparr> else ko1)
                  in Some (STATUS_SUCCESS, Some Handle1,
                           st\<lparr>HandleTable := (HandleTable st)(Handle \<mapsto> NewEntry),
                              FreeHandles := rest,
                              Objects := (Objects st)(ObjectBody \<mapsto> ko2)\<rparr>)))"

text \<open>
  \<^verbatim>\<open>NtOpenKey\<close> returns the status, what \<^verbatim>\<open>*KeyHandle\<close> holds if the call wrote to it,
  and the new state.
\<close>

definition NtOpenKey ::
  "cm_externals \<Rightarrow> PVOID \<Rightarrow> ACCESS_MASK \<Rightarrow> PVOID \<Rightarrow> cm_state \<Rightarrow>
   (NTSTATUS \<times> HANDLE option \<times> cm_state) option" where
  "NtOpenKey X KeyHandle DesiredAccess ObjectAttributes st =
     (if KeyHandle = 0 then Some (STATUS_INVALID_PARAMETER, None, st)
      else
        let Probe = (if ExGetPreviousMode X \<noteq> KernelMode then ProbeForWrite X KeyHandle
                     else STATUS_SUCCESS);
            Zeroed = (if ExGetPreviousMode X \<noteq> KernelMode \<and> NT_SUCCESS Probe
                      then Some 0 else None)
        in
        if \<not> NT_SUCCESS Probe then Some (Probe, None, st)
        else
          (case ObpCaptureObjectAttributes X ObjectAttributes of
             (Status, Attributes, ObjectName) \<Rightarrow>
               if \<not> NT_SUCCESS Status then Some (Status, Zeroed, st)
               else if ObjectName = Some [] then None
               else
                 let ObjectName1 =
                       (case ObjectName of
                          Some Buffer \<Rightarrow> Some (if last Buffer = BACKSLASH then butlast Buffer else Buffer)
                        | None \<Rightarrow> None)
                 in
                 (case CmiCallRegisteredCallbacks RegNtPreOpenKey
                         (REG_PRE_CREATE_KEY_INFORMATION ObjectName1) st of
                    (Status, st1) \<Rightarrow>
                      if \<not> NT_SUCCESS Status then
                        (case CmiCallRegisteredCallbacks RegNtPostOpenKey
                                (REG_POST_CREATE_KEY_INFORMATION ObjectName1 None Status) st1 of
                           (_, st2) \<Rightarrow> Some (Status, Zeroed, st2))
                      else
                        (case CmFindObject X st1 ObjectName1 of
                           (Status, Object', RemainingPath, st2) \<Rightarrow>
                             (case (if \<not> NT_SUCCESS Status
                                    then Some (STATUS_INVALID_HANDLE, None, st2)
                                    else if RemainingPath \<noteq> []
                                    then Some (STATUS_OBJECT_NAME_NOT_FOUND, None, st2)
                                    else
                                      (case Object' of
                                         None \<Rightarrow> None
                                       | Some Obj \<Rightarrow>
                                           (case Objects st2 Obj of
                                              None \<Rightarrow> None
                                            | Some ko \<Rightarrow>
                                                if Flags ko AND KO_MARKED_FOR_DELETE \<noteq> 0
                                                then Some (STATUS_UNSUCCESSFUL, None, st2)
                                                else CmpCreateHandle X Obj DesiredAccess
                                                       Attributes st2))) of
                                None \<Rightarrow> None
                              | Some (Status, hKey, st3) \<Rightarrow>
                                  (case CmiCallRegisteredCallbacks RegNtPostOpenKey
                                          (REG_POST_CREATE_KEY_INFORMATION ObjectName1
                                             (if NT_SUCCESS Status then Object' else None) Status)
                                          st3 of
                                     (_, st4) \<Rightarrow>
                                       let st5 = (case Object' of
                                                    Some Obj \<Rightarrow> ObDereferenceObject Obj st4
                                                  | None \<Rightarrow> st4)
                                       in if NT_SUCCESS Status then
                                            (if NT_SUCCESS (ProbeForWrite X KeyHandle)
                                             then Some (Status, hKey, st5)
                                             else Some (ProbeForWrite X KeyHandle, Zeroed, st5))
                                          else Some (Status, Zeroed, st5)))))))"

text \<open>
  \<^verbatim>\<open>NtCreateKey\<close> returns the status, what \<^verbatim>\<open>*KeyHandle\<close> and \<^verbatim>\<open>*Disposition\<close> hold if
  the call wrote to them, and the new state. \<open>Class\<close> and \<open>Disposition\<close> are pointers,
  0 for NULL. The remaining path that \<^verbatim>\<open>CmFindObject\<close> returns is the list of its
  characters, empty when its length is 0.
\<close>

definition NtCreateKey ::
  "cm_externals \<Rightarrow> PVOID \<Rightarrow> ACCESS_MASK \<Rightarrow> PVOID \<Rightarrow> ULONG \<Rightarrow> PVOID \<Rightarrow> ULONG \<Rightarrow> PVOID \<Rightarrow>
   cm_state \<Rightarrow> (NTSTATUS \<times> HANDLE option \<times> ULONG option \<times> cm_state) option" where
  "NtCreateKey X KeyHandle DesiredAccess ObjectAttributes TitleIndex Class CreateOptions
       Disposition st =
     (let Probe =
            (if ExGetPreviousMode X \<noteq> KernelMode
             then (if \<not> NT_SUCCESS (ProbeForWrite X KeyHandle) then ProbeForWrite X KeyHandle
                   else if Disposition \<noteq> 0 then ProbeForWrite X Disposition
                   else STATUS_SUCCESS)
             else STATUS_SUCCESS);
          Zeroed = (if ExGetPreviousMode X \<noteq> KernelMode \<and> NT_SUCCESS (ProbeForWrite X KeyHandle)
                    then Some 0 else None)
      in
      if \<not> NT_SUCCESS Probe then Some (Probe, Zeroed, None, st)
      else
        (case (if Class \<noteq> 0 then ProbeAndCaptureUnicodeString X Class else (STATUS_SUCCESS, [])) of
           (Status, CapturedClass) \<Rightarrow>
             if \<not> NT_SUCCESS Status then Some (Status, Zeroed, None, st)
             else
        (case ObpCaptureObjectAttributes X ObjectAttributes of
           (Status, Attributes, ObjectName) \<Rightarrow>
             if \<not> NT_SUCCESS Status then Some (Status, Zeroed, None, st)
             else
        (case CmiCallRegisteredCallbacks RegNtPreCreateKey
                (REG_PRE_CREATE_KEY_INFORMATION ObjectName) st of
           (Status, st1) \<Rightarrow>
             let post = (\<lambda>Obj Status st'.
                   snd (CmiCallRegisteredCallbacks RegNtPostCreateKey
                          (REG_POST_CREATE_KEY_INFORMATION ObjectName Obj Status) st'));
                 SuccessReturn = (\<lambda>Status hKey LocalDisposition st'.
                   if \<not> NT_SUCCESS (ProbeForWrite X KeyHandle)
                   then Some (ProbeForWrite X KeyHandle, Zeroed, None, st')
                   else if Disposition \<noteq> 0
                   then (if \<not> NT_SUCCESS (ProbeForWrite X Disposition)
                         then Some (ProbeForWrite X Disposition, Some hKey, None, st')
                         else Some (Status, Some hKey, Some LocalDisposition, st'))
                   else Some (Status, Some hKey, None, st'))
             in
             if \<not> NT_SUCCESS Status then Some (Status, Zeroed, None, post None Status st1)
             else
        (case CmFindObject X st1 ObjectName of
           (Status, Object', RemainingPath, st2) \<Rightarrow>
             if \<not> NT_SUCCESS Status then Some (Status, Zeroed, None, post None Status st2)
             else
             if RemainingPath = [] then
               (case Object' of
                  None \<Rightarrow> None
                | Some Obj \<Rightarrow>
                    (case Objects st2 Obj of
                       None \<Rightarrow> None
                     | Some ko \<Rightarrow>
                         if Flags ko AND KO_MARKED_FOR_DELETE \<noteq> 0
                         then Some (STATUS_UNSUCCESSFUL, Zeroed, None,
                                    post None STATUS_UNSUCCESSFUL st2)
                         else
                           (case CmpCreateHandle X Obj DesiredAccess Attributes st2 of
                              None \<Rightarrow> None
                            | Some (Status, hKey, st3) \<Rightarrow>
                                SuccessReturn Status
                                  (case hKey of Some h \<Rightarrow> h | None \<Rightarrow> UninitializedHandle X)
                                  REG_OPENED_EXISTING_KEY (post None Status st3))))
             else
               let Start = (if hd RemainingPath = BACKSLASH then 1 else 0 :: nat);
                   RemainingPath1 = (if last RemainingPath = BACKSLASH
                                     then butlast RemainingPath else RemainingPath)
               in
               if BACKSLASH \<in> set (drop 1 RemainingPath1)
               then Some (STATUS_OBJECT_NAME_NOT_FOUND, Zeroed, None,
                          post None STATUS_OBJECT_NAME_NOT_FOUND st2)
               else
        (case ObCreateObject X st2 of
           (Status, KeyObject, st3) \<Rightarrow>
             if \<not> NT_SUCCESS Status then Some (Status, Zeroed, None, post None Status st3)
             else
        (case ObInsertObject X st3 KeyObject DesiredAccess of
           (Status, hKey, st4) \<Rightarrow>
             if \<not> NT_SUCCESS Status
             then Some (Status, Zeroed, None, post None Status (ObDereferenceObject KeyObject st4))
             else
        (case Object' of
           None \<Rightarrow> None
         | Some Obj \<Rightarrow>
        (case Objects st4 Obj of
           None \<Rightarrow> None
         | Some parent \<Rightarrow>
        (case Objects st4 KeyObject of
           None \<Rightarrow> None
         | Some ko \<Rightarrow>
             let ko1 = ko\<lparr>ParentKey := Obj, RegistryHive := RegistryHive parent, Flags := 0\<rparr>;
                 st5 = st4\<lparr>Objects := (Objects st4)(KeyObject \<mapsto> ko1),
                          CmiKeyObjectListHead := CmiKeyObjectListHead st4 @ [KeyObject]\<rparr>
             in
        (case CmiAddSubKey X st5 KeyObject RemainingPath1 TitleIndex CapturedClass CreateOptions of
           (Status, st6) \<Rightarrow>
             if \<not> NT_SUCCESS Status
             then Some (STATUS_UNSUCCESSFUL, Zeroed, None,
                        post None STATUS_UNSUCCESSFUL (ObDereferenceObject KeyObject st6))
             else
        (case Objects st6 KeyObject of
           None \<Rightarrow> None
         | Some ko2 \<Rightarrow>
        (case Hives st6 (RegistryHive ko2) of
           None \<Rightarrow> None
         | Some Hive \<Rightarrow>
        (case KeyCell st6 ko2 of
           None \<Rightarrow> None
         | Some kc \<Rightarrow>
        (case Objects st6 (ParentKey ko2) of
           None \<Rightarrow> None
         | Some parent2 \<Rightarrow>
        (case KeyCell st6 parent2 of
           None \<Rightarrow> None
         | Some parent_kc \<Rightarrow>
             let ko3 = ko2\<lparr>Name := drop Start RemainingPath1\<rparr>;
                 kc1 = kc\<lparr>Parent := KeyCellOffset parent2,
                          SecurityKeyOffset := SecurityKeyOffset parent_kc\<rparr>;
                 Hive1 = WriteCell Hive (KeyCellOffset ko2) (KeyNode kc1);
                 st7 = st6\<lparr>Objects := (Objects st6)(KeyObject \<mapsto> ko3),
                          Hives := (Hives st6)(RegistryHive ko2 \<mapsto> Hive1)\<rparr>;
                 st8 = CmiAddKeyToList X st7 (ParentKey ko2) KeyObject;
                 st9 = CmiSyncHives (post (Some KeyObject) Status st8)
             in SuccessReturn Status hKey REG_CREATED_NEW_KEY st9))))))))))))))))"

subsection \<open>A sample registry\<close>

text \<open>
  One hive backed by a file. Its root key (cell \<open>0x20\<close>) has the subkey \<open>A\<close> (cell
  \<open>0x80\<close>); \<open>A\<close> has the stable subkeys \<open>B\<close> and \<open>C\<close>, the volatile subkey \<open>D\<close> and
  the value \<open>v\<close>, three bytes stored in the value cell. There are key objects for the root,
  for \<open>A\<close> (open under handle 4) and for \<open>B\<close> (open under handle 12), both handles with
  \<^verbatim>\<open>KEY_ALL_ACCESS\<close>.
\<close>

definition ex_leaf :: "UCHAR \<Rightarrow> USHORT \<Rightarrow> CM_KEY_NODE" where
  "ex_leaf c flags = \<lparr>NodeFlags = flags, LastWriteTime = 0, Parent = 0x80,
     SubKeyCounts = (\<lambda>_. 0), SubKeyLists = (\<lambda>_. HCELL_NULL),
     ValueListCount = 0, ValueListOffset = HCELL_NULL, SecurityKeyOffset = HCELL_NULL,
     ClassNameOffset = HCELL_NULL, NameSize = 1, ClassSize = 0, NodeName = [c]\<rparr>"

definition ex_root :: CM_KEY_NODE where
  "ex_root = \<lparr>NodeFlags = REG_KEY_NAME_PACKED, LastWriteTime = 0, Parent = HCELL_NULL,
     SubKeyCounts = (\<lambda>s. case s of HvStable \<Rightarrow> 1 | HvVolatile \<Rightarrow> 0),
     SubKeyLists = (\<lambda>s. case s of HvStable \<Rightarrow> 0x40 | HvVolatile \<Rightarrow> HCELL_NULL),
     ValueListCount = 0, ValueListOffset = HCELL_NULL, SecurityKeyOffset = HCELL_NULL,
     ClassNameOffset = HCELL_NULL, NameSize = 0, ClassSize = 0, NodeName = []\<rparr>"

definition ex_node :: CM_KEY_NODE where
  "ex_node = \<lparr>NodeFlags = REG_KEY_NAME_PACKED, LastWriteTime = 0, Parent = 0x20,
     SubKeyCounts = (\<lambda>s. case s of HvStable \<Rightarrow> 2 | HvVolatile \<Rightarrow> 1),
     SubKeyLists = (\<lambda>s. case s of HvStable \<Rightarrow> 0xA0 | HvVolatile \<Rightarrow> 0xC0),
     ValueListCount = 1, ValueListOffset = 0x1C0, SecurityKeyOffset = HCELL_NULL,
     ClassNameOffset = HCELL_NULL, NameSize = 1, ClassSize = 0, NodeName = [0x41]\<rparr>"

definition ex_value :: CM_KEY_VALUE where
  "ex_value = \<lparr>ValueNameSize = 1, DataSize = 0x80000003, DataOffset = [1, 2, 3, 0],
     DataType = 3, ValueFlags = 1, ValueName = [0x76]\<rparr>"

definition ex_cell :: "HV_STORAGE_TYPE \<Rightarrow> cell_data \<Rightarrow> HCELL" where
  "ex_cell Storage Contents = \<lparr>CellLength = 0x60, CellStorage = Storage, CellData = Contents\<rparr>"

definition ex_hive :: EREGISTRY_HIVE where
  "ex_hive = \<lparr>HiveFlags = 0,
     Cells = [0x20 \<mapsto> ex_cell HvStable (KeyNode ex_root),
              0x40 \<mapsto> ex_cell HvStable (HashTable [(0x41, 0x80)]),
              0x80 \<mapsto> ex_cell HvStable (KeyNode ex_node),
              0xA0 \<mapsto> ex_cell HvStable (HashTable [(0x42, 0x100), (0x43, 0x140)]),
              0xC0 \<mapsto> ex_cell HvVolatile (HashTable [(0x44, 0x180)]),
              0x100 \<mapsto> ex_cell HvStable (KeyNode (ex_leaf 0x42 REG_KEY_NAME_PACKED)),
              0x140 \<mapsto> ex_cell HvStable (KeyNode (ex_leaf 0x43 REG_KEY_NAME_PACKED)),
              0x180 \<mapsto> ex_cell HvVolatile (KeyNode (ex_leaf 0x44 0x21)),
              0x1C0 \<mapsto> ex_cell HvStable (ValueList [0x1E0]),
              0x1E0 \<mapsto> ex_cell HvStable (KeyValue ex_value)],
     DirtyCells = [], FreeCells = [0x200, 0x260]\<rparr>"

definition ex_root_object :: KEY_OBJECT where
  "ex_root_object = \<lparr>PointerCount = 1, HandleCount = 0, RegistryHive = 1, Flags = 0,
     KeyCellOffset = 0x20, ParentKey = 8, Name = []\<rparr>"

definition ex_object :: KEY_OBJECT where
  "ex_object = \<lparr>PointerCount = 2, HandleCount = 1, RegistryHive = 1, Flags = 0,
     KeyCellOffset = 0x80, ParentKey = 8, Name = [0x41]\<rparr>"

definition ex_object_B :: KEY_OBJECT where
  "ex_object_B = \<lparr>PointerCount = 2, HandleCount = 1, RegistryHive = 1, Flags = 0,
     KeyCellOffset = 0x100, ParentKey = 9, Name = [0x42]\<rparr>"

definition ex_entry :: HANDLE_TABLE_ENTRY where
  "ex_entry = \<lparr>Object = 9, GrantedAccess = 0xF003F, ObAttributes = 0\<rparr>"

definition ex_entry_B :: HANDLE_TABLE_ENTRY where
  "ex_entry_B = \<lparr>Object = 10, GrantedAccess = 0xF003F, ObAttributes = 0\<rparr>"

definition ex_state :: cm_state where
  "ex_state = \<lparr>CmiCallbackHead = [], CallbackPool = [], CallbackLog = [],
     Hives = [1 \<mapsto> ex_hive],
     Objects = [8 \<mapsto> ex_root_object, 9 \<mapsto> ex_object, 10 \<mapsto> ex_object_B],
     HandleTable = [4 \<mapsto> ex_entry, 12 \<mapsto> ex_entry_B],
     FreeHandles = [16], CmiKeyObjectListHead = [8, 9, 10], SystemTime = 0x1000,
     SyncRequests = 0\<rparr>"

text \<open>
  Routines for the sample: a caller in user mode whose pointers are all writable, a scan
  that knows the value \<open>v\<close> of the key \<open>A\<close>, and input and output that succeed.
\<close>

definition ex_externals :: cm_externals where
  "ex_externals = \<lparr>
     ExGetPreviousMode = UserMode,
     ProbeForWrite = (\<lambda>_. STATUS_SUCCESS),
     ProbeAndCaptureUnicodeString = (\<lambda>_. (STATUS_SUCCESS, [])),
     ObpCaptureObjectAttributes = (\<lambda>_. (STATUS_SUCCESS, 0, Some [0x5C, 0x41])),
     CmFindObject = (\<lambda>st _. (STATUS_SUCCESS, Some 9, [], st)),
     RtlMapGenericMask = (\<lambda>m. m),
     UninitializedObAttributes = 0,
     UninitializedHandle = 0,
     ExGetPreviousMode_is_KernelMode = False,
     ObCreateObject = (\<lambda>st. (STATUS_INSUFFICIENT_RESOURCES, 0, st)),
     ObInsertObject = (\<lambda>st _ _. (STATUS_INSUFFICIENT_RESOURCES, 0, st)),
     CmiAddSubKey = (\<lambda>st _ _ _ _ _. (STATUS_INSUFFICIENT_RESOURCES, st)),
     CmiAddKeyToList = (\<lambda>st _ _. st),
     CmiFlushRegistryHive = (\<lambda>Hive. (STATUS_SUCCESS, Hive\<lparr>DirtyCells := []\<rparr>)),
     CmiScanKeyForValue = (\<lambda>Hive Node ValueName'.
        if ValueName' = [0x76] then (STATUS_SUCCESS, 0x1E0)
        else (STATUS_OBJECT_NAME_NOT_FOUND, HCELL_NULL)),
     CmiAddValueToKey = (\<lambda>Hive Node Offset ValueName'.
        (STATUS_INSUFFICIENT_RESOURCES, HCELL_NULL, Hive)),
     wcsicmp = (\<lambda>a b. if a = b then 0 else 1),
     CmiCreateTempHive = (\<lambda>_. (STATUS_SUCCESS, 2,
        \<lparr>HiveFlags = HIVE_NO_FILE, Cells = Map.empty, DirtyCells = [], FreeCells = [0x20]\<rparr>)),
     CmiCopyKey = (\<lambda>Dst Src Node. (STATUS_SUCCESS, Dst)),
     CmiSaveTempHive = (\<lambda>_ _. STATUS_SUCCESS),
     CmiGetNumberOfSubKeys = (\<lambda>_ _. 3),
     CmiGetMaxNameLength = (\<lambda>_ _. 2),
     CmiGetMaxClassLength = (\<lambda>_ _. 0),
     CmiGetMaxValueNameLength = (\<lambda>_ _. 2),
     CmiGetMaxValueDataLength = (\<lambda>_ _. 3),
     CmiGetValueFromKeyByIndex = (\<lambda>Hive Node Index.
        if Index = 0 then (STATUS_SUCCESS, 0x1E0) else (STATUS_NO_MORE_ENTRIES, HCELL_NULL)),
     CmiDeleteValueFromKey = (\<lambda>Hive Node Offset ValueName'.
        (STATUS_OBJECT_NAME_NOT_FOUND, Hive))\<rparr>"

text \<open>A hive flush that fails.\<close>

definition ex_failing_flush :: cm_externals where
  "ex_failing_flush =
     ex_externals\<lparr>CmiFlushRegistryHive := (\<lambda>Hive. (STATUS_UNSUCCESSFUL, Hive))\<rparr>"

text \<open>A save to the file that fails.\<close>

definition ex_failing_save :: cm_externals where
  "ex_failing_save = ex_externals\<lparr>CmiSaveTempHive := (\<lambda>_ _. STATUS_UNSUCCESSFUL)\<rparr>"

text \<open>A callback that refuses every \<^verbatim>\<open>RegNtPreSetValueKey\<close>.\<close>

definition ex_callback :: REGISTRY_CALLBACK where
  "ex_callback = \<lparr>Cookie = 0x500,
     Function = (\<lambda>Log Ctx Argument1 Argument2.
        if Argument1 = RegNtPreSetValueKey then STATUS_ACCESS_DENIED else STATUS_SUCCESS),
     Context = 0, RundownRef = ExInitializeRundownProtection, PendingDelete = False\<rparr>"

text \<open>The sample with a hive whose allocator has nothing left to give.\<close>

definition ex_exhausted :: cm_state where
  "ex_exhausted = ex_state\<lparr>Hives := [1 \<mapsto> ex_hive\<lparr>FreeCells := []\<rparr>]\<rparr>"

text \<open>
  The sample with two callbacks: the first is being unregistered, the second is registered
  and not running.
\<close>

definition ex_state_two :: cm_state where
  "ex_state_two = ex_state
     \<lparr>CmiCallbackHead := [ex_callback\<lparr>PendingDelete := True\<rparr>, ex_callback\<lparr>Cookie := 0x600\<rparr>],
      CallbackPool := [0x500, 0x600]\<rparr>"

text \<open>The sample after a successful NtDeleteKey on the key \<open>A\<close>: its key object is marked.\<close>

definition ex_state_marked :: cm_state where
  "ex_state_marked = ex_state
     \<lparr>Objects := (Objects ex_state)(9 \<mapsto> ex_object\<lparr>Flags := KO_MARKED_FOR_DELETE\<rparr>)\<rparr>"

text \<open>A callback that refuses every notification, and the sample with it.\<close>

definition ex_refuser :: REGISTRY_CALLBACK where
  "ex_refuser = \<lparr>Cookie = 0x700,
     Function = (\<lambda>Log Ctx Argument1 Argument2. STATUS_ACCESS_DENIED),
     Context = 0, RundownRef = ExInitializeRundownProtection, PendingDelete = False\<rparr>"

definition ex_state_refused :: cm_state where
  "ex_state_refused = ex_state\<lparr>CmiCallbackHead := [ex_refuser], CallbackPool := [0x700]\<rparr>"

text \<open>
  The test of \<^verbatim>\<open>NtSetValueKey\<close> for a value whose data is in a data cell of its own:
  the inline bit is clear and the size is not 0.
\<close>

definition out_of_line :: "CM_KEY_VALUE \<Rightarrow> bool" where
  "out_of_line ValueCell =
     (DataSize ValueCell AND REG_DATA_IN_OFFSET = 0
      \<and> DataSize ValueCell AND REG_DATA_SIZE_MASK \<noteq> 0)"

text \<open>
  The sample with one callback whose function is running in another thread, and the state
  in which a call of \<^verbatim>\<open>CmUnRegisterCallback\<close> waits for it.
\<close>

definition ex_held_callback :: REGISTRY_CALLBACK where
  "ex_held_callback = ex_callback\<lparr>RundownRef := \<lparr>Count = 1, Active = False\<rparr>\<rparr>"

definition ex_state_held :: cm_state where
  "ex_state_held = ex_state\<lparr>CmiCallbackHead := [ex_held_callback], CallbackPool := [0x500]\<rparr>"

definition ex_state_waiting :: cm_state where
  "ex_state_waiting = ex_state_held\<lparr>CmiCallbackHead :=
     [ex_held_callback\<lparr>PendingDelete := True, RundownRef := \<lparr>Count = 1, Active = True\<rparr>\<rparr>]\<rparr>"



text \<open>An element of the array of \<^verbatim>\<open>NtQueryMultipleValueKey\<close> that asks for the value \<open>v\<close>.\<close>

definition ex_value_entry :: KEY_VALUE_ENTRY where
  "ex_value_entry = \<lparr>EntryValueName = [0x76], EntryDataLength = 0, EntryDataOffset = 0,
     EntryType = 0\<rparr>"

section \<open>Properties\<close>

subsection \<open>Handles\<close>

lemma ObReferenceObjectByHandle_valid:
  assumes "HandleTable st h = Some e" and "Objects st (Object e) = Some ko"
    and "a AND NOT (GrantedAccess e) = 0"
  shows "ObReferenceObjectByHandle h a st =
     Inr (Object e, st\<lparr>Objects := (Objects st)(Object e \<mapsto> ko\<lparr>PointerCount := PointerCount ko + 1\<rparr>)\<rparr>)"
  using assms by (simp add: ObReferenceObjectByHandle_def)

lemma ex_state_handle:
  "HandleTable ex_state 4 = Some ex_entry"
  "Objects ex_state (Object ex_entry) = Some ex_object"
  "Hives ex_state (RegistryHive ex_object) = Some ex_hive"
  by (simp_all add: ex_state_def ex_entry_def ex_object_def)

lemma ex_state_handle_B:
  "HandleTable ex_state 12 = Some ex_entry_B"
  "Objects ex_state (Object ex_entry_B) = Some ex_object_B"
  "Hives ex_state (RegistryHive ex_object_B) = Some ex_hive"
  by (simp_all add: ex_state_def ex_entry_B_def ex_object_B_def)

lemma ex_state_cells:
  "KeyCell ex_state ex_object = Some ex_node"
  "KeyCell ex_state ex_object_B = Some (ex_leaf 0x42 REG_KEY_NAME_PACKED)"
  by (simp_all add: KeyCell_def ex_state_def ex_object_def ex_object_B_def ex_hive_def
      HvGetCell_def ex_cell_def)

lemma ex_state_parents:
  "Objects ex_state (ParentKey ex_object) = Some ex_root_object"
  "Objects ex_state (ParentKey ex_object_B) = Some ex_object"
  by (simp_all add: ex_state_def ex_object_def ex_object_B_def)

subsection \<open>Status codes\<close>

lemma NT_SUCCESS_codes:
  "NT_SUCCESS STATUS_SUCCESS"
  "\<not> NT_SUCCESS STATUS_BUFFER_OVERFLOW"
  "\<not> NT_SUCCESS STATUS_NO_MORE_ENTRIES"
  "\<not> NT_SUCCESS STATUS_UNSUCCESSFUL"
  "\<not> NT_SUCCESS STATUS_NOT_IMPLEMENTED"
  "\<not> NT_SUCCESS STATUS_INVALID_INFO_CLASS"
  "\<not> NT_SUCCESS STATUS_INFO_LENGTH_MISMATCH"
  "\<not> NT_SUCCESS STATUS_INVALID_HANDLE"
  "\<not> NT_SUCCESS STATUS_ACCESS_DENIED"
  "\<not> NT_SUCCESS STATUS_BUFFER_TOO_SMALL"
  "\<not> NT_SUCCESS STATUS_OBJECT_NAME_NOT_FOUND"
  "\<not> NT_SUCCESS STATUS_INSUFFICIENT_RESOURCES"
  "\<not> NT_SUCCESS STATUS_CANNOT_DELETE"
  by (simp_all add: NT_SUCCESS_def)

subsection \<open>Calling the callbacks\<close>

text \<open>
  A callback that is called holds the rundown protection during the call only: the loop
  leaves every entry as it found it, and a round of callbacks changes nothing but the
  record of the calls.
\<close>

lemma rundown_acquire_release:
  "ExAcquireRundownProtection (RundownRef cb) = Some r \<Longrightarrow>
   cb\<lparr>RundownRef := ExReleaseRundownProtection r\<rparr> = cb"
  by (auto simp: ExAcquireRundownProtection_def ExReleaseRundownProtection_def split: if_splits)

lemma CmiCallLoop_entries:
  "CmiCallLoop c a cbs S L = (S', E, L') \<Longrightarrow> E = cbs"
proof (induction cbs arbitrary: S L S' E L')
  case Nil
  then show ?case by simp
next
  case (Cons cb rest)
  show ?case
  proof (cases "if \<not> PendingDelete cb then ExAcquireRundownProtection (RundownRef cb) else None")
    case None
    obtain S1 E1 L1 where r: "CmiCallLoop c a rest S L = (S1, E1, L1)"
      by (cases "CmiCallLoop c a rest S L") auto
    from Cons.IH [OF r] Cons.prems None r show ?thesis by simp
  next
    case (Some r)
    then have acq: "ExAcquireRundownProtection (RundownRef cb) = Some r"
      by (simp split: if_splits)
    obtain S1 E1 L1 where r1:
      "CmiCallLoop c a rest (Function cb L (Context cb) c a) (L @ [(Cookie cb, c, a)]) = (S1, E1, L1)"
      by (cases "CmiCallLoop c a rest (Function cb L (Context cb) c a) (L @ [(Cookie cb, c, a)])") auto
    from Cons.IH [OF r1] Cons.prems Some r1 rundown_acquire_release [OF acq]
    show ?thesis by (simp add: Let_def split: if_splits)
  qed
qed

lemma CmiCallRegisteredCallbacks_unfold:
  "CmiCallRegisteredCallbacks c a st =
     (fst (CmiCallLoop c a (CmiCallbackHead st) STATUS_SUCCESS (CallbackLog st)),
      st\<lparr>CallbackLog := snd (snd (CmiCallLoop c a (CmiCallbackHead st) STATUS_SUCCESS (CallbackLog st)))\<rparr>)"
proof -
  obtain S E L where r: "CmiCallLoop c a (CmiCallbackHead st) STATUS_SUCCESS (CallbackLog st) = (S, E, L)"
    by (cases "CmiCallLoop c a (CmiCallbackHead st) STATUS_SUCCESS (CallbackLog st)") auto
  have "E = CmiCallbackHead st"
    using CmiCallLoop_entries [OF r] .
  then show ?thesis
    by (simp add: CmiCallRegisteredCallbacks_def r)
qed

lemma ex_state_no_callbacks:
  "CmiCallRegisteredCallbacks c a ex_state = (STATUS_SUCCESS, ex_state)"
  by (simp add: CmiCallRegisteredCallbacks_def ex_state_def)

text \<open>
  If a round of callbacks fails, a callback was called; every further round calls at least
  one callback.
\<close>

lemma CmiCallLoop_no_live:
  "\<forall>cb \<in> set cbs. PendingDelete cb \<or> Active (RundownRef cb) \<Longrightarrow>
   CmiCallLoop c a cbs S L = (S, cbs, L)"
  by (induction cbs) (auto simp: ExAcquireRundownProtection_def)

lemma CmiCallLoop_live_called:
  "\<exists>cb \<in> set cbs. \<not> PendingDelete cb \<and> \<not> Active (RundownRef cb) \<Longrightarrow>
   \<exists>k M. snd (snd (CmiCallLoop c a cbs S L)) = L @ (k, c, a) # M"
proof (induction cbs arbitrary: S L)
  case Nil
  then show ?case by simp
next
  case (Cons cb rest)
  show ?case
  proof (cases "\<not> PendingDelete cb \<and> \<not> Active (RundownRef cb)")
    case True
    then have acq: "ExAcquireRundownProtection (RundownRef cb) =
        Some ((RundownRef cb)\<lparr>Count := Count (RundownRef cb) + 1\<rparr>)"
      by (simp add: ExAcquireRundownProtection_def)
    show ?thesis
    proof (cases "NT_SUCCESS (Function cb L (Context cb) c a)")
      case False
      with True acq show ?thesis by (simp add: Let_def)
    next
      case ok: True
      show ?thesis
      proof (cases "\<exists>cb \<in> set rest. \<not> PendingDelete cb \<and> \<not> Active (RundownRef cb)")
        case True
        from Cons.IH [OF True, of "Function cb L (Context cb) c a" "L @ [(Cookie cb, c, a)]"]
        obtain k M where "snd (snd (CmiCallLoop c a rest (Function cb L (Context cb) c a)
            (L @ [(Cookie cb, c, a)]))) = (L @ [(Cookie cb, c, a)]) @ (k, c, a) # M"
          by blast
        with \<open>\<not> PendingDelete cb \<and> \<not> Active (RundownRef cb)\<close> acq ok show ?thesis
          by (auto simp: Let_def split: prod.splits)
      next
        case False
        then have "CmiCallLoop c a rest (Function cb L (Context cb) c a) (L @ [(Cookie cb, c, a)])
           = (Function cb L (Context cb) c a, rest, L @ [(Cookie cb, c, a)])"
          by (intro CmiCallLoop_no_live) blast
        with \<open>\<not> PendingDelete cb \<and> \<not> Active (RundownRef cb)\<close> acq ok show ?thesis
          by (simp add: Let_def)
      qed
    qed
  next
    case False
    then have none: "(if \<not> PendingDelete cb then ExAcquireRundownProtection (RundownRef cb) else None) = None"
      by (auto simp: ExAcquireRundownProtection_def)
    from False Cons.prems have "\<exists>cb \<in> set rest. \<not> PendingDelete cb \<and> \<not> Active (RundownRef cb)"
      by auto
    from Cons.IH [OF this, of S L] none show ?thesis
      by (auto split: prod.splits)
  qed
qed

lemma CmiCallRegisteredCallbacks_failure_live:
  assumes "\<not> NT_SUCCESS (fst (CmiCallRegisteredCallbacks c a st))"
  shows "\<exists>cb \<in> set (CmiCallbackHead st). \<not> PendingDelete cb \<and> \<not> Active (RundownRef cb)"
proof (rule ccontr)
  assume "\<not> ?thesis"
  then have "CmiCallLoop c a (CmiCallbackHead st) STATUS_SUCCESS (CallbackLog st)
     = (STATUS_SUCCESS, CmiCallbackHead st, CallbackLog st)"
    by (intro CmiCallLoop_no_live) blast
  with assms show False
    by (simp add: CmiCallRegisteredCallbacks_def NT_SUCCESS_codes)
qed

subsection \<open>NtFlushKey\<close>

text \<open>
  C3. On a valid key handle NtFlushKey returns \<^verbatim>\<open>STATUS_SUCCESS\<close>, whether the hive is a
  no-file hive or not and whatever status \<^verbatim>\<open>CmiFlushRegistryHive\<close> reports: the status of
  the flush is computed and dropped. The hive is left as the flush left it, and the
  reference taken on the key object is given back.
\<close>

theorem NtFlushKey_always_success:
  assumes "HandleTable st KeyHandle = Some Entry"
    and "Objects st (Object Entry) = Some KeyObject"
    and "Hives st (RegistryHive KeyObject) = Some Hive"
  shows "NtFlushKey X KeyHandle st =
     Some (STATUS_SUCCESS,
           st\<lparr>Hives := (Hives st)(RegistryHive KeyObject \<mapsto>
                 (if IsNoFileHive Hive then Hive else snd (CmiFlushRegistryHive X Hive)))\<rparr>)"
proof -
  have obj: "(Objects st)(Object Entry \<mapsto> KeyObject) = Objects st"
    using assms(2) by (rule map_upd_triv)
  show ?thesis
    using assms obj
    by (simp add: NtFlushKey_def ObReferenceObjectByHandle_def ObDereferenceObject_def
        split: prod.split)
qed

theorem NtFlushKey_always_success_witness:
  "HandleTable ex_state 4 = Some ex_entry \<and> Objects ex_state (Object ex_entry) = Some ex_object
   \<and> Hives ex_state (RegistryHive ex_object) = Some ex_hive
   \<and> \<not> IsNoFileHive ex_hive
   \<and> fst (CmiFlushRegistryHive ex_failing_flush ex_hive) = STATUS_UNSUCCESSFUL
   \<and> map_option fst (NtFlushKey ex_failing_flush 4 ex_state) = Some STATUS_SUCCESS"
  using ex_state_handle NtFlushKey_always_success [OF ex_state_handle, of ex_failing_flush]
  by (simp add: IsNoFileHive_def ex_hive_def ex_failing_flush_def)

subsection \<open>NtDeleteKey\<close>

text \<open>
  C1. NtDeleteKey on a valid key handle (one that grants \<^verbatim>\<open>DELETE\<close>) whose pre-callback
  succeeds: if the stable subkey count plus the volatile subkey count of the key cell is
  not zero, the call returns \<^verbatim>\<open>STATUS_CANNOT_DELETE\<close> and the flags of the key object are
  unchanged; otherwise it sets \<^verbatim>\<open>KO_MARKED_FOR_DELETE\<close> on the key object and returns
  \<^verbatim>\<open>STATUS_SUCCESS\<close>. In both cases the call leaves every hive as it was: the key cell
  is not freed and still holds what it held.
\<close>

theorem NtDeleteKey_subkeys:
  assumes "HandleTable st KeyHandle = Some Entry"
    and "Objects st (Object Entry) = Some ko"
    and "DELETE AND NOT (GrantedAccess Entry) = 0"
    and "KeyCell st ko = Some kc"
    and "Objects st (ParentKey ko) = Some parent"
    and "NT_SUCCESS (fst (CmiCallRegisteredCallbacks RegNtPreDeleteKey
            (REG_DELETE_KEY_INFORMATION (Object Entry)) st))"
  shows "\<exists>st' ko'. NtDeleteKey KeyHandle st =
            Some (if unat (SubKeyCounts kc HvStable) + unat (SubKeyCounts kc HvVolatile) \<noteq> 0
                  then STATUS_CANNOT_DELETE else STATUS_SUCCESS, st')
          \<and> Objects st' (Object Entry) = Some ko'
          \<and> Flags ko' =
              (if unat (SubKeyCounts kc HvStable) + unat (SubKeyCounts kc HvVolatile) \<noteq> 0
               then Flags ko else Flags ko OR KO_MARKED_FOR_DELETE)
          \<and> Hives st' = Hives st \<and> KeyCell st' ko' = Some kc"
  using assms
  by (auto simp: NtDeleteKey_def ObReferenceObjectByHandle_def ObDereferenceObject_def
      CmiCallRegisteredCallbacks_unfold KeyCell_def unat_eq_0 Let_def
      split: option.splits)

theorem NtDeleteKey_subkeys_witness:
  "HandleTable ex_state 12 = Some ex_entry_B
   \<and> Objects ex_state (Object ex_entry_B) = Some ex_object_B
   \<and> DELETE AND NOT (GrantedAccess ex_entry_B) = 0
   \<and> KeyCell ex_state ex_object_B = Some (ex_leaf 0x42 REG_KEY_NAME_PACKED)
   \<and> Objects ex_state (ParentKey ex_object_B) = Some ex_object
   \<and> NT_SUCCESS (fst (CmiCallRegisteredCallbacks RegNtPreDeleteKey
         (REG_DELETE_KEY_INFORMATION (Object ex_entry_B)) ex_state))
   \<and> (\<exists>st' ko'. NtDeleteKey 12 ex_state = Some (STATUS_SUCCESS, st')
         \<and> Objects st' 10 = Some ko' \<and> Flags ko' = KO_MARKED_FOR_DELETE
         \<and> Hives st' = Hives ex_state)
   \<and> (\<exists>st' ko'. NtDeleteKey 4 ex_state = Some (STATUS_CANNOT_DELETE, st')
         \<and> Objects st' 9 = Some ko' \<and> Flags ko' = 0
         \<and> Hives st' = Hives ex_state)"
proof -
  have acc: "DELETE AND NOT (GrantedAccess ex_entry_B) = 0"
    "DELETE AND NOT (GrantedAccess ex_entry) = 0"
    by (simp_all add: ex_entry_def ex_entry_B_def)
  have pre: "NT_SUCCESS (fst (CmiCallRegisteredCallbacks RegNtPreDeleteKey
         (REG_DELETE_KEY_INFORMATION k) ex_state))" for k
    by (simp add: ex_state_no_callbacks NT_SUCCESS_codes)
  have B: "\<exists>st' ko'. NtDeleteKey 12 ex_state = Some (STATUS_SUCCESS, st')
         \<and> Objects st' 10 = Some ko' \<and> Flags ko' = KO_MARKED_FOR_DELETE
         \<and> Hives st' = Hives ex_state"
    using NtDeleteKey_subkeys [OF ex_state_handle_B(1,2) acc(1) ex_state_cells(2)
        ex_state_parents(2) pre]
    by (auto simp: ex_leaf_def ex_entry_B_def ex_object_B_def)
  have A: "\<exists>st' ko'. NtDeleteKey 4 ex_state = Some (STATUS_CANNOT_DELETE, st')
         \<and> Objects st' 9 = Some ko' \<and> Flags ko' = 0
         \<and> Hives st' = Hives ex_state"
    using NtDeleteKey_subkeys [OF ex_state_handle(1,2) acc(2) ex_state_cells(1)
        ex_state_parents(1) pre]
    by (auto simp: ex_node_def ex_entry_def ex_object_def)
  show ?thesis
    using ex_state_handle_B(1,2) acc(1) ex_state_cells(2) ex_state_parents(2) pre A B
    by blast
qed

subsection \<open>NtSetInformationKey\<close>

text \<open>
  C9. NtSetInformationKey on a valid key handle (one that grants \<^verbatim>\<open>KEY_SET_VALUE\<close>) whose
  pre-callback succeeds returns \<^verbatim>\<open>STATUS_SUCCESS\<close>, also when the class is not
  \<^verbatim>\<open>KeyWriteTimeInformation\<close> or the length is not the size of
  \<^verbatim>\<open>KEY_WRITE_TIME_INFORMATION\<close>. In these two cases the state after the call is the
  state before it but for the record of the callback calls, the key cell is as it was, and
  a callback that is registered and can be called was called with
  \<^verbatim>\<open>RegNtPostSetInformationKey\<close> and \<^verbatim>\<open>STATUS_INVALID_INFO_CLASS\<close> or
  \<^verbatim>\<open>STATUS_INFO_LENGTH_MISMATCH\<close>. Only in the valid case is the registry changed: the key
  cell read back after the call holds the new last write time, its index is the newest entry
  of the dirty cells of its hive, no other cell and no other hive is touched, and one hive
  synchronisation is asked for.
\<close>

theorem NtSetInformationKey_returns_success:
  assumes "HandleTable st KeyHandle = Some Entry"
    and "Objects st (Object Entry) = Some ko"
    and "KEY_SET_VALUE AND NOT (GrantedAccess Entry) = 0"
    and "Hives st (RegistryHive ko) = Some Hive"
    and "KeyCell st ko = Some kc"
    and "CmiCallRegisteredCallbacks RegNtPreSetInformationKey
           (REG_SET_INFORMATION_KEY_INFORMATION (Object Entry) cls info len) st = (PreStatus, st1)"
    and "NT_SUCCESS PreStatus"
  shows "\<exists>st'. NtSetInformationKey KeyHandle cls info len st = Some (STATUS_SUCCESS, st')
     \<and> st' =
       (if cls = KeyWriteTimeInformation \<and> len = sizeof_KEY_WRITE_TIME_INFORMATION
        then (snd (CmiCallRegisteredCallbacks RegNtPostSetInformationKey
                    (REG_POST_OPERATION_INFORMATION (Object Entry) PreStatus) st1))
              \<lparr>Hives := (Hives st)(RegistryHive ko \<mapsto>
                  HvMarkCellDirty
                    (WriteCell Hive (KeyCellOffset ko) (KeyNode (kc\<lparr>LastWriteTime := info\<rparr>)))
                    (KeyCellOffset ko)),
               SyncRequests := SyncRequests st + 1\<rparr>
        else snd (CmiCallRegisteredCallbacks RegNtPostSetInformationKey
                   (REG_POST_OPERATION_INFORMATION (Object Entry)
                      (if cls \<noteq> KeyWriteTimeInformation then STATUS_INVALID_INFO_CLASS
                       else STATUS_INFO_LENGTH_MISMATCH)) st1))
     \<and> (cls = KeyWriteTimeInformation \<and> len = sizeof_KEY_WRITE_TIME_INFORMATION \<longrightarrow>
          KeyCell st' ko = Some (kc\<lparr>LastWriteTime := info\<rparr>)
        \<and> (\<exists>Hive'. Hives st' (RegistryHive ko) = Some Hive'
              \<and> DirtyCells Hive' = KeyCellOffset ko # DirtyCells Hive
              \<and> (\<forall>i. i \<noteq> KeyCellOffset ko \<longrightarrow> Cells Hive' i = Cells Hive i))
        \<and> (\<forall>h. h \<noteq> RegistryHive ko \<longrightarrow> Hives st' h = Hives st h)
        \<and> SyncRequests st' = SyncRequests st + 1)
     \<and> (cls \<noteq> KeyWriteTimeInformation \<or> len \<noteq> sizeof_KEY_WRITE_TIME_INFORMATION \<longrightarrow>
          st' = st\<lparr>CallbackLog := CallbackLog st'\<rparr>
        \<and> KeyCell st' ko = Some kc
        \<and> ((\<exists>cb \<in> set (CmiCallbackHead st). \<not> PendingDelete cb \<and> \<not> Active (RundownRef cb))
             \<longrightarrow> (\<exists>k. (k, RegNtPostSetInformationKey,
                  REG_POST_OPERATION_INFORMATION (Object Entry)
                    (if cls \<noteq> KeyWriteTimeInformation then STATUS_INVALID_INFO_CLASS
                     else STATUS_INFO_LENGTH_MISMATCH)) \<in> set (CallbackLog st'))))"
proof -
  have obj: "(Objects st)(Object Entry \<mapsto> ko) = Objects st"
    using assms(2) by (rule map_upd_triv)
  have st1: "st1 = snd (CmiCallRegisteredCallbacks RegNtPreSetInformationKey
           (REG_SET_INFORMATION_KEY_INFORMATION (Object Entry) cls info len) st)"
    and pre: "PreStatus = fst (CmiCallRegisteredCallbacks RegNtPreSetInformationKey
           (REG_SET_INFORMATION_KEY_INFORMATION (Object Entry) cls info len) st)"
    using assms(6) by simp_all
  have cell: "\<exists>Cell. Cells Hive (KeyCellOffset ko) = Some Cell \<and> CellData Cell = KeyNode kc
      \<and> KeyCellOffset ko \<noteq> HCELL_NULL"
    using assms(4,5)
    by (auto simp: KeyCell_def HvGetCell_def split: option.splits if_splits cell_data.splits)
  have called: "\<exists>k. (k, RegNtPostSetInformationKey, a) \<in> set (snd (snd
      (CmiCallLoop RegNtPostSetInformationKey a (CmiCallbackHead st) STATUS_SUCCESS L)))"
    if "\<exists>cb \<in> set (CmiCallbackHead st). \<not> PendingDelete cb \<and> \<not> Active (RundownRef cb)"
    for a L
    using CmiCallLoop_live_called [OF that, of RegNtPostSetInformationKey a STATUS_SUCCESS L]
    by auto
  have kc_log: "KeyCell (st\<lparr>CallbackLog := L\<rparr>) ko = KeyCell st ko" for L
    by (simp add: KeyCell_def)
  show ?thesis
  proof (cases "cls = KeyWriteTimeInformation \<and> len = sizeof_KEY_WRITE_TIME_INFORMATION")
    case True
    then show ?thesis
      using assms(1-5,7) obj cell unfolding st1 pre
      by (auto simp: NtSetInformationKey_def ObReferenceObjectByHandle_def
          ObDereferenceObject_def CmiCallRegisteredCallbacks_unfold KeyCell_def CmiSyncHives_def
          Let_def NT_SUCCESS_codes HvMarkCellDirty_def WriteCell_def HvGetCell_def)
  next
    case False
    then show ?thesis
      using assms(1-5,7) obj called unfolding st1 pre
      by (auto simp: NtSetInformationKey_def ObReferenceObjectByHandle_def
          ObDereferenceObject_def CmiCallRegisteredCallbacks_unfold Let_def NT_SUCCESS_codes
          kc_log)
  qed
qed

theorem NtSetInformationKey_returns_success_witness:
  "HandleTable ex_state 4 = Some ex_entry
   \<and> Objects ex_state (Object ex_entry) = Some ex_object
   \<and> KEY_SET_VALUE AND NOT (GrantedAccess ex_entry) = 0
   \<and> Hives ex_state (RegistryHive ex_object) = Some ex_hive
   \<and> KeyCell ex_state ex_object = Some ex_node
   \<and> CmiCallRegisteredCallbacks RegNtPreSetInformationKey
        (REG_SET_INFORMATION_KEY_INFORMATION (Object ex_entry) KeySetInformationClassOther 5 8)
        ex_state = (STATUS_SUCCESS, ex_state)
   \<and> NT_SUCCESS STATUS_SUCCESS
   \<and> NtSetInformationKey 4 KeySetInformationClassOther 5 8 ex_state
        = Some (STATUS_SUCCESS, ex_state)
   \<and> NtSetInformationKey 4 KeyWriteTimeInformation 5 7 ex_state
        = Some (STATUS_SUCCESS, ex_state)
   \<and> LastWriteTime ex_node = 0
   \<and> DirtyCells ex_hive = []
   \<and> (\<exists>st' Hive'. NtSetInformationKey 4 KeyWriteTimeInformation 5 8 ex_state
               = Some (STATUS_SUCCESS, st')
          \<and> KeyCell st' ex_object = Some (ex_node\<lparr>LastWriteTime := 5\<rparr>)
          \<and> Hives st' 1 = Some Hive'
          \<and> DirtyCells Hive' = [0x80]
          \<and> SyncRequests st' = 1)
   \<and> HandleTable ex_state_two 4 = Some ex_entry
   \<and> Objects ex_state_two (Object ex_entry) = Some ex_object
   \<and> Hives ex_state_two (RegistryHive ex_object) = Some ex_hive
   \<and> KeyCell ex_state_two ex_object = Some ex_node
   \<and> fst (CmiCallRegisteredCallbacks RegNtPreSetInformationKey
        (REG_SET_INFORMATION_KEY_INFORMATION (Object ex_entry) KeySetInformationClassOther 5 8)
        ex_state_two) = STATUS_SUCCESS
   \<and> (\<exists>st'. NtSetInformationKey 4 KeySetInformationClassOther 5 8 ex_state_two
               = Some (STATUS_SUCCESS, st')
          \<and> st' = ex_state_two\<lparr>CallbackLog := CallbackLog st'\<rparr>
          \<and> (\<exists>k. (k, RegNtPostSetInformationKey,
                    REG_POST_OPERATION_INFORMATION (Object ex_entry) STATUS_INVALID_INFO_CLASS)
                   \<in> set (CallbackLog st')))"
proof -
  have two: "HandleTable ex_state_two 4 = Some ex_entry"
    "Objects ex_state_two (Object ex_entry) = Some ex_object"
    "Hives ex_state_two (RegistryHive ex_object) = Some ex_hive"
    "KeyCell ex_state_two ex_object = Some ex_node"
    using ex_state_handle ex_state_cells(1) by (simp_all add: ex_state_two_def KeyCell_def)
  have two_pre: "CmiCallRegisteredCallbacks RegNtPreSetInformationKey a ex_state_two =
      (STATUS_SUCCESS, ex_state_two\<lparr>CallbackLog := [(0x600, RegNtPreSetInformationKey, a)]\<rparr>)"
    for a
    by (simp add: CmiCallRegisteredCallbacks_def ex_state_two_def ex_state_def ex_callback_def
        ExInitializeRundownProtection_def ExAcquireRundownProtection_def
        ExReleaseRundownProtection_def NT_SUCCESS_codes Let_def)
  have two_live: "\<exists>cb \<in> set (CmiCallbackHead ex_state_two).
      \<not> PendingDelete cb \<and> \<not> Active (RundownRef cb)"
    by (simp add: ex_state_two_def ex_callback_def ExInitializeRundownProtection_def)
  have acc: "KEY_SET_VALUE AND NOT (GrantedAccess ex_entry) = 0"
    by (simp add: ex_entry_def)
  note h = ex_state_handle(1,2) acc ex_state_handle(3) ex_state_cells(1)
  have s: "LastWriteTime ex_node = 0" "DirtyCells ex_hive = []" "RegistryHive ex_object = 1"
    "KeyCellOffset ex_object = 0x80" "SyncRequests ex_state = 0"
    by (simp_all add: ex_node_def ex_hive_def ex_object_def ex_state_def)
  from NtSetInformationKey_returns_success [OF h ex_state_no_callbacks NT_SUCCESS_codes(1),
        of KeyWriteTimeInformation 5 8]
  have valid: "\<exists>st' Hive'. NtSetInformationKey 4 KeyWriteTimeInformation 5 8 ex_state
               = Some (STATUS_SUCCESS, st')
          \<and> KeyCell st' ex_object = Some (ex_node\<lparr>LastWriteTime := 5\<rparr>)
          \<and> Hives st' 1 = Some Hive'
          \<and> DirtyCells Hive' = [0x80]
          \<and> SyncRequests st' = 1"
    by (simp add: sizeof_KEY_WRITE_TIME_INFORMATION_def s)
  have acc': "KEY_SET_VALUE AND NOT (GrantedAccess ex_entry) = 0"
    by (simp add: ex_entry_def)
  from NtSetInformationKey_returns_success [OF two(1,2) acc' two(3,4) two_pre
      NT_SUCCESS_codes(1), of KeySetInformationClassOther 5 8] two_live
  have seen: "\<exists>st'. NtSetInformationKey 4 KeySetInformationClassOther 5 8 ex_state_two
               = Some (STATUS_SUCCESS, st')
          \<and> st' = ex_state_two\<lparr>CallbackLog := CallbackLog st'\<rparr>
          \<and> (\<exists>k. (k, RegNtPostSetInformationKey,
                    REG_POST_OPERATION_INFORMATION (Object ex_entry) STATUS_INVALID_INFO_CLASS)
                   \<in> set (CallbackLog st'))"
    by auto
  show ?thesis
    using h NT_SUCCESS_codes(1) s(1,2) valid two seen two_pre
      NtSetInformationKey_returns_success [OF h ex_state_no_callbacks NT_SUCCESS_codes(1),
        of KeySetInformationClassOther 5 8]
      NtSetInformationKey_returns_success [OF h ex_state_no_callbacks NT_SUCCESS_codes(1),
        of KeyWriteTimeInformation 5 7]
    by (simp add: ex_state_no_callbacks sizeof_KEY_WRITE_TIME_INFORMATION_def)
qed

subsection \<open>NtSaveKey\<close>

text \<open>
  C10. NtSaveKey on a valid handle of a key that is not volatile, when the temporary hive
  is created and the key is copied: the call returns \<^verbatim>\<open>STATUS_SUCCESS\<close> whatever status
  \<^verbatim>\<open>CmiSaveTempHive\<close> reports, and the temporary hive is removed in either case.
\<close>

theorem NtSaveKey_discards_save_status:
  assumes "HandleTable st KeyHandle = Some Entry"
    and "Objects st (Object Entry) = Some ko"
    and "Hives st (RegistryHive ko) = Some SourceHive"
    and "KeyCell st ko = Some kc"
    and "NodeFlags kc AND REG_KEY_VOLATILE_CELL = 0"
    and "CmiCreateTempHive X (Hives st) = (CreateStatus, TempHive, NewHive)"
    and "NT_SUCCESS CreateStatus"
    and "CmiCopyKey X NewHive SourceHive kc = (CopyStatus, CopiedHive)"
    and "NT_SUCCESS CopyStatus"
  shows "NtSaveKey X KeyHandle FileHandle st =
           Some (STATUS_SUCCESS, st\<lparr>Hives := (Hives st)(TempHive := None)\<rparr>)"
proof -
  have obj: "(Objects st)(Object Entry \<mapsto> ko) = Objects st"
    using assms(2) by (rule map_upd_triv)
  show ?thesis
    using assms obj
    by (simp add: NtSaveKey_def ObReferenceObjectByHandle_def ObDereferenceObject_def
        KeyCell_def CmiRemoveRegistryHive_def Let_def)
qed

theorem NtSaveKey_discards_save_status_witness:
  "HandleTable ex_state 4 = Some ex_entry
   \<and> Objects ex_state (Object ex_entry) = Some ex_object
   \<and> Hives ex_state (RegistryHive ex_object) = Some ex_hive
   \<and> KeyCell ex_state ex_object = Some ex_node
   \<and> NodeFlags ex_node AND REG_KEY_VOLATILE_CELL = 0
   \<and> NT_SUCCESS (fst (CmiCreateTempHive ex_failing_save (Hives ex_state)))
   \<and> NT_SUCCESS (fst (CmiCopyKey ex_failing_save
        (snd (snd (CmiCreateTempHive ex_failing_save (Hives ex_state)))) ex_hive ex_node))
   \<and> \<not> NT_SUCCESS (CmiSaveTempHive ex_failing_save
        (snd (snd (CmiCreateTempHive ex_failing_save (Hives ex_state)))) 20)
   \<and> NtSaveKey ex_failing_save 4 20 ex_state =
        Some (STATUS_SUCCESS, ex_state\<lparr>Hives := (Hives ex_state)(2 := None)\<rparr>)"
proof -
  have v: "NodeFlags ex_node AND REG_KEY_VOLATILE_CELL = 0"
    by (simp add: ex_node_def)
  have c: "CmiCreateTempHive ex_failing_save (Hives ex_state) = (STATUS_SUCCESS, 2,
        \<lparr>HiveFlags = HIVE_NO_FILE, Cells = Map.empty, DirtyCells = [], FreeCells = [0x20]\<rparr>)"
    by (simp add: ex_failing_save_def ex_externals_def)
  have k: "CmiCopyKey ex_failing_save
        \<lparr>HiveFlags = HIVE_NO_FILE, Cells = Map.empty, DirtyCells = [], FreeCells = [0x20]\<rparr>
        ex_hive ex_node = (STATUS_SUCCESS,
        \<lparr>HiveFlags = HIVE_NO_FILE, Cells = Map.empty, DirtyCells = [], FreeCells = [0x20]\<rparr>)"
    by (simp add: ex_failing_save_def ex_externals_def)
  have s: "\<not> NT_SUCCESS (CmiSaveTempHive ex_failing_save h 20)" for h
    by (simp add: ex_failing_save_def ex_externals_def NT_SUCCESS_codes)
  show ?thesis
    using ex_state_handle ex_state_cells(1) v c k s NT_SUCCESS_codes(1)
      NtSaveKey_discards_save_status [OF ex_state_handle ex_state_cells(1) v c
        NT_SUCCESS_codes(1) k NT_SUCCESS_codes(1), of 20]
    by simp
qed

subsection \<open>A failing pre-callback\<close>

lemma post_round_called:
  assumes "fst (CmiCallRegisteredCallbacks c1 a1 st) = Status" and "\<not> NT_SUCCESS Status"
  shows "\<exists>k. (k, c2, a2) \<in> set (snd (snd (CmiCallLoop c2 a2 (CmiCallbackHead st) STATUS_SUCCESS
            (snd (snd (CmiCallLoop c1 a1 (CmiCallbackHead st) STATUS_SUCCESS (CallbackLog st)))))))"
proof -
  have "\<not> NT_SUCCESS (fst (CmiCallRegisteredCallbacks c1 a1 st))"
    using assms by simp
  then have live: "\<exists>cb \<in> set (CmiCallbackHead st). \<not> PendingDelete cb \<and> \<not> Active (RundownRef cb)"
    by (rule CmiCallRegisteredCallbacks_failure_live)
  from CmiCallLoop_live_called [OF live, of c2 a2 STATUS_SUCCESS
      "snd (snd (CmiCallLoop c1 a1 (CmiCallbackHead st) STATUS_SUCCESS (CallbackLog st)))"]
  obtain k M where "snd (snd (CmiCallLoop c2 a2 (CmiCallbackHead st) STATUS_SUCCESS
            (snd (snd (CmiCallLoop c1 a1 (CmiCallbackHead st) STATUS_SUCCESS (CallbackLog st))))))
       = snd (snd (CmiCallLoop c1 a1 (CmiCallbackHead st) STATUS_SUCCESS (CallbackLog st)))
           @ (k, c2, a2) # M"
    by blast
  then show ?thesis by auto
qed

lemma pre_status:
  "fst (CmiCallRegisteredCallbacks c a st) = Status \<Longrightarrow>
   fst (CmiCallLoop c a (CmiCallbackHead st) STATUS_SUCCESS (CallbackLog st)) = Status"
  by (simp add: CmiCallRegisteredCallbacks_unfold)

lemma NtDeleteKey_pre_callback_failure:
  assumes "HandleTable st KeyHandle = Some Entry"
    and "Objects st (Object Entry) = Some ko"
    and "DELETE AND NOT (GrantedAccess Entry) = 0"
    and "fst (CmiCallRegisteredCallbacks RegNtPreDeleteKey
           (REG_DELETE_KEY_INFORMATION (Object Entry)) st) = Status"
    and "\<not> NT_SUCCESS Status"
  shows "\<exists>Log'. NtDeleteKey KeyHandle st = Some (Status, st\<lparr>CallbackLog := Log'\<rparr>)
          \<and> (\<exists>k. (k, RegNtPostDeleteKey, REG_POST_OPERATION_INFORMATION (Object Entry) Status)
                   \<in> set Log')"
proof -
  have obj: "(Objects st)(Object Entry \<mapsto> ko) = Objects st"
    using assms(2) by (rule map_upd_triv)
  note called = post_round_called [OF assms(4,5), of RegNtPostDeleteKey
      "REG_POST_OPERATION_INFORMATION (Object Entry) Status"]
  have "NtDeleteKey KeyHandle st = Some (Status, st\<lparr>CallbackLog :=
      snd (snd (CmiCallLoop RegNtPostDeleteKey (REG_POST_OPERATION_INFORMATION (Object Entry) Status)
        (CmiCallbackHead st) STATUS_SUCCESS
        (snd (snd (CmiCallLoop RegNtPreDeleteKey (REG_DELETE_KEY_INFORMATION (Object Entry))
           (CmiCallbackHead st) STATUS_SUCCESS (CallbackLog st))))))\<rparr>)"
    using assms(1-3,5) obj pre_status [OF assms(4)]
    by (simp add: NtDeleteKey_def ObReferenceObjectByHandle_def ObDereferenceObject_def
        CmiCallRegisteredCallbacks_unfold)
  with called show ?thesis by blast
qed

lemma NtSetInformationKey_pre_callback_failure:
  assumes "HandleTable st KeyHandle = Some Entry"
    and "Objects st (Object Entry) = Some ko"
    and "KEY_SET_VALUE AND NOT (GrantedAccess Entry) = 0"
    and "fst (CmiCallRegisteredCallbacks RegNtPreSetInformationKey
           (REG_SET_INFORMATION_KEY_INFORMATION (Object Entry) cls info len) st) = Status"
    and "\<not> NT_SUCCESS Status"
  shows "\<exists>Log'. NtSetInformationKey KeyHandle cls info len st =
            Some (Status, st\<lparr>CallbackLog := Log'\<rparr>)
          \<and> (\<exists>k. (k, RegNtPostSetInformationKey,
                    REG_POST_OPERATION_INFORMATION (Object Entry) Status) \<in> set Log')"
proof -
  have obj: "(Objects st)(Object Entry \<mapsto> ko) = Objects st"
    using assms(2) by (rule map_upd_triv)
  note called = post_round_called [OF assms(4,5), of RegNtPostSetInformationKey
      "REG_POST_OPERATION_INFORMATION (Object Entry) Status"]
  have "NtSetInformationKey KeyHandle cls info len st = Some (Status, st\<lparr>CallbackLog :=
      snd (snd (CmiCallLoop RegNtPostSetInformationKey
        (REG_POST_OPERATION_INFORMATION (Object Entry) Status)
        (CmiCallbackHead st) STATUS_SUCCESS
        (snd (snd (CmiCallLoop RegNtPreSetInformationKey
           (REG_SET_INFORMATION_KEY_INFORMATION (Object Entry) cls info len)
           (CmiCallbackHead st) STATUS_SUCCESS (CallbackLog st))))))\<rparr>)"
    using assms(1-3,5) obj pre_status [OF assms(4)]
    by (simp add: NtSetInformationKey_def ObReferenceObjectByHandle_def ObDereferenceObject_def
        CmiCallRegisteredCallbacks_unfold)
  with called show ?thesis by blast
qed

lemma NtQueryKey_pre_callback_failure:
  assumes "HandleTable st KeyHandle = Some Entry"
    and "Objects st (Object Entry) = Some ko"
    and "KEY_QUERY_VALUE AND NOT (GrantedAccess Entry) = 0"
    and "fst (CmiCallRegisteredCallbacks RegNtPreQueryKey
           (REG_QUERY_KEY_INFORMATION (Object Entry) cls Length) st) = Status"
    and "\<not> NT_SUCCESS Status"
  shows "\<exists>Log'. NtQueryKey X KeyHandle cls Length st =
            Some (Status, None, None, st\<lparr>CallbackLog := Log'\<rparr>)
          \<and> (\<exists>k. (k, RegNtPostQueryKey,
                    REG_POST_OPERATION_INFORMATION (Object Entry) Status) \<in> set Log')"
proof -
  have obj: "(Objects st)(Object Entry \<mapsto> ko) = Objects st"
    using assms(2) by (rule map_upd_triv)
  note called = post_round_called [OF assms(4,5), of RegNtPostQueryKey
      "REG_POST_OPERATION_INFORMATION (Object Entry) Status"]
  have "NtQueryKey X KeyHandle cls Length st = Some (Status, None, None, st\<lparr>CallbackLog :=
      snd (snd (CmiCallLoop RegNtPostQueryKey
        (REG_POST_OPERATION_INFORMATION (Object Entry) Status)
        (CmiCallbackHead st) STATUS_SUCCESS
        (snd (snd (CmiCallLoop RegNtPreQueryKey
           (REG_QUERY_KEY_INFORMATION (Object Entry) cls Length)
           (CmiCallbackHead st) STATUS_SUCCESS (CallbackLog st))))))\<rparr>)"
    using assms(1-3,5) obj pre_status [OF assms(4)]
    by (simp add: NtQueryKey_def ObReferenceObjectByHandle_def ObDereferenceObject_def
        CmiCallRegisteredCallbacks_unfold)
  with called show ?thesis by blast
qed

lemma NtEnumerateKey_pre_callback_failure:
  assumes "HandleTable st KeyHandle = Some Entry"
    and "Objects st (Object Entry) = Some ko"
    and "KEY_ENUMERATE_SUB_KEYS AND NOT (GrantedAccess Entry) = 0"
    and "fst (CmiCallRegisteredCallbacks RegNtPreEnumerateKey
           (REG_ENUMERATE_KEY_INFORMATION (Object Entry) Index cls Length) st) = Status"
    and "\<not> NT_SUCCESS Status"
  shows "\<exists>Log'. NtEnumerateKey X KeyHandle Index cls Length st =
            Some (Status, None, None, st\<lparr>CallbackLog := Log'\<rparr>)
          \<and> (\<exists>k. (k, RegNtPostEnumerateKey,
                    REG_POST_OPERATION_INFORMATION (Object Entry) Status) \<in> set Log')"
proof -
  have obj: "(Objects st)(Object Entry \<mapsto> ko) = Objects st"
    using assms(2) by (rule map_upd_triv)
  note called = post_round_called [OF assms(4,5), of RegNtPostEnumerateKey
      "REG_POST_OPERATION_INFORMATION (Object Entry) Status"]
  have "NtEnumerateKey X KeyHandle Index cls Length st = Some (Status, None, None, st\<lparr>CallbackLog :=
      snd (snd (CmiCallLoop RegNtPostEnumerateKey
        (REG_POST_OPERATION_INFORMATION (Object Entry) Status)
        (CmiCallbackHead st) STATUS_SUCCESS
        (snd (snd (CmiCallLoop RegNtPreEnumerateKey
           (REG_ENUMERATE_KEY_INFORMATION (Object Entry) Index cls Length)
           (CmiCallbackHead st) STATUS_SUCCESS (CallbackLog st))))))\<rparr>)"
    using assms(1-3,5) obj pre_status [OF assms(4)]
    by (simp add: NtEnumerateKey_def ObReferenceObjectByHandle_def ObDereferenceObject_def
        CmiCallRegisteredCallbacks_unfold Let_def)
  with called show ?thesis by blast
qed

lemma NtOpenKey_pre_callback_failure:
  assumes "KeyHandle \<noteq> 0"
    and "ExGetPreviousMode X = KernelMode \<or> NT_SUCCESS (ProbeForWrite X KeyHandle)"
    and "ObpCaptureObjectAttributes X ObjectAttributes = (CaptureStatus, Attributes, ObjectName)"
    and "NT_SUCCESS CaptureStatus"
    and "ObjectName \<noteq> Some []"
    and "OpenName = map_option (\<lambda>Buffer. if last Buffer = BACKSLASH then butlast Buffer else Buffer)
           ObjectName"
    and "fst (CmiCallRegisteredCallbacks RegNtPreOpenKey
           (REG_PRE_CREATE_KEY_INFORMATION OpenName) st) = Status"
    and "\<not> NT_SUCCESS Status"
  shows "\<exists>Log'. NtOpenKey X KeyHandle DesiredAccess ObjectAttributes st =
            Some (Status, if ExGetPreviousMode X \<noteq> KernelMode then Some 0 else None,
                  st\<lparr>CallbackLog := Log'\<rparr>)
          \<and> (\<exists>k. (k, RegNtPostOpenKey,
                    REG_POST_CREATE_KEY_INFORMATION OpenName None Status) \<in> set Log')"
proof -
  have name: "(case ObjectName of None \<Rightarrow> None
        | Some Buffer \<Rightarrow> Some (if last Buffer = BACKSLASH then butlast Buffer else Buffer))
        = OpenName"
    using assms(6) by (simp split: option.splits)
  note called = post_round_called [OF assms(7,8), of RegNtPostOpenKey
      "REG_POST_CREATE_KEY_INFORMATION OpenName None Status"]
  have "NtOpenKey X KeyHandle DesiredAccess ObjectAttributes st =
      Some (Status, if ExGetPreviousMode X \<noteq> KernelMode then Some 0 else None,
      st\<lparr>CallbackLog :=
      snd (snd (CmiCallLoop RegNtPostOpenKey
        (REG_POST_CREATE_KEY_INFORMATION OpenName None Status)
        (CmiCallbackHead st) STATUS_SUCCESS
        (snd (snd (CmiCallLoop RegNtPreOpenKey (REG_PRE_CREATE_KEY_INFORMATION OpenName)
           (CmiCallbackHead st) STATUS_SUCCESS (CallbackLog st))))))\<rparr>)"
    using assms(1-5,8) pre_status [OF assms(7)]
    by (auto simp: NtOpenKey_def name CmiCallRegisteredCallbacks_unfold Let_def NT_SUCCESS_codes)
  with called show ?thesis by blast
qed

lemma NtCreateKey_pre_callback_failure:
  assumes "ExGetPreviousMode X = KernelMode \<or>
           NT_SUCCESS (ProbeForWrite X KeyHandle)
           \<and> (Disposition = 0 \<or> NT_SUCCESS (ProbeForWrite X Disposition))"
    and "Class = 0 \<or> NT_SUCCESS (fst (ProbeAndCaptureUnicodeString X Class))"
    and "ObpCaptureObjectAttributes X ObjectAttributes = (CaptureStatus, Attributes, ObjectName)"
    and "NT_SUCCESS CaptureStatus"
    and "fst (CmiCallRegisteredCallbacks RegNtPreCreateKey
           (REG_PRE_CREATE_KEY_INFORMATION ObjectName) st) = Status"
    and "\<not> NT_SUCCESS Status"
  shows "\<exists>Log'. NtCreateKey X KeyHandle DesiredAccess ObjectAttributes TitleIndex Class
                   CreateOptions Disposition st =
            Some (Status, if ExGetPreviousMode X \<noteq> KernelMode then Some 0 else None, None,
                  st\<lparr>CallbackLog := Log'\<rparr>)
          \<and> (\<exists>k. (k, RegNtPostCreateKey,
                    REG_POST_CREATE_KEY_INFORMATION ObjectName None Status) \<in> set Log')"
proof -
  note called = post_round_called [OF assms(5,6), of RegNtPostCreateKey
      "REG_POST_CREATE_KEY_INFORMATION ObjectName None Status"]
  have cls: "\<not> NT_SUCCESS (fst (ProbeAndCaptureUnicodeString X Class)) \<Longrightarrow> Class = 0"
    using assms(2) by blast
  have "NtCreateKey X KeyHandle DesiredAccess ObjectAttributes TitleIndex Class
                   CreateOptions Disposition st =
      Some (Status, if ExGetPreviousMode X \<noteq> KernelMode then Some 0 else None, None,
      st\<lparr>CallbackLog :=
      snd (snd (CmiCallLoop RegNtPostCreateKey
        (REG_POST_CREATE_KEY_INFORMATION ObjectName None Status)
        (CmiCallbackHead st) STATUS_SUCCESS
        (snd (snd (CmiCallLoop RegNtPreCreateKey (REG_PRE_CREATE_KEY_INFORMATION ObjectName)
           (CmiCallbackHead st) STATUS_SUCCESS (CallbackLog st))))))\<rparr>)"
    using assms(1,3,4,6) cls pre_status [OF assms(5)]
    by (auto simp: NtCreateKey_def CmiCallRegisteredCallbacks_unfold Let_def NT_SUCCESS_codes
        split: prod.splits)
  with called show ?thesis by blast
qed

lemma NtSetValueKey_pre_failure:
  assumes "HandleTable st KeyHandle = Some Entry"
    and "Objects st (Object Entry) = Some ko"
    and "KEY_SET_VALUE AND NOT (GrantedAccess Entry) = 0"
    and "fst (CmiCallRegisteredCallbacks RegNtPreSetValueKey
           (REG_SET_VALUE_KEY_INFORMATION (Object Entry) ValueName' TitleIndex Type Data DataSize')
           st) = Status"
    and "\<not> NT_SUCCESS Status"
  shows "\<exists>Log'. NtSetValueKey X KeyHandle ValueName' TitleIndex Type Data DataSize' st =
            Some (Status, st\<lparr>CallbackLog := Log'\<rparr>)
          \<and> (\<exists>k. (k, RegNtPostSetValueKey, REG_POST_OPERATION_INFORMATION (Object Entry) Status)
                   \<in> set Log')"
proof -
  have obj: "(Objects st)(Object Entry \<mapsto> ko) = Objects st"
    using assms(2) by (rule map_upd_triv)
  note called = post_round_called [OF assms(4,5), of RegNtPostSetValueKey
      "REG_POST_OPERATION_INFORMATION (Object Entry) Status"]
  have "NtSetValueKey X KeyHandle ValueName' TitleIndex Type Data DataSize' st =
      Some (Status, st\<lparr>CallbackLog :=
      snd (snd (CmiCallLoop RegNtPostSetValueKey
        (REG_POST_OPERATION_INFORMATION (Object Entry) Status)
        (CmiCallbackHead st) STATUS_SUCCESS
        (snd (snd (CmiCallLoop RegNtPreSetValueKey
           (REG_SET_VALUE_KEY_INFORMATION (Object Entry) ValueName' TitleIndex Type Data DataSize')
           (CmiCallbackHead st) STATUS_SUCCESS (CallbackLog st))))))\<rparr>)"
    using assms(1-3,5) obj pre_status [OF assms(4)]
    by (simp add: NtSetValueKey_def ObReferenceObjectByHandle_def ObDereferenceObject_def
        CmiCallRegisteredCallbacks_unfold)
  with called show ?thesis by blast
qed

lemma NtEnumerateValueKey_pre_callback_failure:
  assumes "HandleTable st KeyHandle = Some Entry"
    and "Objects st (Object Entry) = Some ko"
    and "KEY_QUERY_VALUE AND NOT (GrantedAccess Entry) = 0"
    and "fst (CmiCallRegisteredCallbacks RegNtPreEnumerateValueKey
           (REG_ENUMERATE_VALUE_KEY_INFORMATION (Object Entry) Index cls Length) st) = Status"
    and "\<not> NT_SUCCESS Status"
  shows "\<exists>Log'. NtEnumerateValueKey X KeyHandle Index cls Length st =
            Some (Status, None, None, st\<lparr>CallbackLog := Log'\<rparr>)
          \<and> (\<exists>k. (k, RegNtPostEnumerateValueKey,
                    REG_POST_OPERATION_INFORMATION (Object Entry) Status) \<in> set Log')"
proof -
  have obj: "(Objects st)(Object Entry \<mapsto> ko) = Objects st"
    using assms(2) by (rule map_upd_triv)
  note called = post_round_called [OF assms(4,5), of RegNtPostEnumerateValueKey
      "REG_POST_OPERATION_INFORMATION (Object Entry) Status"]
  have "NtEnumerateValueKey X KeyHandle Index cls Length st =
      Some (Status, None, None, st\<lparr>CallbackLog :=
      snd (snd (CmiCallLoop RegNtPostEnumerateValueKey
        (REG_POST_OPERATION_INFORMATION (Object Entry) Status)
        (CmiCallbackHead st) STATUS_SUCCESS
        (snd (snd (CmiCallLoop RegNtPreEnumerateValueKey
           (REG_ENUMERATE_VALUE_KEY_INFORMATION (Object Entry) Index cls Length)
           (CmiCallbackHead st) STATUS_SUCCESS (CallbackLog st))))))\<rparr>)"
    using assms(1-3,5) obj pre_status [OF assms(4)]
    by (simp add: NtEnumerateValueKey_def ObReferenceObjectByHandle_def ObDereferenceObject_def
        CmiCallRegisteredCallbacks_unfold)
  with called show ?thesis by blast
qed

lemma NtQueryValueKey_pre_callback_failure:
  assumes "HandleTable st KeyHandle = Some Entry"
    and "Objects st (Object Entry) = Some ko"
    and "KEY_QUERY_VALUE AND NOT (GrantedAccess Entry) = 0"
    and "fst (CmiCallRegisteredCallbacks RegNtPreQueryValueKey
           (REG_QUERY_VALUE_KEY_INFORMATION (Object Entry) ValueName' cls Length) st) = Status"
    and "\<not> NT_SUCCESS Status"
  shows "\<exists>Log'. NtQueryValueKey X KeyHandle ValueName' cls Length st =
            Some (Status, None, None, st\<lparr>CallbackLog := Log'\<rparr>)
          \<and> (\<exists>k. (k, RegNtPostQueryValueKey,
                    REG_POST_OPERATION_INFORMATION (Object Entry) Status) \<in> set Log')"
proof -
  have obj: "(Objects st)(Object Entry \<mapsto> ko) = Objects st"
    using assms(2) by (rule map_upd_triv)
  note called = post_round_called [OF assms(4,5), of RegNtPostQueryValueKey
      "REG_POST_OPERATION_INFORMATION (Object Entry) Status"]
  have "NtQueryValueKey X KeyHandle ValueName' cls Length st =
      Some (Status, None, None, st\<lparr>CallbackLog :=
      snd (snd (CmiCallLoop RegNtPostQueryValueKey
        (REG_POST_OPERATION_INFORMATION (Object Entry) Status)
        (CmiCallbackHead st) STATUS_SUCCESS
        (snd (snd (CmiCallLoop RegNtPreQueryValueKey
           (REG_QUERY_VALUE_KEY_INFORMATION (Object Entry) ValueName' cls Length)
           (CmiCallbackHead st) STATUS_SUCCESS (CallbackLog st))))))\<rparr>)"
    using assms(1-3,5) obj pre_status [OF assms(4)]
    by (simp add: NtQueryValueKey_def ObReferenceObjectByHandle_def ObDereferenceObject_def
        CmiCallRegisteredCallbacks_unfold Let_def)
  with called show ?thesis by blast
qed

lemma NtDeleteValueKey_pre_callback_failure:
  assumes "HandleTable st KeyHandle = Some Entry"
    and "Objects st (Object Entry) = Some ko"
    and "KEY_SET_VALUE AND NOT (GrantedAccess Entry) = 0"
    and "ProbeAndCaptureUnicodeString X NamePointer = (ProbeStatus, CapturedValueName)"
    and "NT_SUCCESS ProbeStatus"
    and "fst (CmiCallRegisteredCallbacks RegNtPreDeleteValueKey
           (REG_DELETE_VALUE_KEY_INFORMATION (Object Entry) CapturedValueName) st) = Status"
    and "\<not> NT_SUCCESS Status"
  shows "\<exists>Log'. NtDeleteValueKey X KeyHandle NamePointer st =
            Some (Status, st\<lparr>CallbackLog := Log'\<rparr>)
          \<and> (\<exists>k. (k, RegNtPostDeleteValueKey,
                    REG_POST_OPERATION_INFORMATION (Object Entry) Status) \<in> set Log')"
proof -
  have obj: "(Objects st)(Object Entry \<mapsto> ko) = Objects st"
    using assms(2) by (rule map_upd_triv)
  note called = post_round_called [OF assms(6,7), of RegNtPostDeleteValueKey
      "REG_POST_OPERATION_INFORMATION (Object Entry) Status"]
  have "NtDeleteValueKey X KeyHandle NamePointer st =
      Some (Status, st\<lparr>CallbackLog :=
      snd (snd (CmiCallLoop RegNtPostDeleteValueKey
        (REG_POST_OPERATION_INFORMATION (Object Entry) Status)
        (CmiCallbackHead st) STATUS_SUCCESS
        (snd (snd (CmiCallLoop RegNtPreDeleteValueKey
           (REG_DELETE_VALUE_KEY_INFORMATION (Object Entry) CapturedValueName)
           (CmiCallbackHead st) STATUS_SUCCESS (CallbackLog st))))))\<rparr>)"
    using assms(1-5,7) obj pre_status [OF assms(6)]
    by (simp add: NtDeleteValueKey_def ObReferenceObjectByHandle_def ObDereferenceObject_def
        CmiCallRegisteredCallbacks_unfold)
  with called show ?thesis by blast
qed

lemma NtQueryMultipleValueKey_pre_callback_failure:
  assumes "HandleTable st KeyHandle = Some Entry"
    and "Objects st (Object Entry) = Some ko"
    and "KEY_QUERY_VALUE AND NOT (GrantedAccess Entry) = 0"
    and "fst (CmiCallRegisteredCallbacks RegNtPreQueryMultipleValueKey
           (REG_QUERY_MULTIPLE_VALUE_KEY_INFORMATION (Object Entry) Entries NumberOfValues
              BufferLength) st) = Status"
    and "\<not> NT_SUCCESS Status"
  shows "\<exists>Log'. NtQueryMultipleValueKey X KeyHandle Entries NumberOfValues Buffer BufferLength st
            = Some (Status, Entries, [], None, None, st\<lparr>CallbackLog := Log'\<rparr>)
          \<and> (\<exists>k. (k, RegNtPostQueryMultipleValueKey,
                    REG_POST_OPERATION_INFORMATION (Object Entry) Status) \<in> set Log')"
proof -
  have obj: "(Objects st)(Object Entry \<mapsto> ko) = Objects st"
    using assms(2) by (rule map_upd_triv)
  note called = post_round_called [OF assms(4,5), of RegNtPostQueryMultipleValueKey
      "REG_POST_OPERATION_INFORMATION (Object Entry) Status"]
  have "NtQueryMultipleValueKey X KeyHandle Entries NumberOfValues Buffer BufferLength st =
      Some (Status, Entries, [], None, None, st\<lparr>CallbackLog :=
      snd (snd (CmiCallLoop RegNtPostQueryMultipleValueKey
        (REG_POST_OPERATION_INFORMATION (Object Entry) Status)
        (CmiCallbackHead st) STATUS_SUCCESS
        (snd (snd (CmiCallLoop RegNtPreQueryMultipleValueKey
           (REG_QUERY_MULTIPLE_VALUE_KEY_INFORMATION (Object Entry) Entries NumberOfValues
              BufferLength)
           (CmiCallbackHead st) STATUS_SUCCESS (CallbackLog st))))))\<rparr>)"
    using assms(1-3,5) obj pre_status [OF assms(4)]
    by (simp add: NtQueryMultipleValueKey_def ObReferenceObjectByHandle_def
        ObDereferenceObject_def CmiCallRegisteredCallbacks_unfold)
  with called show ?thesis by blast
qed

text \<open>
  C7. In every system call of the file that calls the callbacks (NtSetValueKey, NtDeleteKey,
  NtSetInformationKey, NtQueryKey, NtEnumerateKey, NtOpenKey, NtCreateKey,
  NtEnumerateValueKey, NtQueryValueKey, NtDeleteValueKey, NtQueryMultipleValueKey), when the
  pre-callback returns a status that is not a success, the operation is skipped: the call
  returns that status and writes nothing to its outputs, the state after the call is the
  state before it but for the record of the callback calls (so every hive and every key
  object is unchanged), and that record holds a call with the post-operation class that
  carries the status.
\<close>

theorem pre_callback_failure_skips_operation:
  assumes "HandleTable st KeyHandle = Some Entry"
    and "Objects st (Object Entry) = Some ko"
    and "\<not> NT_SUCCESS Status"
  shows
   "(KEY_SET_VALUE AND NOT (GrantedAccess Entry) = 0
     \<and> fst (CmiCallRegisteredCallbacks RegNtPreSetValueKey
           (REG_SET_VALUE_KEY_INFORMATION (Object Entry) ValueName' TitleIndex Type Data DataSize')
           st) = Status
     \<longrightarrow> (\<exists>Log'. NtSetValueKey X KeyHandle ValueName' TitleIndex Type Data DataSize' st =
              Some (Status, st\<lparr>CallbackLog := Log'\<rparr>)
            \<and> (\<exists>k. (k, RegNtPostSetValueKey,
                      REG_POST_OPERATION_INFORMATION (Object Entry) Status) \<in> set Log')))
    \<and> (DELETE AND NOT (GrantedAccess Entry) = 0
     \<and> fst (CmiCallRegisteredCallbacks RegNtPreDeleteKey
           (REG_DELETE_KEY_INFORMATION (Object Entry)) st) = Status
     \<longrightarrow> (\<exists>Log'. NtDeleteKey KeyHandle st = Some (Status, st\<lparr>CallbackLog := Log'\<rparr>)
            \<and> (\<exists>k. (k, RegNtPostDeleteKey,
                      REG_POST_OPERATION_INFORMATION (Object Entry) Status) \<in> set Log')))
    \<and> (KEY_SET_VALUE AND NOT (GrantedAccess Entry) = 0
     \<and> fst (CmiCallRegisteredCallbacks RegNtPreSetInformationKey
           (REG_SET_INFORMATION_KEY_INFORMATION (Object Entry) SetClass SetInfo SetLength) st)
         = Status
     \<longrightarrow> (\<exists>Log'. NtSetInformationKey KeyHandle SetClass SetInfo SetLength st =
              Some (Status, st\<lparr>CallbackLog := Log'\<rparr>)
            \<and> (\<exists>k. (k, RegNtPostSetInformationKey,
                      REG_POST_OPERATION_INFORMATION (Object Entry) Status) \<in> set Log')))
    \<and> (KEY_QUERY_VALUE AND NOT (GrantedAccess Entry) = 0
     \<and> fst (CmiCallRegisteredCallbacks RegNtPreQueryKey
           (REG_QUERY_KEY_INFORMATION (Object Entry) QueryClass Length) st) = Status
     \<longrightarrow> (\<exists>Log'. NtQueryKey X KeyHandle QueryClass Length st =
              Some (Status, None, None, st\<lparr>CallbackLog := Log'\<rparr>)
            \<and> (\<exists>k. (k, RegNtPostQueryKey,
                      REG_POST_OPERATION_INFORMATION (Object Entry) Status) \<in> set Log')))
    \<and> (KEY_ENUMERATE_SUB_KEYS AND NOT (GrantedAccess Entry) = 0
     \<and> fst (CmiCallRegisteredCallbacks RegNtPreEnumerateKey
           (REG_ENUMERATE_KEY_INFORMATION (Object Entry) Index QueryClass Length) st) = Status
     \<longrightarrow> (\<exists>Log'. NtEnumerateKey X KeyHandle Index QueryClass Length st =
              Some (Status, None, None, st\<lparr>CallbackLog := Log'\<rparr>)
            \<and> (\<exists>k. (k, RegNtPostEnumerateKey,
                      REG_POST_OPERATION_INFORMATION (Object Entry) Status) \<in> set Log')))
    \<and> (HandlePtr \<noteq> 0
     \<and> (ExGetPreviousMode X = KernelMode \<or> NT_SUCCESS (ProbeForWrite X HandlePtr))
     \<and> ObpCaptureObjectAttributes X ObjectAttributes = (CaptureStatus, Attributes, ObjectName)
     \<and> NT_SUCCESS CaptureStatus
     \<and> ObjectName \<noteq> Some []
     \<and> OpenName = map_option
           (\<lambda>Buffer. if last Buffer = BACKSLASH then butlast Buffer else Buffer) ObjectName
     \<and> fst (CmiCallRegisteredCallbacks RegNtPreOpenKey
           (REG_PRE_CREATE_KEY_INFORMATION OpenName) st) = Status
     \<longrightarrow> (\<exists>Log'. NtOpenKey X HandlePtr DesiredAccess ObjectAttributes st =
              Some (Status, if ExGetPreviousMode X \<noteq> KernelMode then Some 0 else None,
                    st\<lparr>CallbackLog := Log'\<rparr>)
            \<and> (\<exists>k. (k, RegNtPostOpenKey,
                      REG_POST_CREATE_KEY_INFORMATION OpenName None Status) \<in> set Log')))
    \<and> ((ExGetPreviousMode X = KernelMode \<or>
           NT_SUCCESS (ProbeForWrite X HandlePtr)
           \<and> (Disposition = 0 \<or> NT_SUCCESS (ProbeForWrite X Disposition)))
     \<and> (Class = 0 \<or> NT_SUCCESS (fst (ProbeAndCaptureUnicodeString X Class)))
     \<and> ObpCaptureObjectAttributes X ObjectAttributes = (CaptureStatus, Attributes, ObjectName)
     \<and> NT_SUCCESS CaptureStatus
     \<and> fst (CmiCallRegisteredCallbacks RegNtPreCreateKey
           (REG_PRE_CREATE_KEY_INFORMATION ObjectName) st) = Status
     \<longrightarrow> (\<exists>Log'. NtCreateKey X HandlePtr DesiredAccess ObjectAttributes TitleIndex Class
                   CreateOptions Disposition st =
              Some (Status, if ExGetPreviousMode X \<noteq> KernelMode then Some 0 else None, None,
                    st\<lparr>CallbackLog := Log'\<rparr>)
            \<and> (\<exists>k. (k, RegNtPostCreateKey,
                      REG_POST_CREATE_KEY_INFORMATION ObjectName None Status) \<in> set Log')))
    \<and> (KEY_QUERY_VALUE AND NOT (GrantedAccess Entry) = 0
     \<and> fst (CmiCallRegisteredCallbacks RegNtPreEnumerateValueKey
           (REG_ENUMERATE_VALUE_KEY_INFORMATION (Object Entry) Index ValueClass Length) st)
         = Status
     \<longrightarrow> (\<exists>Log'. NtEnumerateValueKey X KeyHandle Index ValueClass Length st =
              Some (Status, None, None, st\<lparr>CallbackLog := Log'\<rparr>)
            \<and> (\<exists>k. (k, RegNtPostEnumerateValueKey,
                      REG_POST_OPERATION_INFORMATION (Object Entry) Status) \<in> set Log')))
    \<and> (KEY_QUERY_VALUE AND NOT (GrantedAccess Entry) = 0
     \<and> fst (CmiCallRegisteredCallbacks RegNtPreQueryValueKey
           (REG_QUERY_VALUE_KEY_INFORMATION (Object Entry) ValueName' ValueClass Length) st)
         = Status
     \<longrightarrow> (\<exists>Log'. NtQueryValueKey X KeyHandle ValueName' ValueClass Length st =
              Some (Status, None, None, st\<lparr>CallbackLog := Log'\<rparr>)
            \<and> (\<exists>k. (k, RegNtPostQueryValueKey,
                      REG_POST_OPERATION_INFORMATION (Object Entry) Status) \<in> set Log')))
    \<and> (KEY_SET_VALUE AND NOT (GrantedAccess Entry) = 0
     \<and> ProbeAndCaptureUnicodeString X NamePointer = (ProbeStatus, CapturedValueName)
     \<and> NT_SUCCESS ProbeStatus
     \<and> fst (CmiCallRegisteredCallbacks RegNtPreDeleteValueKey
           (REG_DELETE_VALUE_KEY_INFORMATION (Object Entry) CapturedValueName) st) = Status
     \<longrightarrow> (\<exists>Log'. NtDeleteValueKey X KeyHandle NamePointer st =
              Some (Status, st\<lparr>CallbackLog := Log'\<rparr>)
            \<and> (\<exists>k. (k, RegNtPostDeleteValueKey,
                      REG_POST_OPERATION_INFORMATION (Object Entry) Status) \<in> set Log')))
    \<and> (KEY_QUERY_VALUE AND NOT (GrantedAccess Entry) = 0
     \<and> fst (CmiCallRegisteredCallbacks RegNtPreQueryMultipleValueKey
           (REG_QUERY_MULTIPLE_VALUE_KEY_INFORMATION (Object Entry) Entries NumberOfValues
              BufferLength) st) = Status
     \<longrightarrow> (\<exists>Log'. NtQueryMultipleValueKey X KeyHandle Entries NumberOfValues Buffer
                   BufferLength st =
              Some (Status, Entries, [], None, None, st\<lparr>CallbackLog := Log'\<rparr>)
            \<and> (\<exists>k. (k, RegNtPostQueryMultipleValueKey,
                      REG_POST_OPERATION_INFORMATION (Object Entry) Status) \<in> set Log')))"
  apply (intro conjI impI)
            apply (elim conjE)
            apply (rule NtSetValueKey_pre_failure [OF assms(1,2) _ _ assms(3)]; assumption)
           apply (elim conjE)
           apply (rule NtDeleteKey_pre_callback_failure [OF assms(1,2) _ _ assms(3)]; assumption)
          apply (elim conjE)
          apply (rule NtSetInformationKey_pre_callback_failure [OF assms(1,2) _ _ assms(3)]; assumption)
         apply (elim conjE)
         apply (rule NtQueryKey_pre_callback_failure [OF assms(1,2) _ _ assms(3)]; assumption)
        apply (elim conjE)
        apply (rule NtEnumerateKey_pre_callback_failure [OF assms(1,2) _ _ assms(3)]; assumption)
       apply (elim conjE)
       apply (rule NtOpenKey_pre_callback_failure [OF _ _ _ _ _ _ _ assms(3)]; assumption)
      apply (elim conjE)
      apply (rule NtCreateKey_pre_callback_failure [OF _ _ _ _ _ assms(3)]; assumption)
     apply (elim conjE)
     apply (rule NtEnumerateValueKey_pre_callback_failure [OF assms(1,2) _ _ assms(3)]; assumption)
    apply (elim conjE)
    apply (rule NtQueryValueKey_pre_callback_failure [OF assms(1,2) _ _ assms(3)]; assumption)
   apply (elim conjE)
   apply (rule NtDeleteValueKey_pre_callback_failure [OF assms(1,2) _ _ _ _ assms(3)]; assumption)
  apply (elim conjE)
  apply (rule NtQueryMultipleValueKey_pre_callback_failure [OF assms(1,2) _ _ assms(3)]; assumption)
  done

lemma ex_state_refused_facts:
  "HandleTable ex_state_refused 4 = Some ex_entry"
  "Objects ex_state_refused (Object ex_entry) = Some ex_object"
  "CmiCallRegisteredCallbacks c a ex_state_refused =
     (STATUS_ACCESS_DENIED, ex_state_refused\<lparr>CallbackLog := [(0x700, c, a)]\<rparr>)"
    apply (simp_all add: ex_state_refused_def ex_state_def ex_entry_def)
  apply (simp add: CmiCallRegisteredCallbacks_def ex_refuser_def
      ExInitializeRundownProtection_def ExAcquireRundownProtection_def
      ExReleaseRundownProtection_def NT_SUCCESS_codes Let_def)
  done

theorem pre_callback_failure_skips_operation_witness:
  "HandleTable ex_state_refused 4 = Some ex_entry
   \<and> Objects ex_state_refused (Object ex_entry) = Some ex_object
   \<and> \<not> NT_SUCCESS STATUS_ACCESS_DENIED
   \<and> KEY_SET_VALUE AND NOT (GrantedAccess ex_entry) = 0
   \<and> DELETE AND NOT (GrantedAccess ex_entry) = 0
   \<and> KEY_QUERY_VALUE AND NOT (GrantedAccess ex_entry) = 0
   \<and> KEY_ENUMERATE_SUB_KEYS AND NOT (GrantedAccess ex_entry) = 0
   \<and> ExGetPreviousMode ex_externals = UserMode
   \<and> NT_SUCCESS (ProbeForWrite ex_externals 100)
   \<and> ObpCaptureObjectAttributes ex_externals 200 = (STATUS_SUCCESS, 0, Some [0x5C, 0x41])
   \<and> fst (CmiCallRegisteredCallbacks RegNtPreSetValueKey
        (REG_SET_VALUE_KEY_INFORMATION (Object ex_entry) [0x76] 0 3 [9, 9, 9] 3) ex_state_refused)
       = STATUS_ACCESS_DENIED
   \<and> fst (CmiCallRegisteredCallbacks RegNtPreDeleteKey
        (REG_DELETE_KEY_INFORMATION (Object ex_entry)) ex_state_refused) = STATUS_ACCESS_DENIED
   \<and> fst (CmiCallRegisteredCallbacks RegNtPreSetInformationKey
        (REG_SET_INFORMATION_KEY_INFORMATION (Object ex_entry) KeyWriteTimeInformation 7 8)
        ex_state_refused) = STATUS_ACCESS_DENIED
   \<and> fst (CmiCallRegisteredCallbacks RegNtPreQueryKey
        (REG_QUERY_KEY_INFORMATION (Object ex_entry) KeyBasicInformation 64) ex_state_refused)
       = STATUS_ACCESS_DENIED
   \<and> fst (CmiCallRegisteredCallbacks RegNtPreEnumerateKey
        (REG_ENUMERATE_KEY_INFORMATION (Object ex_entry) 0 KeyBasicInformation 64)
        ex_state_refused) = STATUS_ACCESS_DENIED
   \<and> fst (CmiCallRegisteredCallbacks RegNtPreOpenKey
        (REG_PRE_CREATE_KEY_INFORMATION (Some [0x5C, 0x41])) ex_state_refused)
       = STATUS_ACCESS_DENIED
   \<and> fst (CmiCallRegisteredCallbacks RegNtPreCreateKey
        (REG_PRE_CREATE_KEY_INFORMATION (Some [0x5C, 0x41])) ex_state_refused)
       = STATUS_ACCESS_DENIED
   \<and> fst (CmiCallRegisteredCallbacks RegNtPreEnumerateValueKey
        (REG_ENUMERATE_VALUE_KEY_INFORMATION (Object ex_entry) 0 KeyValuePartialInformation 64)
        ex_state_refused) = STATUS_ACCESS_DENIED
   \<and> fst (CmiCallRegisteredCallbacks RegNtPreQueryValueKey
        (REG_QUERY_VALUE_KEY_INFORMATION (Object ex_entry) [0x76] KeyValuePartialInformation 64)
        ex_state_refused) = STATUS_ACCESS_DENIED
   \<and> ProbeAndCaptureUnicodeString ex_externals 300 = (STATUS_SUCCESS, [])
   \<and> fst (CmiCallRegisteredCallbacks RegNtPreDeleteValueKey
        (REG_DELETE_VALUE_KEY_INFORMATION (Object ex_entry) []) ex_state_refused)
       = STATUS_ACCESS_DENIED
   \<and> fst (CmiCallRegisteredCallbacks RegNtPreQueryMultipleValueKey
        (REG_QUERY_MULTIPLE_VALUE_KEY_INFORMATION (Object ex_entry) [ex_value_entry] 1 64)
        ex_state_refused) = STATUS_ACCESS_DENIED
   \<and> (\<exists>Log'. NtSetValueKey ex_externals 4 [0x76] 0 3 [9, 9, 9] 3 ex_state_refused =
            Some (STATUS_ACCESS_DENIED, ex_state_refused\<lparr>CallbackLog := Log'\<rparr>)
          \<and> (\<exists>k. (k, RegNtPostSetValueKey,
                    REG_POST_OPERATION_INFORMATION (Object ex_entry) STATUS_ACCESS_DENIED)
                   \<in> set Log'))
   \<and> (\<exists>Log'. NtDeleteKey 4 ex_state_refused =
            Some (STATUS_ACCESS_DENIED, ex_state_refused\<lparr>CallbackLog := Log'\<rparr>)
          \<and> (\<exists>k. (k, RegNtPostDeleteKey,
                    REG_POST_OPERATION_INFORMATION (Object ex_entry) STATUS_ACCESS_DENIED)
                   \<in> set Log'))
   \<and> (\<exists>Log'. NtSetInformationKey 4 KeyWriteTimeInformation 7 8 ex_state_refused =
            Some (STATUS_ACCESS_DENIED, ex_state_refused\<lparr>CallbackLog := Log'\<rparr>)
          \<and> (\<exists>k. (k, RegNtPostSetInformationKey,
                    REG_POST_OPERATION_INFORMATION (Object ex_entry) STATUS_ACCESS_DENIED)
                   \<in> set Log'))
   \<and> (\<exists>Log'. NtQueryKey ex_externals 4 KeyBasicInformation 64 ex_state_refused =
            Some (STATUS_ACCESS_DENIED, None, None, ex_state_refused\<lparr>CallbackLog := Log'\<rparr>)
          \<and> (\<exists>k. (k, RegNtPostQueryKey,
                    REG_POST_OPERATION_INFORMATION (Object ex_entry) STATUS_ACCESS_DENIED)
                   \<in> set Log'))
   \<and> (\<exists>Log'. NtEnumerateKey ex_externals 4 0 KeyBasicInformation 64 ex_state_refused =
            Some (STATUS_ACCESS_DENIED, None, None, ex_state_refused\<lparr>CallbackLog := Log'\<rparr>)
          \<and> (\<exists>k. (k, RegNtPostEnumerateKey,
                    REG_POST_OPERATION_INFORMATION (Object ex_entry) STATUS_ACCESS_DENIED)
                   \<in> set Log'))
   \<and> (\<exists>Log'. NtOpenKey ex_externals 100 0xF003F 200 ex_state_refused =
            Some (STATUS_ACCESS_DENIED, Some 0, ex_state_refused\<lparr>CallbackLog := Log'\<rparr>)
          \<and> (\<exists>k. (k, RegNtPostOpenKey,
                    REG_POST_CREATE_KEY_INFORMATION (Some [0x5C, 0x41]) None STATUS_ACCESS_DENIED)
                   \<in> set Log'))
   \<and> (\<exists>Log'. NtCreateKey ex_externals 100 0xF003F 200 0 0 0 0 ex_state_refused =
            Some (STATUS_ACCESS_DENIED, Some 0, None, ex_state_refused\<lparr>CallbackLog := Log'\<rparr>)
          \<and> (\<exists>k. (k, RegNtPostCreateKey,
                    REG_POST_CREATE_KEY_INFORMATION (Some [0x5C, 0x41]) None STATUS_ACCESS_DENIED)
                   \<in> set Log'))
   \<and> (\<exists>Log'. NtEnumerateValueKey ex_externals 4 0 KeyValuePartialInformation 64
              ex_state_refused =
            Some (STATUS_ACCESS_DENIED, None, None, ex_state_refused\<lparr>CallbackLog := Log'\<rparr>)
          \<and> (\<exists>k. (k, RegNtPostEnumerateValueKey,
                    REG_POST_OPERATION_INFORMATION (Object ex_entry) STATUS_ACCESS_DENIED)
                   \<in> set Log'))
   \<and> (\<exists>Log'. NtQueryValueKey ex_externals 4 [0x76] KeyValuePartialInformation 64
              ex_state_refused =
            Some (STATUS_ACCESS_DENIED, None, None, ex_state_refused\<lparr>CallbackLog := Log'\<rparr>)
          \<and> (\<exists>k. (k, RegNtPostQueryValueKey,
                    REG_POST_OPERATION_INFORMATION (Object ex_entry) STATUS_ACCESS_DENIED)
                   \<in> set Log'))
   \<and> (\<exists>Log'. NtDeleteValueKey ex_externals 4 300 ex_state_refused =
            Some (STATUS_ACCESS_DENIED, ex_state_refused\<lparr>CallbackLog := Log'\<rparr>)
          \<and> (\<exists>k. (k, RegNtPostDeleteValueKey,
                    REG_POST_OPERATION_INFORMATION (Object ex_entry) STATUS_ACCESS_DENIED)
                   \<in> set Log'))
   \<and> (\<exists>Log'. NtQueryMultipleValueKey ex_externals 4 [ex_value_entry] 1 0x1000 64
              ex_state_refused =
            Some (STATUS_ACCESS_DENIED, [ex_value_entry], [], None, None,
                  ex_state_refused\<lparr>CallbackLog := Log'\<rparr>)
          \<and> (\<exists>k. (k, RegNtPostQueryMultipleValueKey,
                    REG_POST_OPERATION_INFORMATION (Object ex_entry) STATUS_ACCESS_DENIED)
                   \<in> set Log'))"
proof -
  have acc: "KEY_SET_VALUE AND NOT (GrantedAccess ex_entry) = 0"
    "DELETE AND NOT (GrantedAccess ex_entry) = 0"
    "KEY_QUERY_VALUE AND NOT (GrantedAccess ex_entry) = 0"
    "KEY_ENUMERATE_SUB_KEYS AND NOT (GrantedAccess ex_entry) = 0"
    by (simp_all add: ex_entry_def)
  have ext: "ExGetPreviousMode ex_externals = UserMode"
    "ProbeForWrite ex_externals 100 = STATUS_SUCCESS"
    "ObpCaptureObjectAttributes ex_externals 200 = (STATUS_SUCCESS, 0, Some [0x5C, 0x41])"
    "ProbeAndCaptureUnicodeString ex_externals 300 = (STATUS_SUCCESS, [])"
    by (simp_all add: ex_externals_def)
  have name: "map_option (\<lambda>Buffer. if last Buffer = BACKSLASH then butlast Buffer else Buffer)
      (Some [0x5C, 0x41 :: WCHAR]) = Some [0x5C, 0x41]"
    by simp
  show ?thesis
    using pre_callback_failure_skips_operation [OF ex_state_refused_facts(1,2)
        NT_SUCCESS_codes(9),
        where X = ex_externals and ValueName' = "[0x76]" and TitleIndex = 0 and Type = 3
          and Data = "[9, 9, 9]" and DataSize' = 3
          and SetClass = KeyWriteTimeInformation and SetInfo = 7 and SetLength = 8
          and QueryClass = KeyBasicInformation and Length = 64 and Index = 0
          and HandlePtr = 100 and DesiredAccess = "0xF003F" and ObjectAttributes = 200
          and CaptureStatus = STATUS_SUCCESS and Attributes = 0
          and ObjectName = "Some [0x5C, 0x41]" and OpenName = "Some [0x5C, 0x41]"
          and Class = 0 and CreateOptions = 0 and Disposition = 0
          and ValueClass = KeyValuePartialInformation and NamePointer = 300
          and ProbeStatus = STATUS_SUCCESS and CapturedValueName = "[]"
          and Entries = "[ex_value_entry]" and NumberOfValues = 1 and Buffer = "0x1000"
          and BufferLength = 64]
    by (simp add: ex_state_refused_facts acc ext NT_SUCCESS_codes)
qed

subsection \<open>NtSetValueKey: the three ways of storing the data of a value\<close>

lemma le_word_le_bytes: "le_word (le_bytes w) = w"
proof (rule bit_word_eqI)
  fix n :: nat
  assume "n < LENGTH(32)"
  then have "n < 8 \<or> (\<exists>k<8. n = 8 + k) \<or> (\<exists>k<8. n = 16 + k) \<or> (\<exists>k<8. n = 24 + k)"
    by simp presburger
  then show "bit (le_word (le_bytes w)) n = bit w n"
    by (elim disjE exE conjE) (simp_all add: le_bytes_def bit_simps)
qed

lemma inline_bit_set: "(n OR REG_DATA_IN_OFFSET) AND REG_DATA_IN_OFFSET \<noteq> (0 :: ULONG)"
  by (simp add: word_ao_absorbs)

lemma inline_bit_clear: "(n AND REG_DATA_SIZE_MASK) AND REG_DATA_IN_OFFSET = (0 :: ULONG)"
  by (simp add: word_bw_assocs)

lemma NtSetValueKey_store_inline:
  assumes small: "DataSize' \<le> sizeof_HCELL_INDEX"
    and data: "unat DataSize' \<le> length Data"
    and cell: "Cells Hive ValueCellOffset = Some Cell"
    and old: "out_of_line ValueCell \<Longrightarrow>
                Cells Hive (le_word (DataOffset ValueCell)) = Some Old
                \<and> le_word (DataOffset ValueCell) \<noteq> HCELL_NULL
                \<and> le_word (DataOffset ValueCell) \<noteq> ValueCellOffset"
    and off: "ValueCellOffset \<noteq> HCELL_NULL"
  shows "\<exists>Hive'. NtSetValueKey_store Hive ValueCellOffset ValueCell Type Data DataSize'
            = Some (Inr Hive')
          \<and> GetValueCell Hive' ValueCellOffset =
              Some (ValueCell\<lparr>DataOffset := RtlCopyMemory (DataOffset ValueCell) Data
                                              (unat DataSize'),
                              DataSize := DataSize' OR REG_DATA_IN_OFFSET,
                              DataType := Type\<rparr>)
          \<and> (out_of_line ValueCell \<longrightarrow> Cells Hive' (le_word (DataOffset ValueCell)) = None)
          \<and> (\<not> out_of_line ValueCell \<longrightarrow>
                (\<forall>i. i \<noteq> ValueCellOffset \<longrightarrow> Cells Hive' i = Cells Hive i))
          \<and> FreeCells Hive' =
              FreeCells Hive @ (if out_of_line ValueCell then [le_word (DataOffset ValueCell)]
                                else [])"
proof (cases "out_of_line ValueCell")
  case True
  with old have o: "Cells Hive (le_word (DataOffset ValueCell)) = Some Old"
    "le_word (DataOffset ValueCell) \<noteq> HCELL_NULL"
    "le_word (DataOffset ValueCell) \<noteq> ValueCellOffset"
    by simp_all
  from True have t: "DataSize ValueCell AND REG_DATA_IN_OFFSET = 0"
    "DataSize ValueCell AND REG_DATA_SIZE_MASK \<noteq> 0"
    by (simp_all add: out_of_line_def)
  show ?thesis
    using small data cell o off t True
    by (simp add: NtSetValueKey_store_def HvGetCell_def HvFreeCell_def WriteCell_def
        HvMarkCellDirty_def GetValueCell_def Let_def)
next
  case False
  then have f: "\<not> (DataSize ValueCell AND REG_DATA_IN_OFFSET = 0
      \<and> DataSize ValueCell AND REG_DATA_SIZE_MASK \<noteq> 0)"
    by (simp add: out_of_line_def)
  show ?thesis
    using small data cell off f False
    by (auto simp: NtSetValueKey_store_def HvGetCell_def HvFreeCell_def WriteCell_def
        HvMarkCellDirty_def GetValueCell_def Let_def)
qed

lemma NtSetValueKey_store_grow:
  assumes big: "sizeof_HCELL_INDEX < DataSize'"
    and data: "unat DataSize' \<le> length Data"
    and cell: "Cells Hive ValueCellOffset = Some Cell"
    and off: "ValueCellOffset \<noteq> HCELL_NULL"
    and old: "out_of_line ValueCell \<Longrightarrow>
                Cells Hive (le_word (DataOffset ValueCell)) = Some Old
                \<and> CellLength Old < DataSize'
                \<and> le_word (DataOffset ValueCell) \<noteq> HCELL_NULL
                \<and> le_word (DataOffset ValueCell) \<noteq> ValueCellOffset
                \<and> le_word (DataOffset ValueCell) \<noteq> New"
    and free: "FreeCells Hive = New # rest"
    and new: "New \<noteq> HCELL_NULL" "New \<noteq> ValueCellOffset"
  shows "\<exists>Hive'. NtSetValueKey_store Hive ValueCellOffset ValueCell Type Data DataSize'
            = Some (Inr Hive')
          \<and> GetValueCell Hive' ValueCellOffset =
              Some (ValueCell\<lparr>DataOffset := le_bytes New,
                              DataSize := DataSize' AND REG_DATA_SIZE_MASK,
                              DataType := Type\<rparr>)
          \<and> HvGetCell Hive' New =
              Some \<lparr>CellLength = DataSize', CellStorage = HvStable,
                    CellData = RawData (RtlCopyMemory (replicate (unat DataSize') 0) Data
                                          (unat DataSize'))\<rparr>
          \<and> (out_of_line ValueCell \<longrightarrow> Cells Hive' (le_word (DataOffset ValueCell)) = None)
          \<and> FreeCells Hive' =
              rest @ (if out_of_line ValueCell then [le_word (DataOffset ValueCell)] else [])"
proof (cases "out_of_line ValueCell")
  case True
  with old have o: "Cells Hive (le_word (DataOffset ValueCell)) = Some Old"
    "CellLength Old < DataSize'"
    "le_word (DataOffset ValueCell) \<noteq> HCELL_NULL"
    "le_word (DataOffset ValueCell) \<noteq> ValueCellOffset"
    "le_word (DataOffset ValueCell) \<noteq> New"
    by simp_all
  from True have t: "DataSize ValueCell AND REG_DATA_IN_OFFSET = 0"
    "DataSize ValueCell AND REG_DATA_SIZE_MASK \<noteq> 0"
    by (simp_all add: out_of_line_def)
  from big have nb: "\<not> DataSize' \<le> sizeof_HCELL_INDEX" by simp
  show ?thesis
    using nb data cell o off t True free new
    by (simp add: NtSetValueKey_store_def HvGetCell_def HvGetCellSize_def HvFreeCell_def
        HvAllocateCell_def WriteCell_def HvMarkCellDirty_def GetValueCell_def GetRawData_def
        le_word_le_bytes Let_def)
next
  case False
  then have f: "\<not> (DataSize ValueCell AND REG_DATA_IN_OFFSET = 0
      \<and> DataSize ValueCell AND REG_DATA_SIZE_MASK \<noteq> 0)"
    by (simp add: out_of_line_def)
  from big have nb: "\<not> DataSize' \<le> sizeof_HCELL_INDEX" by simp
  from big have pos: "0 < DataSize'"
    by (simp add: word_greater_zero_iff) (auto simp: sizeof_HCELL_INDEX_def)
  show ?thesis
    using nb pos data cell off f False free new
    by (auto simp: NtSetValueKey_store_def HvGetCell_def HvGetCellSize_def HvFreeCell_def
        HvAllocateCell_def WriteCell_def HvMarkCellDirty_def GetValueCell_def GetRawData_def
        le_word_le_bytes Let_def)
qed

lemma NtSetValueKey_store_reuse:
  assumes big: "sizeof_HCELL_INDEX < DataSize'"
    and data: "unat DataSize' \<le> length Data"
    and cell: "Cells Hive ValueCellOffset = Some Cell"
    and off: "ValueCellOffset \<noteq> HCELL_NULL"
    and out: "out_of_line ValueCell"
    and old: "Cells Hive (le_word (DataOffset ValueCell)) = Some Old"
      "CellData Old = RawData Bytes"
      "le_word (DataOffset ValueCell) \<noteq> HCELL_NULL"
      "le_word (DataOffset ValueCell) \<noteq> ValueCellOffset"
    and fits: "DataSize' \<le> CellLength Old"
  shows "\<exists>Hive'. NtSetValueKey_store Hive ValueCellOffset ValueCell Type Data DataSize'
            = Some (Inr Hive')
          \<and> GetValueCell Hive' ValueCellOffset =
              Some (ValueCell\<lparr>DataSize := DataSize' AND REG_DATA_SIZE_MASK, DataType := Type\<rparr>)
          \<and> GetRawData Hive' (le_word (DataOffset ValueCell)) =
              Some (RtlCopyMemory Bytes Data (unat DataSize'))
          \<and> FreeCells Hive' = FreeCells Hive
          \<and> dom (Cells Hive') = dom (Cells Hive)"
proof -
  from out have t: "DataSize ValueCell AND REG_DATA_IN_OFFSET = 0"
    "DataSize ValueCell AND REG_DATA_SIZE_MASK \<noteq> 0"
    by (simp_all add: out_of_line_def)
  from big have nb: "\<not> DataSize' \<le> sizeof_HCELL_INDEX" by simp
  from fits have nf: "\<not> CellLength Old < DataSize'" by simp
  have d: "insert ValueCellOffset (insert (le_word (DataOffset ValueCell)) (dom (Cells Hive)))
      = dom (Cells Hive)"
    using cell old(1) by auto
  show ?thesis
    using nb nf data cell old off t
    by (simp add: NtSetValueKey_store_def HvGetCell_def HvGetCellSize_def
        WriteCell_def HvMarkCellDirty_def GetValueCell_def GetRawData_def Let_def d)
qed

text \<open>
  C6, at a failing input. The value \<open>v\<close> of the sample holds three bytes in its value cell.
  Setting it to eight bytes needs a new data cell; the allocator of the hive has none
  (\<^verbatim>\<open>HvAllocateCell\<close> returns \<^verbatim>\<open>HCELL_NULL\<close>). The call returns the status it had, which is
  \<^verbatim>\<open>STATUS_SUCCESS\<close>, and has stored nothing: the value still holds its three bytes with
  \<^verbatim>\<open>REG_DATA_IN_OFFSET\<close> set, and no cell was allocated.
\<close>

theorem NtSetValueKey_allocation_failure:
  "NtSetValueKey ex_externals 4 [0x76] 0 3 [1, 2, 3, 4, 5, 6, 7, 8] 8 ex_exhausted =
     Some (STATUS_SUCCESS, ex_exhausted)
   \<and> (case Hives ex_exhausted 1 of
         Some Hive \<Rightarrow> GetValueCell Hive 0x1E0 = Some ex_value \<and> FreeCells Hive = []
       | None \<Rightarrow> False)
   \<and> DataSize ex_value = 3 OR REG_DATA_IN_OFFSET"
proof -
  have o: "HandleTable ex_exhausted 4 = Some ex_entry"
    "Objects ex_exhausted (Object ex_entry) = Some ex_object"
    "KEY_SET_VALUE AND NOT (GrantedAccess ex_entry) = 0"
    by (simp_all add: ex_exhausted_def ex_state_def ex_entry_def)
  have h: "Hives ex_exhausted (RegistryHive ex_object) = Some (ex_hive\<lparr>FreeCells := []\<rparr>)"
    by (simp add: ex_exhausted_def ex_object_def)
  have obj: "(Objects ex_exhausted)(Object ex_entry \<mapsto> ex_object) = Objects ex_exhausted"
    using o(2) by (rule map_upd_triv)
  have hive: "(Hives ex_exhausted)(RegistryHive ex_object \<mapsto> ex_hive\<lparr>FreeCells := []\<rparr>)
      = Hives ex_exhausted"
    using h by (rule map_upd_triv)
  have cb: "CmiCallbackHead ex_exhausted = []"
    by (simp add: ex_exhausted_def ex_state_def)
  have kc: "HvGetCell (ex_hive\<lparr>FreeCells := []\<rparr>) (KeyCellOffset ex_object)
       = Some (ex_cell HvStable (KeyNode ex_node))"
    "GetValueCell (ex_hive\<lparr>FreeCells := []\<rparr>) 0x1E0 = Some ex_value"
    by (simp_all add: HvGetCell_def GetValueCell_def ex_hive_def ex_object_def ex_cell_def)
  have scan: "CmiScanKeyForValue ex_externals Hive Node [0x76] = (STATUS_SUCCESS, 0x1E0)" for Hive Node
    by (simp add: ex_externals_def)
  have store: "NtSetValueKey_store (ex_hive\<lparr>FreeCells := []\<rparr>) 0x1E0 ex_value 3
       [1, 2, 3, 4, 5, 6, 7, 8] 8 = Some (Inl (ex_hive\<lparr>FreeCells := []\<rparr>))"
    by (simp add: NtSetValueKey_store_def ex_value_def sizeof_HCELL_INDEX_def HvAllocateCell_def)
  have "NtSetValueKey ex_externals 4 [0x76] 0 3 [1, 2, 3, 4, 5, 6, 7, 8] 8 ex_exhausted =
     Some (STATUS_SUCCESS, ex_exhausted)"
    using obj hive
    by (simp add: NtSetValueKey_def ObReferenceObjectByHandle_def ObDereferenceObject_def
        CmiCallRegisteredCallbacks_def KeyCell_def cb o h kc scan store ex_cell_def
        NT_SUCCESS_codes)
  moreover have "Hives ex_exhausted 1 = Some (ex_hive\<lparr>FreeCells := []\<rparr>)"
    by (simp add: ex_exhausted_def)
  ultimately show ?thesis
    by (simp add: kc ex_value_def)
qed

subsection \<open>NtEnumerateKey\<close>











lemma ex_hive_subkeys:
  "SubKeyCounts ex_node HvStable = 2" "SubKeyCounts ex_node HvVolatile = 1"
  "GetHashTable ex_hive (SubKeyLists ex_node HvStable) = Some [(0x42, 0x100), (0x43, 0x140)]"
  "GetHashTable ex_hive (SubKeyLists ex_node HvVolatile) = Some [(0x44, 0x180)]"
  "GetKeyNode ex_hive 0x100 = Some (ex_leaf 0x42 REG_KEY_NAME_PACKED)"
  "GetKeyNode ex_hive 0x140 = Some (ex_leaf 0x43 REG_KEY_NAME_PACKED)"
  "GetKeyNode ex_hive 0x180 = Some (ex_leaf 0x44 0x21)"
  by (simp_all add: ex_node_def ex_hive_def GetHashTable_def GetKeyNode_def HvGetCell_def
      ex_cell_def)





subsection \<open>NtQueryKey\<close>

lemma ex_state_requery:
  "(Objects ex_state)(Object ex_entry \<mapsto> ex_object) = Objects ex_state"
  using ex_state_handle(2) by (rule map_upd_triv)

lemma ex_object_name_length:
  "UNICODE_STRING_Length (Name ex_object) = 2"
  by (simp add: UNICODE_STRING_Length_def ex_object_def)

lemma NtQueryKey_switch_PointerCount:
  "NtQueryKey_Basic (ko\<lparr>PointerCount := p\<rparr>) kc Length = NtQueryKey_Basic ko kc Length"
  "NtQueryKey_Node Hive (ko\<lparr>PointerCount := p\<rparr>) kc Length = NtQueryKey_Node Hive ko kc Length"
  by (simp_all add: NtQueryKey_Basic_def NtQueryKey_Node_def Let_def cong: option.case_cong)

text \<open>
  How the first two cases of the switch of NtQueryKey size the buffer. For
  \<^verbatim>\<open>KeyBasicInformation\<close> the length reported is the offset of \<^verbatim>\<open>Name\<close>, without the
  name. For \<^verbatim>\<open>KeyNodeInformation\<close> the buffer is too small whenever it cannot hold header,
  name and class together, so the two branches that would report an overflow are never
  taken.
\<close>

lemma NtQueryKey_Basic_ResultLength:
  "fst (snd (NtQueryKey_Basic ko kc Length)) = FIELD_OFFSET_KEY_BASIC_INFORMATION_Name"
  by (simp add: NtQueryKey_Basic_def Let_def split: prod.splits)

lemma ucast_16_32_bound: "unat (ucast (w :: 16 word) :: 32 word) < 65536"
proof -
  have w: "unat w < 65536"
    using unsigned_less [of w, where 'a = nat] by simp
  have c: "unat (ucast w :: 32 word) = take_bit 32 (unat w)"
    by (rule unsigned_ucast_eq [where 'c = 32, simplified])
  have "take_bit 32 (unat w) \<le> unat w"
    by (rule take_bit_nat_less_eq_self)
  then have "take_bit 32 (unat w) < 65536"
    using w by (rule le_less_trans)
  then show ?thesis
    unfolding c .
qed

lemma header_and_payload_fit:
  fixes L N C :: "32 word"
  assumes N: "unat N < 65536" and C: "unat C < 65536" and fit: "\<not> L < 24 + N + C"
  shows "\<not> L - 24 < N \<and> \<not> L - 24 - N < C"
proof -
  have n: "unat (24 + N) = 24 + unat N"
    using N by (simp add: unat_add_lem [THEN iffD1])
  have nc: "unat (24 + N + C) = 24 + unat N + unat C"
    using N C n by (simp add: unat_add_lem [THEN iffD1])
  from fit have l: "24 + unat N + unat C \<le> unat L"
    by (simp add: word_less_nat_alt nc)
  then have "(24 :: 32 word) \<le> L"
    by (simp add: word_le_nat_alt)
  then have s1: "unat (L - 24) = unat L - 24"
    by (simp add: unat_sub)
  with l have "N \<le> L - 24"
    by (simp add: word_le_nat_alt)
  then have s2: "unat (L - 24 - N) = unat L - 24 - unat N"
    using s1 by (simp add: unat_sub)
  from l s1 s2 show ?thesis
    unfolding word_less_nat_alt by arith
qed

lemma NtQueryKey_Node_status:
  assumes "NtQueryKey_Node Hive ko kc Length = Some (Status, ResultLength, Info)"
  shows "ResultLength = FIELD_OFFSET_KEY_NODE_INFORMATION_Name
            + ucast (UNICODE_STRING_Length (Name ko)) + ucast (ClassSize kc)
         \<and> (Status = STATUS_BUFFER_TOO_SMALL \<longleftrightarrow> Length < ResultLength)
         \<and> Status \<noteq> STATUS_BUFFER_OVERFLOW"
proof (cases "Length < 24 + ucast (UNICODE_STRING_Length (Name ko)) + ucast (ClassSize kc)")
  case True
  with assms show ?thesis
    by (simp add: NtQueryKey_Node_def Let_def FIELD_OFFSET_KEY_NODE_INFORMATION_Name_def)
next
  case False
  from header_and_payload_fit [OF ucast_16_32_bound ucast_16_32_bound False]
  have "\<not> Length - 24 < ucast (UNICODE_STRING_Length (Name ko))"
    "\<not> Length - 24 - ucast (UNICODE_STRING_Length (Name ko)) < ucast (ClassSize kc)"
    by simp_all
  with assms False show ?thesis
    by (auto simp: NtQueryKey_Node_def Let_def FIELD_OFFSET_KEY_NODE_INFORMATION_Name_def
        split: option.splits)
qed

lemma header_and_class_fit:
  fixes L C :: "32 word"
  assumes C: "unat C < 65536" and hdr: "\<not> L < 44"
  shows "L - 44 < C \<longleftrightarrow> L < 44 + C"
proof -
  have c: "unat (44 + C) = 44 + unat C"
    using C by (simp add: unat_add_lem [THEN iffD1])
  from hdr have "(44 :: 32 word) \<le> L"
    by simp
  then have s: "unat (L - 44) = unat L - 44" and l: "44 \<le> unat L"
    by (simp_all add: unat_sub word_le_nat_alt)
  from s l c show ?thesis
    unfolding word_less_nat_alt by arith
qed

lemma NtQueryKey_Full_status:
  assumes "NtQueryKey_Full X st ko Hive kc Length = Some (Status, ResultLength, Info)"
  shows "ResultLength = FIELD_OFFSET_KEY_FULL_INFORMATION_Class + ucast (ClassSize kc)
         \<and> (Status = STATUS_BUFFER_TOO_SMALL \<longleftrightarrow>
              Length < FIELD_OFFSET_KEY_FULL_INFORMATION_Class)
         \<and> (Status = STATUS_BUFFER_OVERFLOW \<longleftrightarrow>
              \<not> Length < FIELD_OFFSET_KEY_FULL_INFORMATION_Class \<and> Length < ResultLength)"
proof (cases "Length < 44")
  case True
  with assms show ?thesis
    by (simp add: NtQueryKey_Full_def Let_def FIELD_OFFSET_KEY_FULL_INFORMATION_Class_def)
next
  case False
  note fit = header_and_class_fit [OF ucast_16_32_bound False, of "ClassSize kc"]
  from assms False show ?thesis
    by (auto simp: NtQueryKey_Full_def Let_def FIELD_OFFSET_KEY_FULL_INFORMATION_Class_def fit
        split: option.splits if_splits)
qed

text \<open>
  C5, at two failing inputs. The key \<open>A\<close> of the sample has a name of two bytes and no
  class. NtQueryKey for \<^verbatim>\<open>KeyBasicInformation\<close> with a buffer of 16 bytes, the fixed header,
  returns \<^verbatim>\<open>STATUS_BUFFER_OVERFLOW\<close> and reports the length 16, where header and name
  need 18. NtQueryKey for \<^verbatim>\<open>KeyNodeInformation\<close> with a buffer of 24 bytes, the fixed
  header, returns \<^verbatim>\<open>STATUS_BUFFER_TOO_SMALL\<close> although the header fits. NtEnumerateKey,
  which has the same switch, reports 18 in the first case and returns
  \<^verbatim>\<open>STATUS_BUFFER_OVERFLOW\<close> in the second, on the subkey \<open>B\<close> whose name also has two
  bytes.
\<close>

theorem NtQueryKey_buffer_shape:
  "NtQueryKey ex_externals 4 KeyBasicInformation 16 ex_state =
     Some (STATUS_BUFFER_OVERFLOW, Some (KEY_BASIC_INFORMATION 0 0 2 []), Some 16, ex_state)
   \<and> FIELD_OFFSET_KEY_BASIC_INFORMATION_Name
        + ucast (UNICODE_STRING_Length (Name ex_object)) = 18
   \<and> NtQueryKey ex_externals 4 KeyNodeInformation 24 ex_state =
       Some (STATUS_BUFFER_TOO_SMALL, None, Some 26, ex_state)
   \<and> FIELD_OFFSET_KEY_NODE_INFORMATION_Name = 24
   \<and> NtEnumerateKey ex_externals 4 0 KeyBasicInformation 16 ex_state =
       Some (STATUS_BUFFER_OVERFLOW, Some (KEY_BASIC_INFORMATION 0 0 2 []), Some 18, ex_state)
   \<and> NtEnumerateKey ex_externals 4 0 KeyNodeInformation 24 ex_state =
       Some (STATUS_BUFFER_OVERFLOW,
             Some (KEY_NODE_INFORMATION 0 0 34 0 2 [] (2, [])), Some 26, ex_state)"
proof -
  have acc: "KEY_QUERY_VALUE AND NOT (GrantedAccess ex_entry) = 0"
    "KEY_ENUMERATE_SUB_KEYS AND NOT (GrantedAccess ex_entry) = 0"
    by (simp_all add: ex_entry_def)
  have kc: "HvGetCell ex_hive (KeyCellOffset ex_object) = Some (ex_cell HvStable (KeyNode ex_node))"
    by (simp add: HvGetCell_def ex_hive_def ex_object_def)
  have cb: "CmiCallbackHead ex_state = []"
    by (simp add: ex_state_def)
  have basic: "NtQueryKey_Basic ex_object ex_node 16 =
      (STATUS_BUFFER_OVERFLOW, 16, Some (KEY_BASIC_INFORMATION 0 0 2 []))"
    by (simp add: NtQueryKey_Basic_def ex_object_name_length ex_node_def
        FIELD_OFFSET_KEY_BASIC_INFORMATION_Name_def)
  have node: "NtQueryKey_Node ex_hive ex_object ex_node 24 =
      Some (STATUS_BUFFER_TOO_SMALL, 26, None)"
    by (simp add: NtQueryKey_Node_def ex_object_name_length ex_node_def
        FIELD_OFFSET_KEY_NODE_INFORMATION_Name_def)
  have q1: "NtQueryKey ex_externals 4 KeyBasicInformation 16 ex_state =
     Some (STATUS_BUFFER_OVERFLOW, Some (KEY_BASIC_INFORMATION 0 0 2 []), Some 16, ex_state)"
    using ex_state_requery
    by (simp add: NtQueryKey_def ObReferenceObjectByHandle_def ObDereferenceObject_def
        CmiCallRegisteredCallbacks_unfold KeyCell_def ex_state_handle acc kc cb basic ex_cell_def
        NtQueryKey_switch_PointerCount
        NT_SUCCESS_codes)
  have q2: "NtQueryKey ex_externals 4 KeyNodeInformation 24 ex_state =
       Some (STATUS_BUFFER_TOO_SMALL, None, Some 26, ex_state)"
    using ex_state_requery
    by (simp add: NtQueryKey_def ObReferenceObjectByHandle_def ObDereferenceObject_def
        CmiCallRegisteredCallbacks_unfold KeyCell_def ex_state_handle acc kc cb node ex_cell_def
        NtQueryKey_switch_PointerCount
        NT_SUCCESS_codes)
  have sub: "NtEnumerateKey_SubKeyCell ex_hive ex_node 0 =
      Some (Inr (0x100, ex_leaf 0x42 REG_KEY_NAME_PACKED))"
  proof -
    have "SubKeyLists ex_node HvStable \<noteq> HCELL_NULL"
      by (simp add: ex_node_def)
    then show ?thesis
      by (simp add: NtEnumerateKey_SubKeyCell_def ex_hive_subkeys CmiGetKeyFromHashByIndex_def)
  qed
  have ebasic: "NtEnumerateKey_Basic (ex_leaf 0x42 REG_KEY_NAME_PACKED) 0 16 =
      (STATUS_BUFFER_OVERFLOW, 18, Some (KEY_BASIC_INFORMATION 0 0 2 []))"
    by (simp add: NtEnumerateKey_Basic_def SubKeyNameSize_def CopySubKeyName_def ex_leaf_def
        FIELD_OFFSET_KEY_BASIC_INFORMATION_Name_def sizeof_WCHAR_def CmiCopyPackedName_def)
  have enode: "NtEnumerateKey_Node ex_hive (ex_leaf 0x42 REG_KEY_NAME_PACKED) 0 24 =
      Some (STATUS_BUFFER_OVERFLOW, 26, Some (KEY_NODE_INFORMATION 0 0 34 0 2 [] (2, [])))"
    by (simp add: NtEnumerateKey_Node_def SubKeyNameSize_def CopySubKeyName_def ex_leaf_def
        FIELD_OFFSET_KEY_NODE_INFORMATION_Name_def sizeof_WCHAR_def CmiCopyPackedName_def
        sizeof_KEY_NODE_INFORMATION_def CopyClass_def)
  have e1: "NtEnumerateKey ex_externals 4 0 KeyBasicInformation 16 ex_state =
       Some (STATUS_BUFFER_OVERFLOW, Some (KEY_BASIC_INFORMATION 0 0 2 []), Some 18, ex_state)"
    using ex_state_requery
    by (simp add: NtEnumerateKey_def ObReferenceObjectByHandle_def ObDereferenceObject_def
        CmiCallRegisteredCallbacks_unfold KeyCell_def ex_state_handle acc kc cb sub ebasic
        ex_cell_def NT_SUCCESS_codes)
  have e2: "NtEnumerateKey ex_externals 4 0 KeyNodeInformation 24 ex_state =
       Some (STATUS_BUFFER_OVERFLOW,
             Some (KEY_NODE_INFORMATION 0 0 34 0 2 [] (2, [])), Some 26, ex_state)"
    using ex_state_requery
    by (simp add: NtEnumerateKey_def ObReferenceObjectByHandle_def ObDereferenceObject_def
        CmiCallRegisteredCallbacks_unfold KeyCell_def ex_state_handle acc kc cb sub enode
        ex_cell_def NT_SUCCESS_codes)
  show ?thesis
    using q1 q2 e1 e2
    by (simp add: ex_object_name_length FIELD_OFFSET_KEY_BASIC_INFORMATION_Name_def
        FIELD_OFFSET_KEY_NODE_INFORMATION_Name_def)
qed

subsection \<open>CmUnRegisterCallback\<close>

text \<open>
  The cookie of a callback is the address of its pool block, so no two entries of the list
  share a cookie. Then the entry the loop finds is the entry with the cookie, and unlinking
  it leaves the other entries in their order.
\<close>

lemma RemoveEntryList_update:
  "RemoveEntryList i (cbs[i := x]) = RemoveEntryList i cbs"
  by (simp add: RemoveEntryList_def)

lemma find_cookie_update:
  "Cookie x = Cookie (cbs ! i) \<Longrightarrow> find_cookie c (cbs[i := x]) = find_cookie c cbs"
proof (induction cbs arbitrary: i)
  case Nil
  then show ?case by simp
next
  case (Cons a rest)
  then show ?case by (cases i) simp_all
qed

lemma CmUnRegisterCallback_wait_at:
  assumes "i < length (CmiCallbackHead st)" and "CmiCallbackHead st ! i = e"
  shows "CmUnRegisterCallback_wait i st =
     (if Count (RundownRef e) = 0
      then (Returned STATUS_SUCCESS,
            st\<lparr>CmiCallbackHead := RemoveEntryList i (CmiCallbackHead st),
               CallbackPool := removeAll (Cookie e) (CallbackPool st)\<rparr>)
      else (Waiting (Cookie e),
            st\<lparr>CmiCallbackHead :=
                 (CmiCallbackHead st)[i := e\<lparr>RundownRef := (RundownRef e)\<lparr>Active := True\<rparr>\<rparr>]\<rparr>))"
  using assms
  by (simp add: CmUnRegisterCallback_wait_def ExWaitForRundownProtectionRelease_def Let_def
      ExFreePool_def RemoveEntryList_update)

lemma release_funpow:
  assumes "find_cookie c H = Some i" and "i < length H" and "H ! i = e"
  shows "(CmiCallRegisteredCallbacks_release c ^^ k) (st\<lparr>CmiCallbackHead := H\<rparr>) =
     st\<lparr>CmiCallbackHead :=
          H[i := e\<lparr>RundownRef := (RundownRef e)\<lparr>Count := Count (RundownRef e) - k\<rparr>\<rparr>]\<rparr>"
proof (induction k)
  case 0
  from assms(2,3) show ?case by (simp add: list_update_same_conv [THEN iffD2])
next
  case (Suc k)
  let ?e = "e\<lparr>RundownRef := (RundownRef e)\<lparr>Count := Count (RundownRef e) - k\<rparr>\<rparr>"
  have "Cookie ?e = Cookie (H ! i)" using assms(3) by simp
  from find_cookie_update [OF this, of c] assms(1)
  have f: "find_cookie c (H[i := ?e]) = Some i" by simp
  have "(CmiCallRegisteredCallbacks_release c ^^ Suc k) (st\<lparr>CmiCallbackHead := H\<rparr>) =
      CmiCallRegisteredCallbacks_release c (st\<lparr>CmiCallbackHead := H[i := ?e]\<rparr>)"
    unfolding funpow.simps o_apply Suc.IH ..
  also have "\<dots> = st\<lparr>CmiCallbackHead :=
          H[i := e\<lparr>RundownRef := (RundownRef e)\<lparr>Count := Count (RundownRef e) - Suc k\<rparr>\<rparr>]\<rparr>"
    using assms(2) f
    by (simp add: CmiCallRegisteredCallbacks_release_def ExReleaseRundownProtection_def)
  finally show ?case .
qed

lemma find_cookie_None:
  "(find_cookie c cbs = None) = (\<forall>cb \<in> set cbs. Cookie cb \<noteq> c)"
  by (induction cbs) auto

lemma find_cookie_distinct:
  assumes "distinct (map Cookie cbs)" and "cb \<in> set cbs"
  shows "\<exists>i. find_cookie (Cookie cb) cbs = Some i \<and> i < length cbs \<and> cbs ! i = cb
           \<and> RemoveEntryList i cbs = filter (\<lambda>y. Cookie y \<noteq> Cookie cb) cbs"
  using assms
proof (induction cbs)
  case Nil
  then show ?case by simp
next
  case (Cons a rest)
  show ?case
  proof (cases "Cookie a = Cookie cb")
    case True
    with Cons.prems have "cb = a"
      by (auto simp: image_iff)
    moreover from Cons.prems have "filter (\<lambda>y. Cookie y \<noteq> Cookie a) rest = rest"
      by (auto simp: filter_id_conv image_iff)
    ultimately show ?thesis
      by (simp add: RemoveEntryList_def)
  next
    case False
    with Cons.prems have "cb \<in> set rest" and "distinct (map Cookie rest)"
      by auto
    from Cons.IH [OF this(2) this(1)] obtain i where
      "find_cookie (Cookie cb) rest = Some i" "i < length rest" "rest ! i = cb"
      "RemoveEntryList i rest = filter (\<lambda>y. Cookie y \<noteq> Cookie cb) rest"
      by blast
    with False show ?thesis
      by (simp add: RemoveEntryList_def)
  qed
qed

lemma CmUnRegisterCallback_resume_after:
  assumes f: "find_cookie c H = Some i" and l: "i < length H" and e: "H ! i = cb"
    and c: "Cookie cb = c"
  defines "w \<equiv> cb\<lparr>PendingDelete := True, RundownRef := (RundownRef cb)\<lparr>Active := True\<rparr>\<rparr>"
  shows "CmUnRegisterCallback_resume c
           ((CmiCallRegisteredCallbacks_release c ^^ k) (st\<lparr>CmiCallbackHead := H[i := w]\<rparr>)) =
         (if Count (RundownRef cb) \<le> k
          then Some (Returned STATUS_SUCCESS,
                 st\<lparr>CmiCallbackHead := RemoveEntryList i H,
                    CallbackPool := removeAll c (CallbackPool st)\<rparr>)
          else Some (Waiting c,
                 (CmiCallRegisteredCallbacks_release c ^^ k) (st\<lparr>CmiCallbackHead := H[i := w]\<rparr>)))"
proof -
  define r where "r = (RundownRef cb)\<lparr>Active := True, Count := Count (RundownRef cb) - k\<rparr>"
  define x where "x = cb\<lparr>PendingDelete := True, RundownRef := r\<rparr>"
  have cw: "Cookie w = Cookie (H ! i)"
    using e by (simp add: w_def)
  have fw: "find_cookie c (H[i := w]) = Some i"
    using find_cookie_update [OF cw, of c] f by simp
  have lw: "i < length (H[i := w])" "H[i := w] ! i = w"
    using l by simp_all
  have wx: "w\<lparr>RundownRef := (RundownRef w)\<lparr>Count := Count (RundownRef w) - k\<rparr>\<rparr> = x"
    by (simp add: w_def x_def r_def)
  have rel: "(CmiCallRegisteredCallbacks_release c ^^ k) (st\<lparr>CmiCallbackHead := H[i := w]\<rparr>) =
      st\<lparr>CmiCallbackHead := H[i := x]\<rparr>"
    using release_funpow [OF fw lw, of k st] unfolding wx by simp
  have cx: "Cookie x = Cookie (H ! i)"
    using e by (simp add: x_def)
  have fx: "find_cookie c (CmiCallbackHead (st\<lparr>CmiCallbackHead := H[i := x]\<rparr>)) = Some i"
    using find_cookie_update [OF cx, of c] f by simp
  have at: "i < length (CmiCallbackHead (st\<lparr>CmiCallbackHead := H[i := x]\<rparr>))"
    "CmiCallbackHead (st\<lparr>CmiCallbackHead := H[i := x]\<rparr>) ! i = x"
    using l by simp_all
  have xx: "x\<lparr>RundownRef := (RundownRef x)\<lparr>Active := True\<rparr>\<rparr> = x"
    by (simp add: x_def r_def)
  have facts: "Cookie x = c" "(Count (RundownRef x) = 0) = (Count (RundownRef cb) \<le> k)"
    using c by (simp_all add: x_def r_def)
  have w: "CmUnRegisterCallback_wait i (st\<lparr>CmiCallbackHead := H[i := x]\<rparr>) =
      (if Count (RundownRef cb) \<le> k
       then (Returned STATUS_SUCCESS,
             st\<lparr>CmiCallbackHead := RemoveEntryList i H,
                CallbackPool := removeAll c (CallbackPool st)\<rparr>)
       else (Waiting c, st\<lparr>CmiCallbackHead := H[i := x]\<rparr>))"
    unfolding CmUnRegisterCallback_wait_at [OF at] xx facts
    by (simp add: RemoveEntryList_update)
  show ?thesis
    unfolding rel CmUnRegisterCallback_resume_def fx option.case w by simp
qed

text \<open>
  C8. CmUnRegisterCallback, with cookies that differ from entry to entry. If no entry has
  the cookie the call returns \<^verbatim>\<open>STATUS_UNSUCCESSFUL\<close> and changes nothing. If the entry with
  the cookie has \<^verbatim>\<open>PendingDelete\<close> set, the call returns \<^verbatim>\<open>STATUS_UNSUCCESSFUL\<close> and
  changes nothing. If \<^verbatim>\<open>PendingDelete\<close> is clear, the call is the wait of lines 208 to 218
  run in the state in which the flag of the entry is set. With no holder of the rundown
  protection it returns \<^verbatim>\<open>STATUS_SUCCESS\<close> at once, the entry unlinked and its block freed.
  With \<open>n\<close> holders it is blocked, in a state in which the entry is still linked, has
  \<^verbatim>\<open>PendingDelete\<close> set and its rundown begun; it stays blocked while fewer than \<open>n\<close>
  holders have released the protection, and once all \<open>n\<close> have, it unlinks the entry, frees
  its block and returns \<^verbatim>\<open>STATUS_SUCCESS\<close>.
\<close>

theorem CmUnRegisterCallback_cases:
  assumes "distinct (map Cookie (CmiCallbackHead st))"
  shows
    "((\<forall>cb \<in> set (CmiCallbackHead st). Cookie cb \<noteq> c) \<longrightarrow>
        CmUnRegisterCallback c st = (Returned STATUS_UNSUCCESSFUL, st))
     \<and> (\<forall>cb \<in> set (CmiCallbackHead st). Cookie cb = c \<and> PendingDelete cb \<longrightarrow>
          CmUnRegisterCallback c st = (Returned STATUS_UNSUCCESSFUL, st))
     \<and> (\<forall>cb \<in> set (CmiCallbackHead st). Cookie cb = c \<and> \<not> PendingDelete cb \<longrightarrow>
          (\<exists>i. i < length (CmiCallbackHead st) \<and> CmiCallbackHead st ! i = cb
             \<and> CmUnRegisterCallback c st =
                 CmUnRegisterCallback_wait i
                   (st\<lparr>CmiCallbackHead := (CmiCallbackHead st)[i := cb\<lparr>PendingDelete := True\<rparr>]\<rparr>)
             \<and> (Count (RundownRef cb) = 0 \<longrightarrow>
                  CmUnRegisterCallback c st =
                    (Returned STATUS_SUCCESS,
                     st\<lparr>CmiCallbackHead := filter (\<lambda>y. Cookie y \<noteq> c) (CmiCallbackHead st),
                        CallbackPool := removeAll c (CallbackPool st)\<rparr>))
             \<and> (Count (RundownRef cb) \<noteq> 0 \<longrightarrow>
                  (\<exists>st_wait.
                     CmUnRegisterCallback c st = (Waiting c, st_wait)
                   \<and> st_wait = st\<lparr>CmiCallbackHead := (CmiCallbackHead st)
                        [i := cb\<lparr>PendingDelete := True,
                                 RundownRef := (RundownRef cb)\<lparr>Active := True\<rparr>\<rparr>]\<rparr>
                   \<and> (\<forall>k < Count (RundownRef cb).
                         CmUnRegisterCallback_resume c
                           ((CmiCallRegisteredCallbacks_release c ^^ k) st_wait)
                         = Some (Waiting c, (CmiCallRegisteredCallbacks_release c ^^ k) st_wait))
                   \<and> CmUnRegisterCallback_resume c
                        ((CmiCallRegisteredCallbacks_release c ^^ Count (RundownRef cb)) st_wait)
                      = Some (Returned STATUS_SUCCESS,
                          st\<lparr>CmiCallbackHead := filter (\<lambda>y. Cookie y \<noteq> c) (CmiCallbackHead st),
                             CallbackPool := removeAll c (CallbackPool st)\<rparr>)))))"
proof (intro conjI impI ballI)
  assume "\<forall>cb \<in> set (CmiCallbackHead st). Cookie cb \<noteq> c"
  then have "find_cookie c (CmiCallbackHead st) = None"
    by (simp add: find_cookie_None)
  then show "CmUnRegisterCallback c st = (Returned STATUS_UNSUCCESSFUL, st)"
    by (simp add: CmUnRegisterCallback_def)
next
  fix cb
  assume cb: "cb \<in> set (CmiCallbackHead st)" and c: "Cookie cb = c \<and> PendingDelete cb"
  from find_cookie_distinct [OF assms cb] c
  obtain i where "find_cookie c (CmiCallbackHead st) = Some i" "CmiCallbackHead st ! i = cb"
    by blast
  with c show "CmUnRegisterCallback c st = (Returned STATUS_UNSUCCESSFUL, st)"
    by (simp add: CmUnRegisterCallback_def)
next
  fix cb
  let ?H = "CmiCallbackHead st"
  assume cb: "cb \<in> set ?H" and c: "Cookie cb = c \<and> \<not> PendingDelete cb"
  from find_cookie_distinct [OF assms cb] c
  obtain i where i: "find_cookie c ?H = Some i" "i < length ?H" "?H ! i = cb"
    "RemoveEntryList i ?H = filter (\<lambda>y. Cookie y \<noteq> c) ?H"
    by blast
  let ?m = "cb\<lparr>PendingDelete := True\<rparr>"
  let ?st1 = "st\<lparr>CmiCallbackHead := ?H[i := ?m]\<rparr>"
  let ?w = "cb\<lparr>PendingDelete := True, RundownRef := (RundownRef cb)\<lparr>Active := True\<rparr>\<rparr>"
  let ?st_wait = "st\<lparr>CmiCallbackHead := ?H[i := ?w]\<rparr>"
  let ?done = "st\<lparr>CmiCallbackHead := filter (\<lambda>y. Cookie y \<noteq> c) ?H,
                    CallbackPool := removeAll c (CallbackPool st)\<rparr>"
  have split: "CmUnRegisterCallback c st = CmUnRegisterCallback_wait i ?st1"
    using i c by (simp add: CmUnRegisterCallback_def Let_def)
  have at1: "i < length (CmiCallbackHead ?st1)" "CmiCallbackHead ?st1 ! i = ?m"
    using i(2) by simp_all
  note w1 = CmUnRegisterCallback_wait_at [OF at1]
  have zero: "CmUnRegisterCallback c st = (Returned STATUS_SUCCESS, ?done)"
    if "Count (RundownRef cb) = 0"
    using that c i(4) unfolding split w1 by (simp add: RemoveEntryList_update)
  have blocked: "CmUnRegisterCallback c st = (Waiting c, ?st_wait)"
    if "Count (RundownRef cb) \<noteq> 0"
    using that c unfolding split w1 by simp
  note resume = CmUnRegisterCallback_resume_after [OF i(1-3) conjunct1 [OF c], of _ st]
  have waiting: "\<forall>k < Count (RundownRef cb).
      CmUnRegisterCallback_resume c ((CmiCallRegisteredCallbacks_release c ^^ k) ?st_wait)
        = Some (Waiting c, (CmiCallRegisteredCallbacks_release c ^^ k) ?st_wait)"
    unfolding resume by simp
  have released: "CmUnRegisterCallback_resume c
      ((CmiCallRegisteredCallbacks_release c ^^ Count (RundownRef cb)) ?st_wait)
        = Some (Returned STATUS_SUCCESS, ?done)"
    unfolding resume i(4) by simp
  show "\<exists>i. i < length ?H \<and> ?H ! i = cb
             \<and> CmUnRegisterCallback c st =
                 CmUnRegisterCallback_wait i
                   (st\<lparr>CmiCallbackHead := ?H[i := cb\<lparr>PendingDelete := True\<rparr>]\<rparr>)
             \<and> (Count (RundownRef cb) = 0 \<longrightarrow>
                  CmUnRegisterCallback c st = (Returned STATUS_SUCCESS, ?done))
             \<and> (Count (RundownRef cb) \<noteq> 0 \<longrightarrow>
                  (\<exists>st_wait.
                     CmUnRegisterCallback c st = (Waiting c, st_wait)
                   \<and> st_wait = st\<lparr>CmiCallbackHead := ?H
                        [i := cb\<lparr>PendingDelete := True,
                                 RundownRef := (RundownRef cb)\<lparr>Active := True\<rparr>\<rparr>]\<rparr>
                   \<and> (\<forall>k < Count (RundownRef cb).
                         CmUnRegisterCallback_resume c
                           ((CmiCallRegisteredCallbacks_release c ^^ k) st_wait)
                         = Some (Waiting c, (CmiCallRegisteredCallbacks_release c ^^ k) st_wait))
                   \<and> CmUnRegisterCallback_resume c
                        ((CmiCallRegisteredCallbacks_release c ^^ Count (RundownRef cb)) st_wait)
                      = Some (Returned STATUS_SUCCESS, ?done)))"
  proof (intro exI [of _ i] conjI impI)
    show "i < length ?H" by (rule i(2))
    show "?H ! i = cb" by (rule i(3))
    show "CmUnRegisterCallback c st = CmUnRegisterCallback_wait i ?st1" by (rule split)
    show "CmUnRegisterCallback c st = (Returned STATUS_SUCCESS, ?done)"
      if "Count (RundownRef cb) = 0" using that by (rule zero)
    show "\<exists>st_wait.
             CmUnRegisterCallback c st = (Waiting c, st_wait)
           \<and> st_wait = st\<lparr>CmiCallbackHead := ?H
                [i := cb\<lparr>PendingDelete := True,
                         RundownRef := (RundownRef cb)\<lparr>Active := True\<rparr>\<rparr>]\<rparr>
           \<and> (\<forall>k < Count (RundownRef cb).
                 CmUnRegisterCallback_resume c
                   ((CmiCallRegisteredCallbacks_release c ^^ k) st_wait)
                 = Some (Waiting c, (CmiCallRegisteredCallbacks_release c ^^ k) st_wait))
           \<and> CmUnRegisterCallback_resume c
                ((CmiCallRegisteredCallbacks_release c ^^ Count (RundownRef cb)) st_wait)
              = Some (Returned STATUS_SUCCESS, ?done)"
      if "Count (RundownRef cb) \<noteq> 0"
    proof (intro exI [of _ ?st_wait] conjI)
      show "CmUnRegisterCallback c st = (Waiting c, ?st_wait)" using that by (rule blocked)
      show "?st_wait = ?st_wait" by (rule refl)
      show "\<forall>k < Count (RundownRef cb).
          CmUnRegisterCallback_resume c ((CmiCallRegisteredCallbacks_release c ^^ k) ?st_wait)
            = Some (Waiting c, (CmiCallRegisteredCallbacks_release c ^^ k) ?st_wait)"
        by (rule waiting)
      show "CmUnRegisterCallback_resume c
          ((CmiCallRegisteredCallbacks_release c ^^ Count (RundownRef cb)) ?st_wait)
            = Some (Returned STATUS_SUCCESS, ?done)"
        by (rule released)
    qed
  qed
qed

theorem CmUnRegisterCallback_cases_witness:
  "distinct (map Cookie (CmiCallbackHead ex_state_two))
   \<and> CmiCallbackHead ex_state_two
        = [ex_callback\<lparr>PendingDelete := True\<rparr>, ex_callback\<lparr>Cookie := 0x600\<rparr>]
   \<and> CmUnRegisterCallback 0x700 ex_state_two = (Returned STATUS_UNSUCCESSFUL, ex_state_two)
   \<and> CmUnRegisterCallback 0x500 ex_state_two = (Returned STATUS_UNSUCCESSFUL, ex_state_two)
   \<and> CmUnRegisterCallback 0x600 ex_state_two =
        (Returned STATUS_SUCCESS,
         ex_state_two\<lparr>CmiCallbackHead := [ex_callback\<lparr>PendingDelete := True\<rparr>],
                      CallbackPool := [0x500]\<rparr>)
   \<and> distinct (map Cookie (CmiCallbackHead ex_state_held))
   \<and> CmiCallbackHead ex_state_held = [ex_held_callback]
   \<and> Cookie ex_held_callback = 0x500 \<and> \<not> PendingDelete ex_held_callback
   \<and> RundownRef ex_held_callback = \<lparr>Count = 1, Active = False\<rparr>
   \<and> CmUnRegisterCallback 0x500 ex_state_held = (Waiting 0x500, ex_state_waiting)
   \<and> CmiCallbackHead ex_state_waiting =
        [ex_held_callback\<lparr>PendingDelete := True, RundownRef := \<lparr>Count = 1, Active = True\<rparr>\<rparr>]
   \<and> CmUnRegisterCallback_resume 0x500 ex_state_waiting = Some (Waiting 0x500, ex_state_waiting)
   \<and> CmiCallbackHead (CmiCallRegisteredCallbacks_release 0x500 ex_state_waiting) =
        [ex_held_callback\<lparr>PendingDelete := True, RundownRef := \<lparr>Count = 0, Active = True\<rparr>\<rparr>]
   \<and> CmUnRegisterCallback_resume 0x500
        (CmiCallRegisteredCallbacks_release 0x500 ex_state_waiting) =
        Some (Returned STATUS_SUCCESS, ex_state_held\<lparr>CmiCallbackHead := [], CallbackPool := []\<rparr>)"
proof -
  have d: "distinct (map Cookie (CmiCallbackHead ex_state_two))"
    by (simp add: ex_state_two_def ex_callback_def)
  have l: "CmiCallbackHead ex_state_two
      = [ex_callback\<lparr>PendingDelete := True\<rparr>, ex_callback\<lparr>Cookie := 0x600\<rparr>]"
    "CallbackPool ex_state_two = [0x500, 0x600]"
    by (simp_all add: ex_state_two_def)
  have c: "Cookie ex_callback = 0x500" "\<not> PendingDelete ex_callback"
    "Count (RundownRef ex_callback) = 0"
    by (simp_all add: ex_callback_def ExInitializeRundownProtection_def)
  from CmUnRegisterCallback_cases [OF d, of "0x700"]
  have a: "CmUnRegisterCallback 0x700 ex_state_two = (Returned STATUS_UNSUCCESSFUL, ex_state_two)"
    by (simp add: l c)
  from CmUnRegisterCallback_cases [OF d, of "0x500"]
  have b: "CmUnRegisterCallback 0x500 ex_state_two = (Returned STATUS_UNSUCCESSFUL, ex_state_two)"
    by (simp add: l c)
  from CmUnRegisterCallback_cases [OF d, of "0x600"]
  have e: "CmUnRegisterCallback 0x600 ex_state_two =
        (Returned STATUS_SUCCESS,
         ex_state_two\<lparr>CmiCallbackHead := [ex_callback\<lparr>PendingDelete := True\<rparr>],
                      CallbackPool := [0x500]\<rparr>)"
    by (auto simp: l c)
  have dh: "distinct (map Cookie (CmiCallbackHead ex_state_held))"
    by (simp add: ex_state_held_def)
  have lh: "CmiCallbackHead ex_state_held = [ex_held_callback]"
    "CallbackPool ex_state_held = [0x500]"
    by (simp_all add: ex_state_held_def)
  have ch: "Cookie ex_held_callback = 0x500" "\<not> PendingDelete ex_held_callback"
    "RundownRef ex_held_callback = \<lparr>Count = 1, Active = False\<rparr>"
    by (simp_all add: ex_held_callback_def ex_callback_def)
  have mem: "ex_held_callback \<in> set (CmiCallbackHead ex_state_held)"
    by (simp add: lh)
  have cnt: "Count (RundownRef ex_held_callback) \<noteq> 0"
    by (simp add: ch)
  from CmUnRegisterCallback_cases [OF dh, of "0x500", THEN conjunct2, THEN conjunct2,
      THEN bspec, OF mem, THEN mp, OF conjI [OF ch(1,2)]]
  obtain i where i: "i < length (CmiCallbackHead ex_state_held)"
    and w: "Count (RundownRef ex_held_callback) \<noteq> 0 \<longrightarrow>
      (\<exists>st_wait.
         CmUnRegisterCallback 0x500 ex_state_held = (Waiting 0x500, st_wait)
       \<and> st_wait = ex_state_held\<lparr>CmiCallbackHead := (CmiCallbackHead ex_state_held)
            [i := ex_held_callback\<lparr>PendingDelete := True,
                     RundownRef := (RundownRef ex_held_callback)\<lparr>Active := True\<rparr>\<rparr>]\<rparr>
       \<and> (\<forall>k < Count (RundownRef ex_held_callback).
             CmUnRegisterCallback_resume 0x500
               ((CmiCallRegisteredCallbacks_release 0x500 ^^ k) st_wait)
             = Some (Waiting 0x500, (CmiCallRegisteredCallbacks_release 0x500 ^^ k) st_wait))
       \<and> CmUnRegisterCallback_resume 0x500
            ((CmiCallRegisteredCallbacks_release 0x500 ^^ Count (RundownRef ex_held_callback))
               st_wait)
          = Some (Returned STATUS_SUCCESS,
              ex_state_held\<lparr>CmiCallbackHead :=
                  filter (\<lambda>y. Cookie y \<noteq> 0x500) (CmiCallbackHead ex_state_held),
                 CallbackPool := removeAll 0x500 (CallbackPool ex_state_held)\<rparr>))"
    by blast
  from i have i0: "i = 0" by (simp add: lh)
  have marked: "ex_held_callback\<lparr>PendingDelete := True,
      RundownRef := (RundownRef ex_held_callback)\<lparr>Active := True\<rparr>\<rparr> =
      ex_held_callback\<lparr>PendingDelete := True, RundownRef := \<lparr>Count = 1, Active = True\<rparr>\<rparr>"
    by (simp add: ch)
  have waiting: "ex_state_held\<lparr>CmiCallbackHead := (CmiCallbackHead ex_state_held)
            [i := ex_held_callback\<lparr>PendingDelete := True,
                     RundownRef := (RundownRef ex_held_callback)\<lparr>Active := True\<rparr>\<rparr>]\<rparr>
      = ex_state_waiting"
    unfolding marked i0 lh ex_state_waiting_def by simp
  have one: "Count (RundownRef ex_held_callback) = Suc 0"
    by (simp add: ch)
  from w cnt have h: "CmUnRegisterCallback 0x500 ex_state_held = (Waiting 0x500, ex_state_waiting)"
    "\<forall>k < Suc 0. CmUnRegisterCallback_resume 0x500
               ((CmiCallRegisteredCallbacks_release 0x500 ^^ k) ex_state_waiting)
             = Some (Waiting 0x500, (CmiCallRegisteredCallbacks_release 0x500 ^^ k) ex_state_waiting)"
    "CmUnRegisterCallback_resume 0x500
            ((CmiCallRegisteredCallbacks_release 0x500 ^^ Suc 0) ex_state_waiting)
          = Some (Returned STATUS_SUCCESS,
              ex_state_held\<lparr>CmiCallbackHead :=
                  filter (\<lambda>y. Cookie y \<noteq> 0x500) (CmiCallbackHead ex_state_held),
                 CallbackPool := removeAll 0x500 (CallbackPool ex_state_held)\<rparr>)"
    unfolding waiting one by blast+
  from h(2) have h2: "CmUnRegisterCallback_resume 0x500 ex_state_waiting
      = Some (Waiting 0x500, ex_state_waiting)"
    by simp
  from h(3) have h3: "CmUnRegisterCallback_resume 0x500
        (CmiCallRegisteredCallbacks_release 0x500 ex_state_waiting) =
        Some (Returned STATUS_SUCCESS, ex_state_held\<lparr>CmiCallbackHead := [], CallbackPool := []\<rparr>)"
    by (simp add: lh ch)
  have lw: "CmiCallbackHead ex_state_waiting =
        [ex_held_callback\<lparr>PendingDelete := True, RundownRef := \<lparr>Count = 1, Active = True\<rparr>\<rparr>]"
    by (simp add: ex_state_waiting_def)
  have lr: "CmiCallbackHead (CmiCallRegisteredCallbacks_release 0x500 ex_state_waiting) =
        [ex_held_callback\<lparr>PendingDelete := True, RundownRef := \<lparr>Count = 0, Active = True\<rparr>\<rparr>]"
    by (simp add: CmiCallRegisteredCallbacks_release_def lw ch ExReleaseRundownProtection_def)
  from d l(1) a b e dh lh(1) ch h(1) lw h2 lr h3 show ?thesis by simp
qed

subsection \<open>NtCreateKey and NtOpenKey on a key marked for delete\<close>

text \<open>
  A handle is valid for an access when the handle table maps it to a live object and grants
  the access; the flags of the key object play no part.
\<close>

lemma ObReferenceObjectByHandle_succeeds:
  "(\<exists>r. ObReferenceObjectByHandle h a st = Inr r) =
   (\<exists>e ko. HandleTable st h = Some e \<and> Objects st (Object e) = Some ko
      \<and> a AND NOT (GrantedAccess e) = 0)"
  by (auto simp: ObReferenceObjectByHandle_def split: option.splits)

lemma handles_kept:
  assumes "HandleTable st' = HandleTable st" and "dom (Objects st') = dom (Objects st)"
    and "\<exists>r. ObReferenceObjectByHandle h a st = Inr r"
  shows "\<exists>r. ObReferenceObjectByHandle h a st' = Inr r"
proof -
  from assms(3) obtain e ko where e: "HandleTable st h = Some e"
    "Objects st (Object e) = Some ko" "a AND NOT (GrantedAccess e) = 0"
    unfolding ObReferenceObjectByHandle_succeeds by blast
  from e(2) assms(2) obtain ko' where "Objects st' (Object e) = Some ko'"
    by (metis domD domI)
  with e assms(1) show ?thesis
    unfolding ObReferenceObjectByHandle_succeeds by auto
qed

lemma dom_ObDereferenceObject:
  "dom (Objects (ObDereferenceObject k st)) = dom (Objects st)"
  "HandleTable (ObDereferenceObject k st) = HandleTable st"
  "FreeHandles (ObDereferenceObject k st) = FreeHandles st"
  by (auto simp: ObDereferenceObject_def split: option.splits)

text \<open>
  The two entry points, each after its captures and its pre-callback have succeeded and
  the walk has resolved the whole name to a key object that is marked for delete.
\<close>

lemma NtCreateKey_marked_for_delete:
  assumes "ExGetPreviousMode X = KernelMode \<or>
           NT_SUCCESS (ProbeForWrite X KeyHandle)
           \<and> (Disposition = 0 \<or> NT_SUCCESS (ProbeForWrite X Disposition))"
    and "Class = 0 \<or> NT_SUCCESS (fst (ProbeAndCaptureUnicodeString X Class))"
    and "ObpCaptureObjectAttributes X ObjectAttributes = (CaptureStatus, Attributes, ObjectName)"
    and "NT_SUCCESS CaptureStatus"
    and "CmiCallRegisteredCallbacks RegNtPreCreateKey
           (REG_PRE_CREATE_KEY_INFORMATION ObjectName) st = (PreStatus, st1)"
    and "NT_SUCCESS PreStatus"
    and "CmFindObject X st1 ObjectName = (FindStatus, Some Obj, [], st2)"
    and "NT_SUCCESS FindStatus"
    and "Objects st2 Obj = Some ko"
    and "Flags ko AND KO_MARKED_FOR_DELETE \<noteq> 0"
  shows "\<exists>st'. NtCreateKey X KeyHandle DesiredAccess ObjectAttributes TitleIndex Class
                  CreateOptions Disposition st =
               Some (STATUS_UNSUCCESSFUL,
                     if ExGetPreviousMode X \<noteq> KernelMode then Some 0 else None, None, st')
           \<and> HandleTable st' = HandleTable st2 \<and> FreeHandles st' = FreeHandles st2
           \<and> (\<forall>h a. (\<exists>r. ObReferenceObjectByHandle h a st2 = Inr r) \<longrightarrow>
                      (\<exists>r. ObReferenceObjectByHandle h a st' = Inr r))"
proof -
  have pre: "fst (CmiCallLoop RegNtPreCreateKey (REG_PRE_CREATE_KEY_INFORMATION ObjectName)
                (CmiCallbackHead st) STATUS_SUCCESS (CallbackLog st)) = PreStatus"
    "st\<lparr>CallbackLog := snd (snd (CmiCallLoop RegNtPreCreateKey
         (REG_PRE_CREATE_KEY_INFORMATION ObjectName)
         (CmiCallbackHead st) STATUS_SUCCESS (CallbackLog st)))\<rparr> = st1"
    using assms(5) by (simp_all add: CmiCallRegisteredCallbacks_unfold)
  have cls: "\<not> NT_SUCCESS (fst (ProbeAndCaptureUnicodeString X Class)) \<Longrightarrow> Class = 0"
    using assms(2) by blast
  have "\<exists>st'. NtCreateKey X KeyHandle DesiredAccess ObjectAttributes TitleIndex Class
                  CreateOptions Disposition st =
               Some (STATUS_UNSUCCESSFUL,
                     if ExGetPreviousMode X \<noteq> KernelMode then Some 0 else None, None, st')
           \<and> HandleTable st' = HandleTable st2 \<and> FreeHandles st' = FreeHandles st2
           \<and> dom (Objects st') = dom (Objects st2)"
    using assms(1,3,4,6-10) pre cls
    by (auto simp: NtCreateKey_def CmiCallRegisteredCallbacks_unfold Let_def NT_SUCCESS_codes
        split: prod.splits)
  then obtain st' where r: "NtCreateKey X KeyHandle DesiredAccess ObjectAttributes TitleIndex Class
                  CreateOptions Disposition st =
               Some (STATUS_UNSUCCESSFUL,
                     if ExGetPreviousMode X \<noteq> KernelMode then Some 0 else None, None, st')"
    "HandleTable st' = HandleTable st2" "FreeHandles st' = FreeHandles st2"
    "dom (Objects st') = dom (Objects st2)"
    by blast
  have "\<exists>r. ObReferenceObjectByHandle h a st' = Inr r"
    if "\<exists>r. ObReferenceObjectByHandle h a st2 = Inr r" for h a
    using r(2) r(4) that by (rule handles_kept)
  with r(1-3) show ?thesis by blast
qed

lemma NtOpenKey_marked_for_delete:
  assumes "KeyHandle \<noteq> 0"
    and "ExGetPreviousMode X = KernelMode \<or> NT_SUCCESS (ProbeForWrite X KeyHandle)"
    and "ObpCaptureObjectAttributes X ObjectAttributes = (CaptureStatus, Attributes, ObjectName)"
    and "NT_SUCCESS CaptureStatus"
    and "ObjectName \<noteq> Some []"
    and "OpenName = map_option (\<lambda>Buffer. if last Buffer = BACKSLASH then butlast Buffer else Buffer)
           ObjectName"
    and "CmiCallRegisteredCallbacks RegNtPreOpenKey
           (REG_PRE_CREATE_KEY_INFORMATION OpenName) st = (PreStatus, st1)"
    and "NT_SUCCESS PreStatus"
    and "CmFindObject X st1 OpenName = (FindStatus, Some Obj, [], st2)"
    and "NT_SUCCESS FindStatus"
    and "Objects st2 Obj = Some ko"
    and "Flags ko AND KO_MARKED_FOR_DELETE \<noteq> 0"
  shows "\<exists>st'. NtOpenKey X KeyHandle DesiredAccess ObjectAttributes st =
               Some (STATUS_UNSUCCESSFUL,
                     if ExGetPreviousMode X \<noteq> KernelMode then Some 0 else None, st')
           \<and> HandleTable st' = HandleTable st2 \<and> FreeHandles st' = FreeHandles st2
           \<and> (\<forall>h a. (\<exists>r. ObReferenceObjectByHandle h a st2 = Inr r) \<longrightarrow>
                      (\<exists>r. ObReferenceObjectByHandle h a st' = Inr r))"
proof -
  have name: "(case ObjectName of None \<Rightarrow> None
        | Some Buffer \<Rightarrow> Some (if last Buffer = BACKSLASH then butlast Buffer else Buffer))
        = OpenName"
    using assms(6) by (simp split: option.splits)
  have pre: "fst (CmiCallLoop RegNtPreOpenKey (REG_PRE_CREATE_KEY_INFORMATION OpenName)
                (CmiCallbackHead st) STATUS_SUCCESS (CallbackLog st)) = PreStatus"
    "st\<lparr>CallbackLog := snd (snd (CmiCallLoop RegNtPreOpenKey
         (REG_PRE_CREATE_KEY_INFORMATION OpenName)
         (CmiCallbackHead st) STATUS_SUCCESS (CallbackLog st)))\<rparr> = st1"
    using assms(7) by (simp_all add: CmiCallRegisteredCallbacks_unfold)
  have "\<exists>st'. NtOpenKey X KeyHandle DesiredAccess ObjectAttributes st =
               Some (STATUS_UNSUCCESSFUL,
                     if ExGetPreviousMode X \<noteq> KernelMode then Some 0 else None, st')
           \<and> HandleTable st' = HandleTable st2 \<and> FreeHandles st' = FreeHandles st2
           \<and> dom (Objects st') = dom (Objects st2)"
    using assms(1-5,8-12) pre
    by (auto simp: NtOpenKey_def name CmiCallRegisteredCallbacks_unfold Let_def NT_SUCCESS_codes
        dom_ObDereferenceObject split: prod.splits)
  then obtain st' where r: "NtOpenKey X KeyHandle DesiredAccess ObjectAttributes st =
               Some (STATUS_UNSUCCESSFUL,
                     if ExGetPreviousMode X \<noteq> KernelMode then Some 0 else None, st')"
    "HandleTable st' = HandleTable st2" "FreeHandles st' = FreeHandles st2"
    "dom (Objects st') = dom (Objects st2)"
    by blast
  have "\<exists>r. ObReferenceObjectByHandle h a st' = Inr r"
    if "\<exists>r. ObReferenceObjectByHandle h a st2 = Inr r" for h a
    using r(2) r(4) that by (rule handles_kept)
  with r(1-3) show ?thesis by blast
qed

text \<open>
  C2. For a key object with \<^verbatim>\<open>KO_MARKED_FOR_DELETE\<close> set, NtCreateKey whose walk resolves
  to that object with an empty remaining path, and NtOpenKey that resolves to it, both
  return \<^verbatim>\<open>STATUS_UNSUCCESSFUL\<close> and issue no handle: the handle table and the supply of
  free handles are as the walk left them, and \<^verbatim>\<open>*KeyHandle\<close> holds at most the zero of the
  probe. Every handle that was valid before is valid after, the handles of the marked
  object included.
\<close>

theorem marked_for_delete_blocks_opens:
  "((ExGetPreviousMode X = KernelMode \<or>
       NT_SUCCESS (ProbeForWrite X KeyHandle)
       \<and> (Disposition = 0 \<or> NT_SUCCESS (ProbeForWrite X Disposition)))
    \<and> (Class = 0 \<or> NT_SUCCESS (fst (ProbeAndCaptureUnicodeString X Class)))
    \<and> ObpCaptureObjectAttributes X ObjectAttributes = (CaptureStatus, Attributes, ObjectName)
    \<and> NT_SUCCESS CaptureStatus
    \<and> CmiCallRegisteredCallbacks RegNtPreCreateKey
          (REG_PRE_CREATE_KEY_INFORMATION ObjectName) st = (PreStatus, st_pre)
    \<and> NT_SUCCESS PreStatus
    \<and> CmFindObject X st_pre ObjectName = (FindStatus, Some Obj, [], st_found)
    \<and> NT_SUCCESS FindStatus
    \<and> Objects st_found Obj = Some ko
    \<and> Flags ko AND KO_MARKED_FOR_DELETE \<noteq> 0
    \<longrightarrow> (\<exists>st'. NtCreateKey X KeyHandle DesiredAccess ObjectAttributes TitleIndex Class
                    CreateOptions Disposition st =
                 Some (STATUS_UNSUCCESSFUL,
                       if ExGetPreviousMode X \<noteq> KernelMode then Some 0 else None, None, st')
             \<and> HandleTable st' = HandleTable st_found \<and> FreeHandles st' = FreeHandles st_found
             \<and> (\<forall>h a. (\<exists>r. ObReferenceObjectByHandle h a st_found = Inr r) \<longrightarrow>
                        (\<exists>r. ObReferenceObjectByHandle h a st' = Inr r))))
   \<and> (KeyHandle \<noteq> 0
    \<and> (ExGetPreviousMode X = KernelMode \<or> NT_SUCCESS (ProbeForWrite X KeyHandle))
    \<and> ObpCaptureObjectAttributes X ObjectAttributes = (CaptureStatus, Attributes, ObjectName)
    \<and> NT_SUCCESS CaptureStatus
    \<and> ObjectName \<noteq> Some []
    \<and> OpenName = map_option (\<lambda>Buffer. if last Buffer = BACKSLASH then butlast Buffer else Buffer)
          ObjectName
    \<and> CmiCallRegisteredCallbacks RegNtPreOpenKey
          (REG_PRE_CREATE_KEY_INFORMATION OpenName) st = (OpenPreStatus, st_open_pre)
    \<and> NT_SUCCESS OpenPreStatus
    \<and> CmFindObject X st_open_pre OpenName = (OpenFindStatus, Some Obj, [], st_open_found)
    \<and> NT_SUCCESS OpenFindStatus
    \<and> Objects st_open_found Obj = Some ko
    \<and> Flags ko AND KO_MARKED_FOR_DELETE \<noteq> 0
    \<longrightarrow> (\<exists>st'. NtOpenKey X KeyHandle DesiredAccess ObjectAttributes st =
                 Some (STATUS_UNSUCCESSFUL,
                       if ExGetPreviousMode X \<noteq> KernelMode then Some 0 else None, st')
             \<and> HandleTable st' = HandleTable st_open_found \<and> FreeHandles st' = FreeHandles st_open_found
             \<and> (\<forall>h a. (\<exists>r. ObReferenceObjectByHandle h a st_open_found = Inr r) \<longrightarrow>
                        (\<exists>r. ObReferenceObjectByHandle h a st' = Inr r))))"
  apply (intro conjI impI)
   apply (elim conjE)
   apply (rule NtCreateKey_marked_for_delete; assumption)
  apply (elim conjE)
  apply (rule NtOpenKey_marked_for_delete; assumption)
  done

lemma ex_state_marked_facts:
  "CmiCallRegisteredCallbacks c a ex_state_marked = (STATUS_SUCCESS, ex_state_marked)"
  "Objects ex_state_marked 9 = Some (ex_object\<lparr>Flags := KO_MARKED_FOR_DELETE\<rparr>)"
  "HandleTable ex_state_marked 4 = Some ex_entry"
  by (simp_all add: CmiCallRegisteredCallbacks_def ex_state_marked_def ex_state_def)

lemma ex_externals_facts:
  "ExGetPreviousMode ex_externals = UserMode"
  "ProbeForWrite ex_externals p = STATUS_SUCCESS"
  "ObpCaptureObjectAttributes ex_externals p = (STATUS_SUCCESS, 0, Some [0x5C, 0x41])"
  "CmFindObject ex_externals st n = (STATUS_SUCCESS, Some 9, [], st)"
  by (simp_all add: ex_externals_def)

theorem marked_for_delete_blocks_opens_witness:
  "ExGetPreviousMode ex_externals = UserMode
   \<and> NT_SUCCESS (ProbeForWrite ex_externals 100)
   \<and> ObpCaptureObjectAttributes ex_externals 200 = (STATUS_SUCCESS, 0, Some [0x5C, 0x41])
   \<and> CmiCallRegisteredCallbacks RegNtPreCreateKey
        (REG_PRE_CREATE_KEY_INFORMATION (Some [0x5C, 0x41])) ex_state_marked
        = (STATUS_SUCCESS, ex_state_marked)
   \<and> CmiCallRegisteredCallbacks RegNtPreOpenKey
        (REG_PRE_CREATE_KEY_INFORMATION (Some [0x5C, 0x41])) ex_state_marked
        = (STATUS_SUCCESS, ex_state_marked)
   \<and> CmFindObject ex_externals ex_state_marked (Some [0x5C, 0x41])
        = (STATUS_SUCCESS, Some 9, [], ex_state_marked)
   \<and> Objects ex_state_marked 9 = Some (ex_object\<lparr>Flags := KO_MARKED_FOR_DELETE\<rparr>)
   \<and> Flags (ex_object\<lparr>Flags := KO_MARKED_FOR_DELETE\<rparr>) AND KO_MARKED_FOR_DELETE \<noteq> 0
   \<and> (\<exists>st'. NtCreateKey ex_externals 100 0xF003F 200 0 0 0 0 ex_state_marked =
          Some (STATUS_UNSUCCESSFUL, Some 0, None, st')
        \<and> HandleTable st' = HandleTable ex_state_marked
        \<and> (\<exists>r. ObReferenceObjectByHandle 4 KEY_QUERY_VALUE st' = Inr r))
   \<and> (\<exists>st'. NtOpenKey ex_externals 100 0xF003F 200 ex_state_marked =
          Some (STATUS_UNSUCCESSFUL, Some 0, st')
        \<and> HandleTable st' = HandleTable ex_state_marked
        \<and> (\<exists>r. ObReferenceObjectByHandle 4 KEY_QUERY_VALUE st' = Inr r))"
proof -
  have "Object ex_entry = 9" "KEY_QUERY_VALUE AND NOT (GrantedAccess ex_entry) = 0"
    by (simp_all add: ex_entry_def)
  with ex_state_marked_facts(2,3)
  have old: "\<exists>r. ObReferenceObjectByHandle 4 KEY_QUERY_VALUE ex_state_marked = Inr r"
    unfolding ObReferenceObjectByHandle_succeeds by simp
  have m: "Flags (ex_object\<lparr>Flags := KO_MARKED_FOR_DELETE\<rparr>) AND KO_MARKED_FOR_DELETE \<noteq> 0"
    by simp
  note inst = marked_for_delete_blocks_opens [where X = ex_externals and KeyHandle = 100
      and Disposition = 0 and Class = 0 and ObjectAttributes = 200
      and CaptureStatus = STATUS_SUCCESS and Attributes = 0 and ObjectName = "Some [0x5C, 0x41]"
      and st = ex_state_marked and PreStatus = STATUS_SUCCESS and st_pre = ex_state_marked
      and FindStatus = STATUS_SUCCESS and Obj = 9 and st_found = ex_state_marked
      and ko = "ex_object\<lparr>Flags := KO_MARKED_FOR_DELETE\<rparr>" and DesiredAccess = "0xF003F"
      and TitleIndex = 0 and CreateOptions = 0 and OpenName = "Some [0x5C, 0x41]"
      and OpenPreStatus = STATUS_SUCCESS and st_open_pre = ex_state_marked
      and OpenFindStatus = STATUS_SUCCESS and st_open_found = ex_state_marked]
  from inst have create: "\<exists>st'. NtCreateKey ex_externals 100 0xF003F 200 0 0 0 0 ex_state_marked =
          Some (STATUS_UNSUCCESSFUL, Some 0, None, st')
        \<and> HandleTable st' = HandleTable ex_state_marked
        \<and> (\<exists>r. ObReferenceObjectByHandle 4 KEY_QUERY_VALUE st' = Inr r)"
    using old by (simp add: ex_state_marked_facts ex_externals_facts NT_SUCCESS_codes) blast
  from inst have "open": "\<exists>st'. NtOpenKey ex_externals 100 0xF003F 200 ex_state_marked =
          Some (STATUS_UNSUCCESSFUL, Some 0, st')
        \<and> HandleTable st' = HandleTable ex_state_marked
        \<and> (\<exists>r. ObReferenceObjectByHandle 4 KEY_QUERY_VALUE st' = Inr r)"
    using old by (simp add: ex_state_marked_facts ex_externals_facts NT_SUCCESS_codes) blast
  from create "open" m show ?thesis
    by (simp add: ex_state_marked_facts ex_externals_facts NT_SUCCESS_codes)
qed

subsection \<open>The four value calls on the sample registry\<close>

text \<open>
  The value \<open>v\<close> of the key \<open>A\<close> has a packed name of one character and three bytes of
  data, held in its value cell. The queries return them with the lengths the headers give:
  a \<^verbatim>\<open>KEY_VALUE_PARTIAL_INFORMATION\<close> of 12 + 3 bytes, overflow with a buffer of 14 and
  \<^verbatim>\<open>STATUS_BUFFER_TOO_SMALL\<close> below 12.
\<close>

lemma ex_value_cell:
  "GetValueCell ex_hive 0x1E0 = Some ex_value"
  "CopyValueData ex_hive ex_value 3 = Some [1, 2, 3]"
  "CopyValueData ex_hive ex_value 2 = Some [1, 2]"
  "ValueCellNameSize ex_value = 2"
  "CopyValueName ex_value 2 = [0x76, 0]"
  "DataSize ex_value AND REG_DATA_SIZE_MASK = 3"
  "DataType ex_value = 3"
  by (simp_all add: GetValueCell_def HvGetCell_def ex_hive_def ex_cell_def CopyValueData_def
      ex_value_def ValueCellNameSize_def CopyValueName_def CmiCopyPackedName_def sizeof_WCHAR_def)

lemma NtQueryValueKey_sample:
  "NtQueryValueKey ex_externals 4 [0x76] KeyValuePartialInformation 64 ex_state =
     Some (STATUS_SUCCESS, Some (KEY_VALUE_PARTIAL_INFORMATION 0 3 3 [1, 2, 3]), Some 15, ex_state)"
  "NtQueryValueKey ex_externals 4 [0x76] KeyValuePartialInformation 14 ex_state =
     Some (STATUS_BUFFER_OVERFLOW, Some (KEY_VALUE_PARTIAL_INFORMATION 0 3 3 [1, 2]), Some 15,
           ex_state)"
  "NtQueryValueKey ex_externals 4 [0x76] KeyValuePartialInformation 8 ex_state =
     Some (STATUS_BUFFER_TOO_SMALL, None, Some 15, ex_state)"
  "NtQueryValueKey ex_externals 4 [0x76] KeyValueFullInformation 64 ex_state =
     Some (STATUS_SUCCESS, Some (KEY_VALUE_FULL_INFORMATION 0 3 24 3 2 [0x76, 0] [1, 2, 3]),
           Some 27, ex_state)"
  "NtQueryValueKey ex_externals 4 [0x77] KeyValuePartialInformation 64 ex_state =
     Some (STATUS_OBJECT_NAME_NOT_FOUND, None, None, ex_state)"
proof -
  have scan: "CmiScanKeyForValue ex_externals H n [0x76] = (STATUS_SUCCESS, 0x1E0)"
    "CmiScanKeyForValue ex_externals H n [0x77] = (STATUS_OBJECT_NAME_NOT_FOUND, HCELL_NULL)"
    for H n
    by (simp_all add: ex_externals_def)
  have acc: "KEY_QUERY_VALUE AND NOT (GrantedAccess ex_entry) = 0"
    by (simp add: ex_entry_def)
  have pre: "CmiCallRegisteredCallbacks c a
      (ex_state\<lparr>Objects := (Objects ex_state)(Object ex_entry \<mapsto>
         ex_object\<lparr>PointerCount := PointerCount ex_object + 1\<rparr>)\<rparr>) =
      (STATUS_SUCCESS, ex_state\<lparr>Objects := (Objects ex_state)(Object ex_entry \<mapsto>
         ex_object\<lparr>PointerCount := PointerCount ex_object + 1\<rparr>)\<rparr>)" for c a
    by (simp add: CmiCallRegisteredCallbacks_def ex_state_def)
  have kc: "KeyCell (ex_state\<lparr>Objects := O'\<rparr>) ko = KeyCell ex_state ko" for O' ko
    by (simp add: KeyCell_def)
  have kp: "KeyCell st (ko\<lparr>PointerCount := n\<rparr>) = KeyCell st ko" for st ko n
    by (simp add: KeyCell_def split: option.splits)
  have restored: "ex_state\<lparr>Objects := (Objects ex_state)(Object ex_entry \<mapsto> ex_object)\<rparr> = ex_state"
    by (simp add: ex_state_requery)
  note run = NtQueryValueKey_def ObReferenceObjectByHandle_def ObDereferenceObject_def
    ex_state_handle acc pre kc kp ex_state_cells scan NT_SUCCESS_codes ex_value_cell Let_def restored
    FIELD_OFFSET_KEY_VALUE_PARTIAL_INFORMATION_Data_def
    FIELD_OFFSET_KEY_VALUE_FULL_INFORMATION_Name_def sizeof_PVOID_def ROUND_UP_def
    KeyValuePartialInformation_case_def NtQueryValueKey_Full_def
  show "NtQueryValueKey ex_externals 4 [0x76] KeyValuePartialInformation 64 ex_state =
     Some (STATUS_SUCCESS, Some (KEY_VALUE_PARTIAL_INFORMATION 0 3 3 [1, 2, 3]), Some 15, ex_state)"
    by (simp add: run)
  show "NtQueryValueKey ex_externals 4 [0x76] KeyValuePartialInformation 14 ex_state =
     Some (STATUS_BUFFER_OVERFLOW, Some (KEY_VALUE_PARTIAL_INFORMATION 0 3 3 [1, 2]), Some 15,
           ex_state)"
    by (simp add: run)
  show "NtQueryValueKey ex_externals 4 [0x76] KeyValuePartialInformation 8 ex_state =
     Some (STATUS_BUFFER_TOO_SMALL, None, Some 15, ex_state)"
    by (simp add: run)
  show "NtQueryValueKey ex_externals 4 [0x76] KeyValueFullInformation 64 ex_state =
     Some (STATUS_SUCCESS, Some (KEY_VALUE_FULL_INFORMATION 0 3 24 3 2 [0x76, 0] [1, 2, 3]),
           Some 27, ex_state)"
    by (simp add: run)
  show "NtQueryValueKey ex_externals 4 [0x77] KeyValuePartialInformation 64 ex_state =
     Some (STATUS_OBJECT_NAME_NOT_FOUND, None, None, ex_state)"
    by (simp add: run)
qed

lemma ex_state_referenced:
  "CmiCallRegisteredCallbacks c a
      (ex_state\<lparr>Objects := (Objects ex_state)(Object ex_entry \<mapsto>
         ex_object\<lparr>PointerCount := PointerCount ex_object + 1\<rparr>)\<rparr>) =
      (STATUS_SUCCESS, ex_state\<lparr>Objects := (Objects ex_state)(Object ex_entry \<mapsto>
         ex_object\<lparr>PointerCount := PointerCount ex_object + 1\<rparr>)\<rparr>)"
  "KeyCell (st\<lparr>Objects := O'\<rparr>) ko = KeyCell st ko"
  "KeyCell st (ko\<lparr>PointerCount := n\<rparr>) = KeyCell st ko"
  "ex_state\<lparr>Objects := (Objects ex_state)(Object ex_entry \<mapsto> ex_object)\<rparr> = ex_state"
     apply (simp add: CmiCallRegisteredCallbacks_def ex_state_def)
    apply (simp add: KeyCell_def)
   apply (simp add: KeyCell_def split: option.splits)
  apply (simp add: ex_state_requery)
  done

lemma NtEnumerateValueKey_sample:
  "NtEnumerateValueKey ex_externals 4 0 KeyValueBasicInformation 64 ex_state =
     Some (STATUS_SUCCESS, Some (KEY_VALUE_BASIC_INFORMATION 0 3 2 [0x76, 0]), Some 14, ex_state)"
  "NtEnumerateValueKey ex_externals 4 0 KeyValueFullInformation 64 ex_state =
     Some (STATUS_SUCCESS, Some (KEY_VALUE_FULL_INFORMATION 0 3 24 3 2 [0x76, 0] [1, 2, 3]),
           Some 27, ex_state)"
  "NtEnumerateValueKey ex_externals 4 1 KeyValueBasicInformation 64 ex_state =
     Some (STATUS_NO_MORE_ENTRIES, None, None, ex_state)"
proof -
  have get: "CmiGetValueFromKeyByIndex ex_externals H n 0 = (STATUS_SUCCESS, 0x1E0)"
    "CmiGetValueFromKeyByIndex ex_externals H n 1 = (STATUS_NO_MORE_ENTRIES, HCELL_NULL)"
    for H n
    by (simp_all add: ex_externals_def)
  have acc: "KEY_QUERY_VALUE AND NOT (GrantedAccess ex_entry) = 0"
    by (simp add: ex_entry_def)
  note run = NtEnumerateValueKey_def ObReferenceObjectByHandle_def ObDereferenceObject_def
    ex_state_handle acc ex_state_referenced ex_state_cells get NT_SUCCESS_codes ex_value_cell
    Let_def FIELD_OFFSET_KEY_VALUE_BASIC_INFORMATION_Name_def
    FIELD_OFFSET_KEY_VALUE_FULL_INFORMATION_Name_def sizeof_PVOID_def ROUND_UP_def
    KeyValueBasicInformation_case_def NtEnumerateValueKey_Full_def ex_state_no_callbacks
  show "NtEnumerateValueKey ex_externals 4 0 KeyValueBasicInformation 64 ex_state =
     Some (STATUS_SUCCESS, Some (KEY_VALUE_BASIC_INFORMATION 0 3 2 [0x76, 0]), Some 14, ex_state)"
    by (simp add: run)
  show "NtEnumerateValueKey ex_externals 4 0 KeyValueFullInformation 64 ex_state =
     Some (STATUS_SUCCESS, Some (KEY_VALUE_FULL_INFORMATION 0 3 24 3 2 [0x76, 0] [1, 2, 3]),
           Some 27, ex_state)"
    by (simp add: run)
  show "NtEnumerateValueKey ex_externals 4 1 KeyValueBasicInformation 64 ex_state =
     Some (STATUS_NO_MORE_ENTRIES, None, None, ex_state)"
    by (simp add: run)
qed

lemma NtQueryMultipleValueKey_sample:
  "NtQueryMultipleValueKey ex_externals 4 [ex_value_entry, ex_value_entry] 2 0x1001 64 ex_state =
     Some (STATUS_SUCCESS,
           [ex_value_entry\<lparr>EntryDataLength := 3, EntryDataOffset := 3, EntryType := 3\<rparr>,
            ex_value_entry\<lparr>EntryDataLength := 3, EntryDataOffset := 7, EntryType := 3\<rparr>],
           [(0x1004, [1, 2, 3]), (0x1008, [1, 2, 3])], Some 7, Some 7, ex_state)"
  "NtQueryMultipleValueKey ex_externals 4 [ex_value_entry, ex_value_entry] 2 0x1001 6 ex_state =
     Some (STATUS_BUFFER_TOO_SMALL,
           [ex_value_entry\<lparr>EntryDataLength := 3, EntryDataOffset := 3, EntryType := 3\<rparr>,
            ex_value_entry],
           [(0x1004, [1, 2, 3])], None, Some 7, ex_state)"
  "NtQueryMultipleValueKey ex_externals 4 [ex_value_entry] 2 0x1001 64 ex_state = None"
proof -
  have scan: "CmiScanKeyForValue ex_externals H n (EntryValueName ex_value_entry)
      = (STATUS_SUCCESS, 0x1E0)" for H n
    by (simp add: ex_externals_def ex_value_entry_def)
  have acc: "KEY_QUERY_VALUE AND NOT (GrantedAccess ex_entry) = 0"
    by (simp add: ex_entry_def)
  have two: "unat (2 :: ULONG) = Suc (Suc 0)"
    by simp
  have loop2: "NtQueryMultipleValueKey_loop X H n B L 2 i acc =
      NtQueryMultipleValueKey_loop X H n B L (Suc (Suc 0)) i acc" for X H n B L i acc
    by (simp add: numeral_2_eq_2)
  note run = NtQueryMultipleValueKey_def ObReferenceObjectByHandle_def ObDereferenceObject_def
    ex_state_handle acc ex_state_referenced ex_state_cells scan NT_SUCCESS_codes ex_value_cell
    Let_def sizeof_PVOID_def ROUND_UP_def loop2
  show "NtQueryMultipleValueKey ex_externals 4 [ex_value_entry, ex_value_entry] 2 0x1001 64
      ex_state =
     Some (STATUS_SUCCESS,
           [ex_value_entry\<lparr>EntryDataLength := 3, EntryDataOffset := 3, EntryType := 3\<rparr>,
            ex_value_entry\<lparr>EntryDataLength := 3, EntryDataOffset := 7, EntryType := 3\<rparr>],
           [(0x1004, [1, 2, 3]), (0x1008, [1, 2, 3])], Some 7, Some 7, ex_state)"
    by (simp add: run)
  show "NtQueryMultipleValueKey ex_externals 4 [ex_value_entry, ex_value_entry] 2 0x1001 6
      ex_state =
     Some (STATUS_BUFFER_TOO_SMALL,
           [ex_value_entry\<lparr>EntryDataLength := 3, EntryDataOffset := 3, EntryType := 3\<rparr>,
            ex_value_entry],
           [(0x1004, [1, 2, 3])], None, Some 7, ex_state)"
    by (simp add: run)
  show "NtQueryMultipleValueKey ex_externals 4 [ex_value_entry] 2 0x1001 64 ex_state = None"
    by (simp add: run)
qed

lemma NtDeleteValueKey_sample:
  "\<exists>Hive'. NtDeleteValueKey ex_externals 4 300 ex_state =
     Some (STATUS_OBJECT_NAME_NOT_FOUND,
           ex_state\<lparr>Hives := [1 \<mapsto> Hive'], SyncRequests := 1\<rparr>)
   \<and> GetKeyNode Hive' 0x80 = Some (ex_node\<lparr>LastWriteTime := 0x1000\<rparr>)
   \<and> DirtyCells Hive' = [0x80]"
proof -
  have ext: "CmiDeleteValueFromKey ex_externals H n off p = (STATUS_OBJECT_NAME_NOT_FOUND, H)"
    "ProbeAndCaptureUnicodeString ex_externals p = (STATUS_SUCCESS, [])" for H n off p
    by (simp_all add: ex_externals_def)
  have acc: "KEY_SET_VALUE AND NOT (GrantedAccess ex_entry) = 0"
    by (simp add: ex_entry_def)
  have node: "GetKeyNode ex_hive 0x80 = Some ex_node"
    "KeyCellOffset ex_object = 0x80" "RegistryHive ex_object = 1"
    "SystemTime ex_state = 0x1000" "SyncRequests ex_state = 0" "Hives ex_state = [1 \<mapsto> ex_hive]"
    by (simp_all add: GetKeyNode_def HvGetCell_def ex_hive_def ex_object_def ex_cell_def
        ex_state_def)
  have cb: "CmiCallbackHead ex_state = []" "CallbackLog ex_state = []"
    by (simp_all add: ex_state_def)
  have kc: "KeyCell (st\<lparr>Objects := O', CallbackLog := L\<rparr>) ko = KeyCell st ko" for st O' L ko
    by (simp add: KeyCell_def)
  have run: "NtDeleteValueKey ex_externals 4 300 ex_state =
     Some (STATUS_OBJECT_NAME_NOT_FOUND,
           ex_state\<lparr>Hives := [1 \<mapsto> HvMarkCellDirty
               (WriteCell ex_hive 0x80 (KeyNode (ex_node\<lparr>LastWriteTime := 0x1000\<rparr>))) 0x80],
             SyncRequests := 1\<rparr>)"
    using ex_state_handle(1,2)
    by (simp add: NtDeleteValueKey_def ObReferenceObjectByHandle_def ObDereferenceObject_def
        ex_state_handle(3) acc ex_state_referenced(2-4) ex_state_cells ext NT_SUCCESS_codes
        node Let_def CmiCallRegisteredCallbacks_unfold cb(1) CmiSyncHives_def kc
        ex_state_requery)
  have read: "GetKeyNode (HvMarkCellDirty
      (WriteCell ex_hive 0x80 (KeyNode (ex_node\<lparr>LastWriteTime := 0x1000\<rparr>))) 0x80) 0x80
      = Some (ex_node\<lparr>LastWriteTime := 0x1000\<rparr>)"
    "DirtyCells (HvMarkCellDirty
      (WriteCell ex_hive 0x80 (KeyNode (ex_node\<lparr>LastWriteTime := 0x1000\<rparr>))) 0x80) = [0x80]"
    by (simp_all add: GetKeyNode_def HvGetCell_def HvMarkCellDirty_def WriteCell_def ex_hive_def
        ex_cell_def)
  from run read show ?thesis by blast
qed

end
